theory Spec2Isabelle
  imports Complex_Main "HOL-Library.Sublist"
begin

section \<open>Python calls into libraries: state, results and exceptions\<close>

text \<open>
  Both notebooks are Python scripts whose statements call into pandas, ctapipe,
  scikit-learn and torch. A library call may change state the script does not see
  (the heap behind a model or an optimizer, the file system), and it either returns a
  value or raises. A call is therefore a function from the state of the world to an
  outcome and the new state; the world is a type variable, so repository code can
  reach it only through the library.
\<close>

datatype error =
    KeyError string
  | IndexError
  | ValueError
  | TypeError
  | RuntimeError
  | FileNotFoundError
  | ZeroDivisionError

type_synonym ('w, 'a) py = "'w \<Rightarrow> (error + 'a) \<times> 'w"

definition ret :: "'a \<Rightarrow> ('w, 'a) py" where
  "ret a = (\<lambda>w. (Inr a, w))"

definition raise :: "error \<Rightarrow> ('w, 'a) py" where
  "raise e = (\<lambda>w. (Inl e, w))"

text \<open>
  Sequencing of two statements with no \<^verbatim>\<open>try\<close> around the first: when the
  first raises, the second is not run.
\<close>

definition then_py :: "('w, 'a) py \<Rightarrow> ('a \<Rightarrow> ('w, 'b) py) \<Rightarrow> ('w, 'b) py" where
  "then_py m f = (\<lambda>w. case m w of (Inl e, w') \<Rightarrow> (Inl e, w') | (Inr a, w') \<Rightarrow> f a w')"

section \<open>Regular expressions of the column filter\<close>

text \<open>
  The fragment of Python's \<^verbatim>\<open>re\<close> syntax that the notebook's pattern
  \<^verbatim>\<open>^(?!true_|obs_id|event_id).*$\<close> is written in. \<open>ends r s i\<close> lists the
  positions at which a match of \<open>r\<close> that starts at position \<open>i\<close> of \<open>s\<close> can end.
\<close>

datatype regex =
    Chars string
  | Alt regex regex
  | Cat regex regex
  | NotAhead regex
  | DotStar
  | Start
  | End

definition newline :: char where
  "newline = CHR 0x0A"

fun ends :: "regex \<Rightarrow> string \<Rightarrow> nat \<Rightarrow> nat list" where
  "ends (Chars l) s i = (if take (length l) (drop i s) = l then [i + length l] else [])"
| "ends (Alt a b) s i = ends a s i @ ends b s i"
| "ends (Cat a b) s i = concat (map (ends b s) (ends a s i))"
| "ends (NotAhead a) s i = (if ends a s i = [] then [i] else [])"
| "ends DotStar s i =
     rev (map (\<lambda>k. i + k) [0 ..< Suc (length (takeWhile (\<lambda>c. c \<noteq> newline) (drop i s)))])"
| "ends Start s i = (if i = 0 then [i] else [])"
| "ends End s i =
     (if i = length s \<or> (Suc i = length s \<and> s ! i = newline) then [i] else [])"

definition re_search :: "regex \<Rightarrow> string \<Rightarrow> bool" where
  "re_search r s = list_ex (\<lambda>i. ends r s i \<noteq> []) [0 ..< Suc (length s)]"

definition re_match :: "regex \<Rightarrow> string \<Rightarrow> bool" where
  "re_match r s = (ends r s 0 \<noteq> [])"

section \<open>Data frames\<close>

text \<open>
  A pandas data frame: row labels and columns, each column with a name, a dtype and
  one cell per row. A missing entry (NaN, None, NaT) is \<open>None\<close>. The dtype is a type
  variable: which dtypes count as numbers is the library's classification.
\<close>

datatype label = Pos nat | Name string

record ('d, 'v) column =
  col_name :: string
  col_dtype :: 'd
  cells :: "'v option list"

record ('d, 'v) frame =
  index :: "label list"
  cols :: "('d, 'v) column list"


text \<open>
  The pandas calls that \<^verbatim>\<open>preprocess\<close> makes, in the order of the record's
  fields. A series (the result of \<^verbatim>\<open>df.count()\<close> or of
  \<^verbatim>\<open>desc.loc['std']\<close>) is the list of its values, a column index the list of
  the column names.
\<close>

record ('w, 'd, 'v) frame_lib =
  df_filter :: "regex \<Rightarrow> ('d, 'v) frame \<Rightarrow> ('w, ('d, 'v) frame) py"
  select_dtypes_exclude :: "string list \<Rightarrow> ('d, 'v) frame \<Rightarrow> ('w, ('d, 'v) frame) py"
  df_columns :: "('d, 'v) frame \<Rightarrow> ('w, string list) py"
  df_drop :: "string list \<Rightarrow> ('d, 'v) frame \<Rightarrow> ('w, ('d, 'v) frame) py"
  df_count :: "('d, 'v) frame \<Rightarrow> ('w, 'v option list) py"
  series_eq :: "'v option list \<Rightarrow> 'v \<Rightarrow> ('w, bool list) py"
  index_getitem :: "string list \<Rightarrow> bool list \<Rightarrow> ('w, string list) py"
  df_describe :: "('d, 'v) frame \<Rightarrow> ('w, ('d, 'v) frame) py"
  df_loc :: "('d, 'v) frame \<Rightarrow> string \<Rightarrow> ('w, 'v option list) py"
  df_dropna :: "('d, 'v) frame \<Rightarrow> ('w, ('d, 'v) frame) py"

subsection \<open>What pandas documents for these calls\<close>

text \<open>
  \<^verbatim>\<open>DataFrame.filter(regex=r)\<close> keeps the columns whose name
  \<^verbatim>\<open>re.search\<close> finds a match of \<open>r\<close> in.
\<close>

definition pd_filter :: "regex \<Rightarrow> ('d, 'v) frame \<Rightarrow> ('d, 'v) frame" where
  "pd_filter r df = df\<lparr>cols := filter (\<lambda>c. re_search r (col_name c)) (cols df)\<rparr>"

text \<open>
  \<^verbatim>\<open>DataFrame.select_dtypes(exclude=kinds)\<close> keeps the columns whose dtype
  belongs to none of the kinds. \<open>dtype_in\<close> is the library's classification of
  dtypes (\<open>dtype_in ''number'' d\<close>: pandas regards \<open>d\<close> as a number).
\<close>

definition pd_select_dtypes_exclude ::
  "(string \<Rightarrow> 'd \<Rightarrow> bool) \<Rightarrow> string list \<Rightarrow> ('d, 'v) frame \<Rightarrow> ('d, 'v) frame" where
  "pd_select_dtypes_exclude dtype_in kinds df =
     df\<lparr>cols := filter (\<lambda>c. \<not> list_ex (\<lambda>k. dtype_in k (col_dtype c)) kinds) (cols df)\<rparr>"

definition pd_columns :: "('d, 'v) frame \<Rightarrow> string list" where
  "pd_columns df = map col_name (cols df)"

text \<open>
  \<^verbatim>\<open>DataFrame.drop(labels, axis='columns')\<close> raises KeyError for a label that
  names no column and otherwise removes every column that carries one of the labels.
\<close>

definition pd_drop :: "string list \<Rightarrow> ('d, 'v) frame \<Rightarrow> ('w, ('d, 'v) frame) py" where
  "pd_drop labels df =
     (case filter (\<lambda>l. l \<notin> set (pd_columns df)) labels of
        l # _ \<Rightarrow> raise (KeyError l)
      | [] \<Rightarrow> ret (df\<lparr>cols := filter (\<lambda>c. col_name c \<notin> set labels) (cols df)\<rparr>))"

definition pd_count :: "('d, 'v::semiring_1) frame \<Rightarrow> 'v option list" where
  "pd_count df = map (\<lambda>c. Some (of_nat (length (filter (\<lambda>x. x \<noteq> None) (cells c))))) (cols df)"

text \<open>\<^verbatim>\<open>series == v\<close>: elementwise, a missing entry equals nothing.\<close>

definition pd_series_eq :: "'v option list \<Rightarrow> 'v \<Rightarrow> bool list" where
  "pd_series_eq xs v = map (\<lambda>x. x = Some v) xs"

text \<open>Selection by a boolean mask; the selected rows or labels are those paired with True.\<close>

definition keep_where :: "bool list \<Rightarrow> 'a list \<Rightarrow> 'a list" where
  "keep_where sel xs = map fst (filter snd (zip xs sel))"

definition pd_index_getitem :: "string list \<Rightarrow> bool list \<Rightarrow> ('w, string list) py" where
  "pd_index_getitem ix sel =
     (if length sel \<noteq> length ix then raise IndexError else ret (keep_where sel ix))"

text \<open>
  \<^verbatim>\<open>DataFrame.describe()\<close> raises ValueError on a frame without columns. It
  summarises the numeric columns when there are any, and otherwise all columns with the
  statistics of non-numeric data (which have no \<^verbatim>\<open>std\<close> row). The statistics
  themselves are floating-point computations of the library: \<open>stat\<close> stands for them,
  and \<open>float64\<close> for the dtype of the summary's columns.
\<close>

definition numeric_stats :: "string list" where
  "numeric_stats = [''count'', ''mean'', ''std'', ''min'', ''25%'', ''50%'', ''75%'', ''max'']"

definition object_stats :: "string list" where
  "object_stats = [''count'', ''unique'', ''top'', ''freq'']"

definition summary :: "(string \<Rightarrow> 'v option list \<Rightarrow> 'v option) \<Rightarrow> 'd \<Rightarrow> string list \<Rightarrow>
    ('d, 'v) column list \<Rightarrow> ('d, 'v) frame" where
  "summary stat float64 stats cs =
     \<lparr>index = map Name stats,
      cols = map (\<lambda>c. \<lparr>col_name = col_name c, col_dtype = float64,
                         cells = map (\<lambda>s. stat s (cells c)) stats\<rparr>) cs\<rparr>"

definition pd_describe :: "(string \<Rightarrow> 'd \<Rightarrow> bool) \<Rightarrow> (string \<Rightarrow> 'v option list \<Rightarrow> 'v option) \<Rightarrow> 'd \<Rightarrow>
    ('d, 'v) frame \<Rightarrow> ('w, ('d, 'v) frame) py" where
  "pd_describe dtype_in stat float64 df =
     (if cols df = [] then raise ValueError
      else let num = filter (\<lambda>c. dtype_in ''number'' (col_dtype c)) (cols df)
           in if num = [] then ret (summary stat float64 object_stats (cols df))
              else ret (summary stat float64 numeric_stats num))"

text \<open>\<^verbatim>\<open>df.loc[l]\<close>: the row labelled \<open>l\<close>, KeyError when there is none.\<close>

fun position :: "'a \<Rightarrow> 'a list \<Rightarrow> nat option" where
  "position x [] = None"
| "position x (y # ys) = (if x = y then Some 0 else map_option Suc (position x ys))"

definition cell_at :: "nat \<Rightarrow> ('d, 'v) column \<Rightarrow> 'v option" where
  "cell_at i c = (if i < length (cells c) then cells c ! i else None)"

definition pd_loc :: "('d, 'v) frame \<Rightarrow> string \<Rightarrow> ('w, 'v option list) py" where
  "pd_loc df l =
     (case position (Name l) (index df) of
        None \<Rightarrow> raise (KeyError l)
      | Some i \<Rightarrow> ret (map (cell_at i) (cols df)))"

text \<open>
  \<^verbatim>\<open>DataFrame.dropna()\<close> keeps the rows in which no column has a missing entry.
  \<open>row_mask\<close> is the conjunction, row by row, of the columns' not-missing masks.
\<close>

definition notna :: "('d, 'v) column \<Rightarrow> bool list" where
  "notna c = map (\<lambda>x. x \<noteq> None) (cells c)"

fun row_mask :: "nat \<Rightarrow> ('d, 'v) column list \<Rightarrow> bool list" where
  "row_mask n [] = replicate n True"
| "row_mask n (c # cs) = map2 (\<and>) (notna c) (row_mask n cs)"

definition pd_dropna :: "('d, 'v) frame \<Rightarrow> ('d, 'v) frame" where
  "pd_dropna df =
     (let sel = row_mask (length (index df)) (cols df)
      in \<lparr>index = keep_where sel (index df),
          cols = map (\<lambda>c. c\<lparr>cells := keep_where sel (cells c)\<rparr>) (cols df)\<rparr>)"

definition pandas :: "(string \<Rightarrow> 'd \<Rightarrow> bool) \<Rightarrow> (string \<Rightarrow> 'v option list \<Rightarrow> 'v option) \<Rightarrow> 'd \<Rightarrow>
    ('w, 'd, 'v::semiring_1) frame_lib" where
  "pandas dtype_in stat float64 =
     \<lparr>df_filter = (\<lambda>r df. ret (pd_filter r df)),
      select_dtypes_exclude = (\<lambda>kinds df. ret (pd_select_dtypes_exclude dtype_in kinds df)),
      df_columns = (\<lambda>df. ret (pd_columns df)),
      df_drop = pd_drop,
      df_count = (\<lambda>df. ret (pd_count df)),
      series_eq = (\<lambda>xs v. ret (pd_series_eq xs v)),
      index_getitem = pd_index_getitem,
      df_describe = pd_describe dtype_in stat float64,
      df_loc = pd_loc,
      df_dropna = (\<lambda>df. ret (pd_dropna df))\<rparr>"

section \<open>The boosting notebook's functions on event tables\<close>

text \<open>
  \<^verbatim>\<open>forbidden_columns = 'true_|obs_id|event_id'\<close>
\<close>

definition forbidden_columns :: regex where
  "forbidden_columns = Alt (Chars ''true_'') (Alt (Chars ''obs_id'') (Chars ''event_id''))"

text \<open>
  \<^verbatim>\<open>
  def preprocess(df):
      df = df.filter(regex=f'^(?!{forbidden_columns}).*$')
      c = df.select_dtypes(exclude=['number']).columns
      df = df.drop(c, axis='columns')
      c = df.columns[df.count() == 0]
      df = df.drop(c, axis='columns')
      desc = df.describe()
      c = desc.columns[desc.loc['std'] == 0]
      df = df.drop(c, axis='columns')
      df = df.dropna()
      return df
  \<close>
\<close>

definition preprocess :: "('w, 'd, 'v::semiring_1) frame_lib \<Rightarrow> ('d, 'v) frame \<Rightarrow> ('w, ('d, 'v) frame) py" where
  "preprocess lib df0 =
     then_py (df_filter lib (Cat Start (Cat (NotAhead forbidden_columns) (Cat DotStar End))) df0) (\<lambda>df1.
     then_py (select_dtypes_exclude lib [''number''] df1) (\<lambda>other.
     then_py (df_columns lib other) (\<lambda>c.
     then_py (df_drop lib c df1) (\<lambda>df2.
     then_py (df_columns lib df2) (\<lambda>names.
     then_py (df_count lib df2) (\<lambda>counts.
     then_py (series_eq lib counts 0) (\<lambda>sel.
     then_py (index_getitem lib names sel) (\<lambda>c.
     then_py (df_drop lib c df2) (\<lambda>df3.
     then_py (df_describe lib df3) (\<lambda>desc.
     then_py (df_columns lib desc) (\<lambda>names.
     then_py (df_loc lib desc ''std'') (\<lambda>std.
     then_py (series_eq lib std 0) (\<lambda>sel.
     then_py (index_getitem lib names sel) (\<lambda>c.
     then_py (df_drop lib c df3) (\<lambda>df4.
     df_dropna lib df4)))))))))))))))"


text \<open>
  The ctapipe calls of \<^verbatim>\<open>read_events\<close>. A loader and a table are handles;
  \<^verbatim>\<open>remove_columns\<close> changes the table in place. The loader is constructed from
  a path and the keyword arguments that the call gives.
\<close>

record ('w, 'ld, 'tb, 'd, 'v) table_lib =
  TableLoader :: "string \<Rightarrow> (string \<times> bool) list \<Rightarrow> ('w, 'ld) py"
  read_telescope_events :: "'ld \<Rightarrow> ('w, 'tb) py"
  remove_columns :: "'tb \<Rightarrow> string list \<Rightarrow> ('w, unit) py"
  to_pandas :: "'tb \<Rightarrow> ('w, ('d, 'v) frame) py"

text \<open>
  \<^verbatim>\<open>
  def read_events(path):
      loader = TableLoader(
          path,
          load_dl2_geometry=True,
          load_instrument=True,
          load_simulated=True,
      )
      table = loader.read_telescope_events()
      # these two columns are arrays in each row, which is not supported by pandas
      table.remove_columns(['tels_with_trigger', 'HillasReconstructor_tel_ids'])
      # convert astropy.table.Table to pd.DataFrame
      return table.to_pandas()
  \<close>
\<close>

definition read_events :: "('w, 'ld, 'tb, 'd, 'v) table_lib \<Rightarrow> string \<Rightarrow> ('w, ('d, 'v) frame) py" where
  "read_events lib path =
     then_py (TableLoader lib path
        [(''load_dl2_geometry'', True), (''load_instrument'', True), (''load_simulated'', True)]) (\<lambda>loader.
     then_py (read_telescope_events lib loader) (\<lambda>table.
     then_py (remove_columns lib table [''tels_with_trigger'', ''HillasReconstructor_tel_ids'']) (\<lambda>_.
     to_pandas lib table)))"

text \<open>
  The pandas and numpy calls of \<^verbatim>\<open>feature_generation\<close>: reading and assigning
  a column, arithmetic on columns. An assignment changes the frame in place; the model
  returns the changed frame.
\<close>

record ('w, 'd, 'v) series_lib =
  df_getitem :: "('d, 'v) frame \<Rightarrow> string \<Rightarrow> ('w, 'v option list) py"
  df_setitem :: "('d, 'v) frame \<Rightarrow> string \<Rightarrow> 'v option list \<Rightarrow> ('w, ('d, 'v) frame) py"
  series_mul :: "'v option list \<Rightarrow> 'v option list \<Rightarrow> ('w, 'v option list) py"
  series_truediv :: "'v option list \<Rightarrow> 'v option list \<Rightarrow> ('w, 'v option list) py"
  series_sub :: "'v option list \<Rightarrow> 'v option list \<Rightarrow> ('w, 'v option list) py"
  series_add :: "'v option list \<Rightarrow> 'v option list \<Rightarrow> ('w, 'v option list) py"
  series_pow :: "'v option list \<Rightarrow> int \<Rightarrow> ('w, 'v option list) py"
  np_sqrt :: "'v option list \<Rightarrow> ('w, 'v option list) py"

text \<open>
  \<^verbatim>\<open>
  def feature_generation(df):
      df['awesome_feature'] =  df['hillas_intensity'] * (df['hillas_width'] / df['hillas_length'])

      # distance of impact point to the telescope
      df['impact'] = np.sqrt(
          (df['HillasReconstructor_core_x'] - df['pos_x'])**2
          + (df['HillasReconstructor_core_y'] - df['pos_y'])**2
      )
      return df
  \<close>
  Python evaluates the operands of an operator from left to right and the right-hand
  side of an assignment before the assignment.
\<close>

definition feature_generation :: "('w, 'd, 'v) series_lib \<Rightarrow> ('d, 'v) frame \<Rightarrow> ('w, ('d, 'v) frame) py" where
  "feature_generation lib df0 =
     then_py (df_getitem lib df0 ''hillas_intensity'') (\<lambda>intensity.
     then_py (df_getitem lib df0 ''hillas_width'') (\<lambda>width.
     then_py (df_getitem lib df0 ''hillas_length'') (\<lambda>len.
     then_py (series_truediv lib width len) (\<lambda>ratio.
     then_py (series_mul lib intensity ratio) (\<lambda>feature.
     then_py (df_setitem lib df0 ''awesome_feature'' feature) (\<lambda>df1.
     then_py (df_getitem lib df1 ''HillasReconstructor_core_x'') (\<lambda>core_x.
     then_py (df_getitem lib df1 ''pos_x'') (\<lambda>pos_x.
     then_py (series_sub lib core_x pos_x) (\<lambda>dx.
     then_py (series_pow lib dx 2) (\<lambda>dx2.
     then_py (df_getitem lib df1 ''HillasReconstructor_core_y'') (\<lambda>core_y.
     then_py (df_getitem lib df1 ''pos_y'') (\<lambda>pos_y.
     then_py (series_sub lib core_y pos_y) (\<lambda>dy.
     then_py (series_pow lib dy 2) (\<lambda>dy2.
     then_py (series_add lib dx2 dy2) (\<lambda>squares.
     then_py (np_sqrt lib squares) (\<lambda>impact.
     then_py (df_setitem lib df1 ''impact'' impact) (\<lambda>df2.
     ret df2)))))))))))))))))"

section \<open>The torch notebook's training and evaluation functions\<close>

text \<open>
  Python's \<^verbatim>\<open>for x in xs: body\<close> over a finite iterable whose items are fetched
  by library calls (the batches of a \<^verbatim>\<open>DataLoader\<close> over a data set with a
  length, the stages of a fitted ensemble): the list holds one fetch per item, the loop
  carries the variables that the body assigns. A
  fetch or a body that raises ends the loop.
\<close>

fun for_py :: "('w, 'a) py list \<Rightarrow> ('a \<Rightarrow> 's \<Rightarrow> ('w, 's) py) \<Rightarrow> 's \<Rightarrow> ('w, 's) py" where
  "for_py [] body s = ret s"
| "for_py (fetch # rest) body s =
     then_py fetch (\<lambda>x. then_py (body x s) (\<lambda>s'. for_py rest body s'))"

text \<open>
  The torch calls of the notebook's functions. A model, an optimizer and a loader are
  handles: parameters, gradients and the data live in the world. A tensor of class indices (labels,
  the result of \<^verbatim>\<open>argmax\<close>) is the list of its entries, a tensor of booleans
  and one of floats likewise; \<open>'x\<close> are batches of inputs, \<open>'p\<close> batches of scores,
  \<open>'l\<close> tensors with a single entry. Python floats are modelled as rationals, without
  rounding. The grad mode is a flag of the world that \<^verbatim>\<open>torch.no_grad\<close> saves,
  clears and restores.
\<close>

record ('w, 'm, 'o, 'dev, 'dl, 'x, 'p, 'l) torch_lib =
  iterate :: "'dl \<Rightarrow> ('w, ('w, 'x \<times> int list) py list) py"
  module_to :: "'m \<Rightarrow> 'dev \<Rightarrow> ('w, 'm) py"
  module_train :: "'m \<Rightarrow> ('w, unit) py"
  module_eval :: "'m \<Rightarrow> ('w, unit) py"
  input_to :: "'x \<Rightarrow> 'dev \<Rightarrow> ('w, 'x) py"
  labels_to :: "int list \<Rightarrow> 'dev \<Rightarrow> ('w, int list) py"
  forward :: "'m \<Rightarrow> 'x \<Rightarrow> ('w, 'p) py"
  zero_grad :: "'o \<Rightarrow> ('w, unit) py"
  backward :: "'l \<Rightarrow> ('w, unit) py"
  step :: "'o \<Rightarrow> ('w, unit) py"
  item :: "'l \<Rightarrow> ('w, rat) py"
  tensor_len :: "int list \<Rightarrow> ('w, nat) py"
  argmax :: "'p \<Rightarrow> nat \<Rightarrow> ('w, int list) py"
  tensor_eq :: "int list \<Rightarrow> int list \<Rightarrow> ('w, bool list) py"
  as_float :: "bool list \<Rightarrow> ('w, rat list) py"
  tensor_sum :: "rat list \<Rightarrow> ('w, 'l) py"
  cat :: "int list list \<Rightarrow> ('w, int list) py"
  is_grad_enabled :: "'w \<Rightarrow> bool"
  set_grad_enabled :: "bool \<Rightarrow> 'w \<Rightarrow> 'w"

text \<open>
  \<^verbatim>\<open>for X, y in dataloader: body\<close>: Python first asks the loader for an
  iterator, which gives the fetches of this pass over the data.
\<close>

definition for_batches :: "('w, 'm, 'o, 'dev, 'dl, 'x, 'p, 'l) torch_lib \<Rightarrow> 'dl \<Rightarrow>
    ('x \<times> int list \<Rightarrow> 's \<Rightarrow> ('w, 's) py) \<Rightarrow> 's \<Rightarrow> ('w, 's) py" where
  "for_batches lib dataloader body s =
     then_py (iterate lib dataloader) (\<lambda>fetches. for_py fetches body s)"

text \<open>
  \<^verbatim>\<open>with torch.no_grad(): body\<close>. The context manager's exit restores the
  grad mode whether the body returned or raised, and does not suppress the exception.
\<close>

definition no_grad :: "('w, 'm, 'o, 'dev, 'dl, 'x, 'p, 'l) torch_lib \<Rightarrow> ('w, 'a) py \<Rightarrow> ('w, 'a) py" where
  "no_grad lib body =
     (\<lambda>w. let prev = is_grad_enabled lib w;
              (r, w') = body (set_grad_enabled lib False w)
          in (r, set_grad_enabled lib prev w'))"

text \<open>
  \<^verbatim>\<open>
  def train(dataloader, model, loss_fn, optimizer, device=DEVICE):
      model = model.to(device)
      model.train()
      losses = []
      for X, y in dataloader:
          X, y = X.to(device), y.to(device)
          pred = model(X)
          loss = loss_fn(pred, y)
          optimizer.zero_grad()
          loss.backward()
          optimizer.step()
          losses.append(loss.item())
      return losses
  \<close>
\<close>

definition train_batch :: "('w, 'm, 'o, 'dev, 'dl, 'x, 'p, 'l) torch_lib \<Rightarrow> 'm \<Rightarrow>
    ('p \<Rightarrow> int list \<Rightarrow> ('w, 'l) py) \<Rightarrow> 'o \<Rightarrow> 'dev \<Rightarrow> 'x \<times> int list \<Rightarrow> rat list \<Rightarrow> ('w, rat list) py" where
  "train_batch lib model loss_fn optimizer device = (\<lambda>(X, y) losses.
     then_py (input_to lib X device) (\<lambda>X.
     then_py (labels_to lib y device) (\<lambda>y.
     then_py (forward lib model X) (\<lambda>pred.
     then_py (loss_fn pred y) (\<lambda>loss.
     then_py (zero_grad lib optimizer) (\<lambda>_.
     then_py (backward lib loss) (\<lambda>_.
     then_py (step lib optimizer) (\<lambda>_.
     then_py (item lib loss) (\<lambda>v.
     ret (losses @ [v]))))))))))"

definition train :: "('w, 'm, 'o, 'dev, 'dl, 'x, 'p, 'l) torch_lib \<Rightarrow> 'dl \<Rightarrow> 'm \<Rightarrow>
    ('p \<Rightarrow> int list \<Rightarrow> ('w, 'l) py) \<Rightarrow> 'o \<Rightarrow> 'dev \<Rightarrow> ('w, rat list) py" where
  "train lib dataloader model loss_fn optimizer device =
     then_py (module_to lib model device) (\<lambda>model.
     then_py (module_train lib model) (\<lambda>_.
     for_batches lib dataloader (train_batch lib model loss_fn optimizer device) []))"

text \<open>
  \<^verbatim>\<open>
  def test(dataloader, model, loss_fn, device=DEVICE):
      model = model.to(device)
      test_losses = []
      with torch.no_grad():
          model.eval()
          for X, y in dataloader:
              X, y = X.to(device), y.to(device)
              pred = model(X)
              test_losses.append(loss_fn(pred, y).item())
      return test_losses
  \<close>
\<close>

definition test_batch :: "('w, 'm, 'o, 'dev, 'dl, 'x, 'p, 'l) torch_lib \<Rightarrow> 'm \<Rightarrow>
    ('p \<Rightarrow> int list \<Rightarrow> ('w, 'l) py) \<Rightarrow> 'dev \<Rightarrow> 'x \<times> int list \<Rightarrow> rat list \<Rightarrow> ('w, rat list) py" where
  "test_batch lib model loss_fn device = (\<lambda>(X, y) test_losses.
     then_py (input_to lib X device) (\<lambda>X.
     then_py (labels_to lib y device) (\<lambda>y.
     then_py (forward lib model X) (\<lambda>pred.
     then_py (loss_fn pred y) (\<lambda>loss.
     then_py (item lib loss) (\<lambda>v.
     ret (test_losses @ [v])))))))"

definition test :: "('w, 'm, 'o, 'dev, 'dl, 'x, 'p, 'l) torch_lib \<Rightarrow> 'dl \<Rightarrow> 'm \<Rightarrow>
    ('p \<Rightarrow> int list \<Rightarrow> ('w, 'l) py) \<Rightarrow> 'dev \<Rightarrow> ('w, rat list) py" where
  "test lib dataloader model loss_fn device =
     then_py (module_to lib model device) (\<lambda>model.
     no_grad lib
       (then_py (module_eval lib model) (\<lambda>_.
        for_batches lib dataloader (test_batch lib model loss_fn device) [])))"

text \<open>
  \<^verbatim>\<open>
  def accuracy(dataloader, model, device=DEVICE):
      correct = 0
      total = 0
      model = model.to(device)
      with torch.no_grad():
          model.eval()
          for X, y in dataloader:
              X, y = X.to(device), y.to(device)
              pred = model(X)
              total += len(y)
              correct += (pred.argmax(1) == y).type(torch.float).sum().item()
      return correct / total
  \<close>
  The loop carries \<open>(correct, total)\<close>. Python raises ZeroDivisionError when
  \<^verbatim>\<open>total\<close> is 0.
\<close>

definition accuracy_batch :: "('w, 'm, 'o, 'dev, 'dl, 'x, 'p, 'l) torch_lib \<Rightarrow> 'm \<Rightarrow> 'dev \<Rightarrow>
    'x \<times> int list \<Rightarrow> rat \<times> nat \<Rightarrow> ('w, rat \<times> nat) py" where
  "accuracy_batch lib model device = (\<lambda>(X, y) (correct, total).
     then_py (input_to lib X device) (\<lambda>X.
     then_py (labels_to lib y device) (\<lambda>y.
     then_py (forward lib model X) (\<lambda>pred.
     then_py (tensor_len lib y) (\<lambda>n.
     then_py (argmax lib pred 1) (\<lambda>classes.
     then_py (tensor_eq lib classes y) (\<lambda>hits.
     then_py (as_float lib hits) (\<lambda>floats.
     then_py (tensor_sum lib floats) (\<lambda>s.
     then_py (item lib s) (\<lambda>v.
     ret (correct + v, total + n)))))))))))"

definition py_truediv :: "rat \<Rightarrow> nat \<Rightarrow> ('w, rat) py" where
  "py_truediv a n = (if n = 0 then raise ZeroDivisionError else ret (a / of_nat n))"

definition accuracy :: "('w, 'm, 'o, 'dev, 'dl, 'x, 'p, 'l) torch_lib \<Rightarrow> 'dl \<Rightarrow> 'm \<Rightarrow>
    'dev \<Rightarrow> ('w, rat) py" where
  "accuracy lib dataloader model device =
     then_py (module_to lib model device) (\<lambda>model.
     then_py (no_grad lib
       (then_py (module_eval lib model) (\<lambda>_.
        for_batches lib dataloader (accuracy_batch lib model device) (0, 0)))) (\<lambda>(correct, total).
     py_truediv correct total))"

text \<open>
  \<^verbatim>\<open>
  def predictions(dataloader, model, device=DEVICE):
      predictions = []
      truth = []
      model = model.to(device)
      with torch.no_grad():
          model.eval()
          for X, y in dataloader:
              X, y = X.to(device), y.to(device)
              predictions.append(model(X).argmax(1))
              truth.append(y)
      return torch.cat(predictions), torch.cat(truth)
  \<close>
\<close>

definition predictions_batch :: "('w, 'm, 'o, 'dev, 'dl, 'x, 'p, 'l) torch_lib \<Rightarrow> 'm \<Rightarrow> 'dev \<Rightarrow>
    'x \<times> int list \<Rightarrow> int list list \<times> int list list \<Rightarrow> ('w, int list list \<times> int list list) py" where
  "predictions_batch lib model device = (\<lambda>(X, y) (predictions, truth).
     then_py (input_to lib X device) (\<lambda>X.
     then_py (labels_to lib y device) (\<lambda>y.
     then_py (forward lib model X) (\<lambda>pred.
     then_py (argmax lib pred 1) (\<lambda>classes.
     ret (predictions @ [classes], truth @ [y]))))))"

definition predictions :: "('w, 'm, 'o, 'dev, 'dl, 'x, 'p, 'l) torch_lib \<Rightarrow> 'dl \<Rightarrow> 'm \<Rightarrow>
    'dev \<Rightarrow> ('w, int list \<times> int list) py" where
  "predictions lib dataloader model device =
     then_py (module_to lib model device) (\<lambda>model.
     then_py (no_grad lib
       (then_py (module_eval lib model) (\<lambda>_.
        for_batches lib dataloader (predictions_batch lib model device) ([], [])))) (\<lambda>(predictions, truth).
     then_py (cat lib predictions) (\<lambda>p.
     then_py (cat lib truth) (\<lambda>t.
     ret (p, t)))))"

subsection \<open>What torch documents for the tensor calls\<close>

text \<open>
  Comparison broadcasts a tensor with a single entry against the other one and raises
  RuntimeError on two lengths that differ otherwise; \<^verbatim>\<open>torch.cat\<close> raises on
  an empty list (ValueError in current versions of torch).
\<close>

definition torch_eq :: "int list \<Rightarrow> int list \<Rightarrow> ('w, bool list) py" where
  "torch_eq a b =
     (if length a = length b then ret (map2 (=) a b)
      else if length a = 1 then ret (map (\<lambda>v. hd a = v) b)
      else if length b = 1 then ret (map (\<lambda>u. u = hd b) a)
      else raise RuntimeError)"

definition torch_cat :: "int list list \<Rightarrow> ('w, int list) py" where
  "torch_cat ts = (if ts = [] then raise ValueError else ret (concat ts))"




section \<open>Recording the outcome of every library call\<close>

text \<open>
  To state what happens to an exception that a library call raises, the calls are
  recorded: \<open>logged call\<close> behaves as \<open>call\<close> and appends to a log, kept beside the
  world, whether the call returned or which exception it raised. \<open>logged_tables\<close>,
  \<open>logged_frames\<close>, \<open>logged_series\<close> and \<open>logged_torch\<close> record every call of a
  library. Saving and restoring the grad mode around a \<^verbatim>\<open>torch.no_grad\<close> block
  does not fail and is not recorded.
\<close>

datatype outcome = Returned | Raised error

definition logged :: "('w, 'a) py \<Rightarrow> ('w \<times> outcome list, 'a) py" where
  "logged call = (\<lambda>(w, hist).
     case call w of
       (Inl e, w') \<Rightarrow> (Inl e, (w', hist @ [Raised e]))
     | (Inr a, w') \<Rightarrow> (Inr a, (w', hist @ [Returned])))"

text \<open>The fetches that an iterator or a generator hands out are library calls as well.\<close>

definition logged_fetches :: "('w, ('w, 'a) py list) py \<Rightarrow>
    ('w \<times> outcome list, ('w \<times> outcome list, 'a) py list) py" where
  "logged_fetches call = then_py (logged call) (\<lambda>fetches. ret (map logged fetches))"

definition logged_tables :: "('w, 'ld, 'tb, 'd, 'v) table_lib \<Rightarrow> ('w \<times> outcome list, 'ld, 'tb, 'd, 'v) table_lib" where
  "logged_tables lib =
     \<lparr>TableLoader = (\<lambda>path kwargs. logged (TableLoader lib path kwargs)),
      read_telescope_events = (\<lambda>loader. logged (read_telescope_events lib loader)),
      remove_columns = (\<lambda>table names. logged (remove_columns lib table names)),
      to_pandas = (\<lambda>table. logged (to_pandas lib table))\<rparr>"

definition logged_frames :: "('w, 'd, 'v) frame_lib \<Rightarrow> ('w \<times> outcome list, 'd, 'v) frame_lib" where
  "logged_frames lib =
     \<lparr>df_filter = (\<lambda>r df. logged (df_filter lib r df)),
      select_dtypes_exclude = (\<lambda>kinds df. logged (select_dtypes_exclude lib kinds df)),
      df_columns = (\<lambda>df. logged (df_columns lib df)),
      df_drop = (\<lambda>labels df. logged (df_drop lib labels df)),
      df_count = (\<lambda>df. logged (df_count lib df)),
      series_eq = (\<lambda>xs v. logged (series_eq lib xs v)),
      index_getitem = (\<lambda>ix sel. logged (index_getitem lib ix sel)),
      df_describe = (\<lambda>df. logged (df_describe lib df)),
      df_loc = (\<lambda>df l. logged (df_loc lib df l)),
      df_dropna = (\<lambda>df. logged (df_dropna lib df))\<rparr>"

definition logged_series :: "('w, 'd, 'v) series_lib \<Rightarrow> ('w \<times> outcome list, 'd, 'v) series_lib" where
  "logged_series lib =
     \<lparr>df_getitem = (\<lambda>df l. logged (df_getitem lib df l)),
      df_setitem = (\<lambda>df l xs. logged (df_setitem lib df l xs)),
      series_mul = (\<lambda>xs ys. logged (series_mul lib xs ys)),
      series_truediv = (\<lambda>xs ys. logged (series_truediv lib xs ys)),
      series_sub = (\<lambda>xs ys. logged (series_sub lib xs ys)),
      series_add = (\<lambda>xs ys. logged (series_add lib xs ys)),
      series_pow = (\<lambda>xs n. logged (series_pow lib xs n)),
      np_sqrt = (\<lambda>xs. logged (np_sqrt lib xs))\<rparr>"

definition logged_torch :: "('w, 'm, 'o, 'dev, 'dl, 'x, 'p, 'l) torch_lib \<Rightarrow>
    ('w \<times> outcome list, 'm, 'o, 'dev, 'dl, 'x, 'p, 'l) torch_lib" where
  "logged_torch lib =
     \<lparr>iterate = (\<lambda>dl. logged_fetches (iterate lib dl)),
      module_to = (\<lambda>m d. logged (module_to lib m d)),
      module_train = (\<lambda>m. logged (module_train lib m)),
      module_eval = (\<lambda>m. logged (module_eval lib m)),
      input_to = (\<lambda>X d. logged (input_to lib X d)),
      labels_to = (\<lambda>y d. logged (labels_to lib y d)),
      forward = (\<lambda>m X. logged (forward lib m X)),
      zero_grad = (\<lambda>opt. logged (zero_grad lib opt)),
      backward = (\<lambda>loss. logged (backward lib loss)),
      step = (\<lambda>opt. logged (step lib opt)),
      item = (\<lambda>s. logged (item lib s)),
      tensor_len = (\<lambda>y. logged (tensor_len lib y)),
      argmax = (\<lambda>p dim. logged (argmax lib p dim)),
      tensor_eq = (\<lambda>a b. logged (tensor_eq lib a b)),
      as_float = (\<lambda>bs. logged (as_float lib bs)),
      tensor_sum = (\<lambda>fs. logged (tensor_sum lib fs)),
      cat = (\<lambda>ts. logged (cat lib ts)),
      is_grad_enabled = (\<lambda>(w, hist). is_grad_enabled lib w),
      set_grad_enabled = (\<lambda>b (w, hist). (set_grad_enabled lib b w, hist))\<rparr>"

text \<open>
  \<open>quiet hist\<close>: no recorded call has raised. A computation propagates exceptions
  unchanged when, started after calls that all returned, every run in which a library
  call raises \<open>e\<close> ends by raising that same \<open>e\<close>, the raising call being the last
  call made and the only one that raised: the exception was not caught, replaced or
  followed by another attempt.
\<close>

definition quiet :: "outcome list \<Rightarrow> bool" where
  "quiet hist = list_all (\<lambda>c. c = Returned) hist"

definition propagates_unchanged :: "('w \<times> outcome list, 'a) py \<Rightarrow> bool" where
  "propagates_unchanged run \<longleftrightarrow>
     (\<forall>w hist e. quiet hist \<longrightarrow>
        (case run (w, hist) of
           (result, (w', hist')) \<Rightarrow>
             Raised e \<in> set hist' \<longrightarrow> result = Inl e \<and> (\<exists>calls. hist' = calls @ [Raised e] \<and> quiet calls)))"

section \<open>The boosting notebook\<close>

text \<open>
  The notebook's cells, run from top to bottom, are one script. Besides the calls of
  the functions above it makes calls that set up the notebook, locate the data files,
  combine tables and arrays, and plot. All matplotlib calls that draw one figure are
  one \<open>plot\<close> call, named after what the figure shows. Left out are the
  \<^verbatim>\<open>import\<close> statements, the \<^verbatim>\<open>print\<close> calls and the expressions
  at the end of a cell whose value Jupyter displays.
\<close>

record ('w, 'ld, 'f, 'y, 'pr, 'cv) notebook_lib =
  get_script :: "string \<Rightarrow> ('w, unit) py"
  set_max_rows :: "nat \<Rightarrow> ('w, unit) py"
  set_plot_style :: "('w, unit) py"
  matplotlib_magic :: "string \<Rightarrow> ('w, unit) py"
  html_video :: "string \<Rightarrow> ('w, unit) py"
  get_dataset_path :: "string \<Rightarrow> ('w, string) py"
  subarray_peek :: "'ld \<Rightarrow> ('w, unit) py"
  plot :: "string \<Rightarrow> ('w, unit) py"
  plot_roc :: "'y \<times> 'y \<times> 'y \<Rightarrow> rat \<Rightarrow> rat \<Rightarrow> ('w, unit) py"
  pd_concat :: "'f list \<Rightarrow> ('w, 'f) py"
  df_len :: "'f \<Rightarrow> ('w, nat) py"
  np_ones :: "nat \<Rightarrow> ('w, 'y) py"
  np_zeros :: "nat \<Rightarrow> ('w, 'y) py"
  np_concatenate :: "'y list \<Rightarrow> ('w, 'y) py"
  np_array :: "rat list \<Rightarrow> ('w, 'y) py"
  proba_column :: "'pr \<Rightarrow> nat \<Rightarrow> ('w, 'y) py"
  cv_getitem :: "'cv \<Rightarrow> string \<Rightarrow> ('w, 'y) py"

text \<open>
  The scikit-learn calls. A classifier is a handle, made from the constructor's name
  and keyword arguments; the staged methods return generators, which hand out one
  result per boosting stage.
\<close>

datatype 'clf classifier =
    DecisionTreeClassifier nat "string option"
      \<comment> \<open>\<^verbatim>\<open>max_depth\<close>, \<^verbatim>\<open>criterion\<close>\<close>
  | AdaBoostClassifier 'clf nat rat
      \<comment> \<open>\<^verbatim>\<open>base_estimator\<close>, \<^verbatim>\<open>n_estimators\<close>, \<^verbatim>\<open>learning_rate\<close>\<close>
  | GradientBoostingClassifier bool nat
      \<comment> \<open>\<^verbatim>\<open>verbose\<close>, \<^verbatim>\<open>n_estimators\<close>\<close>
  | RandomForestClassifier nat nat string
      \<comment> \<open>\<^verbatim>\<open>n_estimators\<close>, \<^verbatim>\<open>max_depth\<close>, \<^verbatim>\<open>criterion\<close>\<close>

record ('w, 'f, 'y, 'clf, 'pr, 'cv) sklearn_lib =
  train_test_split :: "'f \<Rightarrow> 'y \<Rightarrow> ('w, 'f \<times> 'f \<times> 'y \<times> 'y) py"
  new_classifier :: "'clf classifier \<Rightarrow> ('w, 'clf) py"
  fit :: "'clf \<Rightarrow> 'f \<Rightarrow> 'y \<Rightarrow> ('w, unit) py"
  predict :: "'clf \<Rightarrow> 'f \<Rightarrow> ('w, 'y) py"
  predict_proba :: "'clf \<Rightarrow> 'f \<Rightarrow> ('w, 'pr) py"
  feature_importances :: "'clf \<Rightarrow> ('w, 'y) py"
  staged_score :: "'clf \<Rightarrow> 'f \<Rightarrow> 'y \<Rightarrow> ('w, ('w, rat) py list) py"
  staged_predict :: "'clf \<Rightarrow> 'f \<Rightarrow> ('w, ('w, 'y) py list) py"
  accuracy_score :: "'y \<Rightarrow> 'y \<Rightarrow> ('w, rat) py"
  roc_auc_score :: "'y \<Rightarrow> 'y \<Rightarrow> ('w, rat) py"
  roc_curve :: "'y \<Rightarrow> 'y \<Rightarrow> ('w, 'y \<times> 'y \<times> 'y) py"
  cross_validate :: "'clf \<Rightarrow> 'f \<Rightarrow> 'y \<Rightarrow> nat \<Rightarrow> (string \<times> string) list \<Rightarrow> bool \<Rightarrow> ('w, 'cv) py"

text \<open>
  The cells that clean the gamma events, one step per cell:
  \<^verbatim>\<open>
  gammas = read_events(gamma_path)
  forbidden_columns = 'true_|obs_id|event_id'
  gammas = gammas.filter(regex=f'^(?!{forbidden_columns}).*$')
  c = gammas.select_dtypes(exclude=['number']).columns
  gammas = gammas.drop(c, axis='columns')
  desc = gammas.describe()
  c = desc.columns[desc.loc['std'] == 0]
  gammas = gammas.drop(c, axis='columns')
  c = gammas.columns[gammas.count() == 0]
  gammas = gammas.drop(c, axis='columns')
  gammas = gammas.dropna()
  \<close>
\<close>

definition clean_gammas :: "('w, 'ld, 'tb, 'd, 'v::semiring_1) table_lib \<Rightarrow> ('w, 'd, 'v) frame_lib \<Rightarrow>
    string \<Rightarrow> ('w, ('d, 'v) frame) py" where
  "clean_gammas tables frames gamma_path =
     then_py (read_events tables gamma_path) (\<lambda>gammas.
     then_py (df_filter frames (Cat Start (Cat (NotAhead forbidden_columns) (Cat DotStar End))) gammas) (\<lambda>gammas.
     then_py (select_dtypes_exclude frames [''number''] gammas) (\<lambda>other.
     then_py (df_columns frames other) (\<lambda>c.
     then_py (df_drop frames c gammas) (\<lambda>gammas.
     then_py (df_describe frames gammas) (\<lambda>desc.
     then_py (df_columns frames desc) (\<lambda>names.
     then_py (df_loc frames desc ''std'') (\<lambda>std.
     then_py (series_eq frames std 0) (\<lambda>sel.
     then_py (index_getitem frames names sel) (\<lambda>c.
     then_py (df_drop frames c gammas) (\<lambda>gammas.
     then_py (df_columns frames gammas) (\<lambda>names.
     then_py (df_count frames gammas) (\<lambda>counts.
     then_py (series_eq frames counts 0) (\<lambda>sel.
     then_py (index_getitem frames names sel) (\<lambda>c.
     then_py (df_drop frames c gammas) (\<lambda>gammas.
     df_dropna frames gammas))))))))))))))))"

text \<open>
  The scores and the figure of the ROC curve, which the notebook has after each of the
  four classifiers that it fits:
  \<^verbatim>\<open>
  acc = accuracy_score(y_test, y_prediction)
  auc = roc_auc_score(y_test, y_prediction_proba[:, 1])
  fpr, tpr, thresholds = roc_curve(y_test, y_prediction_proba[:, 1])

  plt.figure()
  plt.scatter(fpr, tpr, c=thresholds)
  ...
  plt.text(0.5, 0.5, f'AuC ROC: {auc:0.03f} \nAccuracy: {acc:0.03f}')
  \<close>
  (the first time with \<^verbatim>\<open>vmax=1\<close> in the scatter plot).
\<close>

definition roc_cells :: "('w, 'ld, 'f, 'y, 'pr, 'cv) notebook_lib \<Rightarrow> ('w, 'f, 'y, 'clf, 'pr, 'cv) sklearn_lib \<Rightarrow>
    'y \<Rightarrow> 'y \<Rightarrow> 'pr \<Rightarrow> ('w, unit) py" where
  "roc_cells nb sk y_test y_prediction y_prediction_proba =
     then_py (accuracy_score sk y_test y_prediction) (\<lambda>acc.
     then_py (proba_column nb y_prediction_proba 1) (\<lambda>score.
     then_py (roc_auc_score sk y_test score) (\<lambda>auc.
     then_py (proba_column nb y_prediction_proba 1) (\<lambda>score.
     then_py (roc_curve sk y_test score) (\<lambda>curve.
     plot_roc nb curve auc acc)))))"

text \<open>
  The cells from the first classifier to the end of the notebook, given the variables
  that the cell of the split has bound:
  \<^verbatim>\<open>
  rf = DecisionTreeClassifier(max_depth=15, criterion='entropy')
  rf.fit(X_train, y_train)
  y_prediction = rf.predict(X_test)
  y_prediction_proba = rf.predict_proba(X_test)

  importance = pd.Series(rf.feature_importances_, index=gammas.columns)
  plt.figure()
  importance.sort_values().tail(20).plot.barh()

  (the scores and the figure of the ROC curve)

  rf = DecisionTreeClassifier(max_depth=12, criterion='entropy')
  scoring = {'acc': 'accuracy', 'auc': 'roc_auc', 'recall': 'recall'}
  results = cross_validate(rf, X, y, cv=5, scoring=scoring, return_train_score=True)

  auc = results['test_auc']
  recall = results['test_recall']
  acc = results['test_acc']

  ada = AdaBoostClassifier(
      base_estimator=DecisionTreeClassifier(max_depth=2),
      n_estimators=100,
      learning_rate=0.5,
  )
  ada.fit(X_train, y_train)
  y_prediction = ada.predict(X_test)
  y_prediction_proba = ada.predict_proba(X_test)

  scores = np.array(list(ada.staged_score(X_test, y_test)))
  plt.figure()
  plt.plot(scores, '.')
  ...
  (the scores and the figure of the ROC curve)

  grb = GradientBoostingClassifier(verbose=True, n_estimators=300)
  grb.fit(X_train, y_train)
  y_prediction = grb.predict(X_test)
  y_prediction_proba = grb.predict_proba(X_test)

  l = [accuracy_score(y_pred, y_test) for y_pred in grb.staged_predict(X_test)]
  plt.figure()
  plt.plot(range(len(l)), l, '.')
  ...
  (the scores and the figure of the ROC curve)

  rf = RandomForestClassifier(n_estimators=150,  max_depth=18, criterion='entropy')
  rf.fit(X_train, y_train)
  y_prediction = rf.predict(X_test)
  y_prediction_proba = rf.predict_proba(X_test)
  (the scores and the figure of the ROC curve)
  \<close>
\<close>

definition classifiers :: "('w, 'ld, ('d, 'v) frame, 'y, 'pr, 'cv) notebook_lib \<Rightarrow> ('w, 'd, 'v) frame_lib \<Rightarrow>
    ('w, ('d, 'v) frame, 'y, 'clf, 'pr, 'cv) sklearn_lib \<Rightarrow> ('d, 'v) frame \<Rightarrow> ('d, 'v) frame \<Rightarrow> 'y \<Rightarrow>
    ('d, 'v) frame \<Rightarrow> ('d, 'v) frame \<Rightarrow> 'y \<Rightarrow> 'y \<Rightarrow> ('w, unit) py" where
  "classifiers nb frames sk gammas X y X_test X_train y_test y_train =
     then_py (new_classifier sk (DecisionTreeClassifier 15 (Some ''entropy''))) (\<lambda>rf.
     then_py (fit sk rf X_train y_train) (\<lambda>_.
     then_py (predict sk rf X_test) (\<lambda>y_prediction.
     then_py (predict_proba sk rf X_test) (\<lambda>y_prediction_proba.
     then_py (feature_importances sk rf) (\<lambda>importances.
     then_py (df_columns frames gammas) (\<lambda>names.
     then_py (plot nb ''importance'') (\<lambda>_.
     then_py (roc_cells nb sk y_test y_prediction y_prediction_proba) (\<lambda>_.
     then_py (new_classifier sk (DecisionTreeClassifier 12 (Some ''entropy''))) (\<lambda>rf.
     then_py (cross_validate sk rf X y 5
         [(''acc'', ''accuracy''), (''auc'', ''roc_auc''), (''recall'', ''recall'')] True) (\<lambda>results.
     then_py (cv_getitem nb results ''test_auc'') (\<lambda>auc.
     then_py (cv_getitem nb results ''test_recall'') (\<lambda>recall.
     then_py (cv_getitem nb results ''test_acc'') (\<lambda>acc.
     then_py (new_classifier sk (DecisionTreeClassifier 2 None)) (\<lambda>base.
     then_py (new_classifier sk (AdaBoostClassifier base 100 (1 / 2))) (\<lambda>ada.
     then_py (fit sk ada X_train y_train) (\<lambda>_.
     then_py (predict sk ada X_test) (\<lambda>y_prediction.
     then_py (predict_proba sk ada X_test) (\<lambda>y_prediction_proba.
     then_py (staged_score sk ada X_test y_test) (\<lambda>stages.
     then_py (for_py stages (\<lambda>score scores. ret (scores @ [score])) []) (\<lambda>scores.
     then_py (np_array nb scores) (\<lambda>scores.
     then_py (plot nb ''accuracy by iteration'') (\<lambda>_.
     then_py (roc_cells nb sk y_test y_prediction y_prediction_proba) (\<lambda>_.
     then_py (new_classifier sk (GradientBoostingClassifier True 300)) (\<lambda>grb.
     then_py (fit sk grb X_train y_train) (\<lambda>_.
     then_py (predict sk grb X_test) (\<lambda>y_prediction.
     then_py (predict_proba sk grb X_test) (\<lambda>y_prediction_proba.
     then_py (staged_predict sk grb X_test) (\<lambda>stages.
     then_py (for_py stages (\<lambda>y_pred l.
         then_py (accuracy_score sk y_pred y_test) (\<lambda>a. ret (l @ [a]))) []) (\<lambda>l.
     then_py (plot nb ''accuracy by iteration'') (\<lambda>_.
     then_py (roc_cells nb sk y_test y_prediction y_prediction_proba) (\<lambda>_.
     then_py (new_classifier sk (RandomForestClassifier 150 18 ''entropy'')) (\<lambda>rf.
     then_py (fit sk rf X_train y_train) (\<lambda>_.
     then_py (predict sk rf X_test) (\<lambda>y_prediction.
     then_py (predict_proba sk rf X_test) (\<lambda>y_prediction_proba.
     roc_cells nb sk y_test y_prediction y_prediction_proba)))))))))))))))))))))))))))))))))))"

text \<open>
  The notebook from its first cell to the split:
  \<^verbatim>\<open>
  %%javascript
  $.getScript('https://kmahelona.github.io/ipython_notebook_goodies/ipython_notebook_toc.js')

  pd.options.display.max_rows = 10
  plots.set_plot_style()

  %matplotlib widget

  %%HTML
  <video width="100%" controls>
    <source src="./resources/fact_events.mp4" type="video/mp4">
  </video>

  gamma_path = get_dataset_path('gamma_diffuse_dl2_train_small.dl2.h5')
  proton_path = get_dataset_path('proton_dl2_train_small.dl2.h5')

  loader = TableLoader(gamma_path)
  loader.subarray.peek()

  (the cells that clean the gamma events)

  protons = read_events(proton_path)
  protons = preprocess(protons)

  gammas = feature_generation(gammas)
  protons = feature_generation(protons)

  (the histogram of HillasReconstructor_h_max)

  X = pd.concat([gammas, protons])
  y = np.concatenate([np.ones(len(gammas)), np.zeros(len(protons))])

  X_test, X_train, y_test, y_train = train_test_split(X, y)
  \<close>
\<close>

definition toc_script :: string where
  "toc_script = ''https://kmahelona.github.io/ipython_notebook_goodies/ipython_notebook_toc.js''"

definition boosting_notebook :: "('w, 'ld, ('d, 'v) frame, 'y, 'pr, 'cv) notebook_lib \<Rightarrow>
    ('w, 'ld, 'tb, 'd, 'v::semiring_1) table_lib \<Rightarrow> ('w, 'd, 'v) frame_lib \<Rightarrow> ('w, 'd, 'v) series_lib \<Rightarrow>
    ('w, ('d, 'v) frame, 'y, 'clf, 'pr, 'cv) sklearn_lib \<Rightarrow> ('w, unit) py" where
  "boosting_notebook nb tables frames series sk =
     then_py (get_script nb toc_script) (\<lambda>_.
     then_py (set_max_rows nb 10) (\<lambda>_.
     then_py (set_plot_style nb) (\<lambda>_.
     then_py (matplotlib_magic nb ''widget'') (\<lambda>_.
     then_py (html_video nb ''./resources/fact_events.mp4'') (\<lambda>_.
     then_py (get_dataset_path nb ''gamma_diffuse_dl2_train_small.dl2.h5'') (\<lambda>gamma_path.
     then_py (get_dataset_path nb ''proton_dl2_train_small.dl2.h5'') (\<lambda>proton_path.
     then_py (TableLoader tables gamma_path []) (\<lambda>loader.
     then_py (subarray_peek nb loader) (\<lambda>_.
     then_py (clean_gammas tables frames gamma_path) (\<lambda>gammas.
     then_py (read_events tables proton_path) (\<lambda>protons.
     then_py (preprocess frames protons) (\<lambda>protons.
     then_py (feature_generation series gammas) (\<lambda>gammas.
     then_py (feature_generation series protons) (\<lambda>protons.
     then_py (plot nb ''HillasReconstructor_h_max'') (\<lambda>_.
     then_py (pd_concat nb [gammas, protons]) (\<lambda>X.
     then_py (df_len nb gammas) (\<lambda>n_gammas.
     then_py (np_ones nb n_gammas) (\<lambda>ones.
     then_py (df_len nb protons) (\<lambda>n_protons.
     then_py (np_zeros nb n_protons) (\<lambda>zeros.
     then_py (np_concatenate nb [ones, zeros]) (\<lambda>y.
     then_py (train_test_split sk X y) (\<lambda>(X_test, X_train, y_test, y_train).
     classifiers nb frames sk gammas X y X_test X_train y_test y_train))))))))))))))))))))))"

section \<open>The torch notebook\<close>

text \<open>
  The three network classes of the notebook. A class lists its layers in
  \<^verbatim>\<open>__init__\<close> and applies them in \<^verbatim>\<open>forward\<close>: first
  \<^verbatim>\<open>flatten\<close>, then the stack, for the two fully connected networks; the
  convolutional stack, \<^verbatim>\<open>flatten\<close>, then the linear stack, for the convolutional
  one. A network is written as the list of its layers in the order of
  \<^verbatim>\<open>forward\<close>; making an instance and calling it are library calls
  (\<open>new_module\<close>, \<open>forward\<close>).
\<close>

datatype layer =
    Flatten
  | Linear nat nat
  | ReLU
  | LeakyReLU
  | Softmax nat
  | BatchNorm1d nat
  | BatchNorm2d nat
  | Dropout rat
  | Conv2d nat nat "nat \<times> nat" string
  | MaxPool2d nat nat
  | Sequential "layer list"

text \<open>
  \<^verbatim>\<open>
  class FullyConnected(nn.Module):
      def __init__(self):
          super().__init__()
          self.fc = nn.Sequential(
              nn.Linear(8 * 8 * 1, 128),
              nn.ReLU(),
              nn.Linear(128, 128),
              nn.ReLU(),
              nn.Linear(128, 10),
              nn.Softmax(dim=1)
          )
          self.flatten = nn.Flatten()

      def forward(self, x):
          # x.shape = (batchsize, 1, 8, 8)
          x = self.flatten(x)
          x = self.fc(x)
          return x
  \<close>
\<close>

definition FullyConnected_fixed :: "layer list" where
  "FullyConnected_fixed =
     [Flatten,
      Sequential [Linear (8 * 8 * 1) 128, ReLU, Linear 128 128, ReLU, Linear 128 10, Softmax 1]]"

text \<open>
  \<^verbatim>\<open>
  class FullyConnected(nn.Module):
      def __init__(self, input_size, n_classes, dropout=0.25, n_hidden=256):
          super().__init__()
          self.flatten = nn.Flatten()
          self.fc_stack = nn.Sequential(
              nn.BatchNorm1d(input_size),
              # First Hidden Layer
              nn.Linear(input_size, n_hidden),
              nn.BatchNorm1d(n_hidden),
              nn.Dropout(dropout),
              nn.LeakyReLU(),
              # Second Hidden Layer
              nn.Linear(n_hidden, n_hidden),
              nn.BatchNorm1d(n_hidden),
              nn.Dropout(dropout),
              nn.LeakyReLU(),
              # Output Layer
              nn.Linear(n_hidden, n_classes),
              nn.Softmax(dim=1),
          )

      def forward(self, x):
          x = self.flatten(x)
          x = self.fc_stack(x)
          return x
  \<close>
\<close>

definition FullyConnected :: "nat \<Rightarrow> nat \<Rightarrow> rat \<Rightarrow> nat \<Rightarrow> layer list" where
  "FullyConnected input_size n_classes dropout n_hidden =
     [Flatten,
      Sequential
        [BatchNorm1d input_size,
         Linear input_size n_hidden, BatchNorm1d n_hidden, Dropout dropout, LeakyReLU,
         Linear n_hidden n_hidden, BatchNorm1d n_hidden, Dropout dropout, LeakyReLU,
         Linear n_hidden n_classes, Softmax 1]]"

text \<open>
  \<^verbatim>\<open>
  class ConvolutionalNetwork(nn.Module):
      def __init__(self):
          super().__init__()
          self.conv_stack = nn.Sequential(
              # 1st stack of conv layers
              nn.Conv2d(3, 32, kernel_size=(3, 3), padding='same'),
              nn.Conv2d(32, 32, kernel_size=(3, 3), padding='same'),
              nn.BatchNorm2d(32),
              nn.LeakyReLU(),
              nn.MaxPool2d(kernel_size=2, stride=2),
              nn.Dropout(0.25),
              # 2nd stack
              nn.Conv2d(32, 64, kernel_size=(3, 3), padding='same'),
              nn.Conv2d(64, 64, kernel_size=(3, 3), padding='same'),
              nn.BatchNorm2d(64),
              nn.LeakyReLU(),
              nn.MaxPool2d(kernel_size=2, stride=2),
              nn.Dropout(0.25),
              # 3rd stack
              nn.Conv2d(64, 128, kernel_size=(3, 3), padding='same'),
              nn.Conv2d(128, 128, kernel_size=(3, 3), padding='same'),
              nn.BatchNorm2d(128),
              nn.LeakyReLU(),
              nn.MaxPool2d(kernel_size=2, stride=2),
              nn.Dropout(0.25),
          )
          self.flatten = nn.Flatten()
          self.linear_relu_stack = nn.Sequential(
              nn.Linear(128 * 4 * 4, 128),
              nn.Dropout(0.25),
              nn.LeakyReLU(),
              nn.Linear(128, 10),
              nn.Softmax(dim=1),
          )

      def forward(self, x):
          x = self.conv_stack(x)
          x = self.flatten(x)
          x = self.linear_relu_stack(x)
          return x
  \<close>
\<close>

definition ConvolutionalNetwork :: "layer list" where
  "ConvolutionalNetwork =
     [Sequential
        [Conv2d 3 32 (3, 3) ''same'', Conv2d 32 32 (3, 3) ''same'', BatchNorm2d 32, LeakyReLU,
         MaxPool2d 2 2, Dropout (1 / 4),
         Conv2d 32 64 (3, 3) ''same'', Conv2d 64 64 (3, 3) ''same'', BatchNorm2d 64, LeakyReLU,
         MaxPool2d 2 2, Dropout (1 / 4),
         Conv2d 64 128 (3, 3) ''same'', Conv2d 128 128 (3, 3) ''same'', BatchNorm2d 128, LeakyReLU,
         MaxPool2d 2 2, Dropout (1 / 4)],
      Flatten,
      Sequential [Linear (128 * 4 * 4) 128, Dropout (1 / 4), LeakyReLU, Linear 128 10, Softmax 1]]"

text \<open>
  The calls of the notebook's cells that are not made inside its functions: the device
  check, the torchvision data sets (name, root, train, transform, download) and their
  loaders (batch size, shuffle), the first batch of a loader, sizes, modules, the loss
  and the optimizers (name, parameters, learning rate), the confusion matrix.
\<close>

record ('w, 'ds, 'dl, 'm, 'o, 'x, 'p, 'l, 'ps, 'cm) vision_lib =
  cuda_is_available :: "('w, bool) py"
  image_dataset :: "string \<Rightarrow> string \<Rightarrow> bool \<Rightarrow> string list \<Rightarrow> bool \<Rightarrow> ('w, 'ds) py"
  data_loader :: "'ds \<Rightarrow> nat \<Rightarrow> bool \<Rightarrow> ('w, 'dl) py"
  first_batch :: "'dl \<Rightarrow> ('w, 'x \<times> int list) py"
  sample_numel :: "'x \<Rightarrow> ('w, nat) py"
  n_classes :: "'ds \<Rightarrow> ('w, nat) py"
  new_module :: "layer list \<Rightarrow> ('w, 'm) py"
  new_loss :: "('w, unit) py"
  cross_entropy :: "'p \<Rightarrow> int list \<Rightarrow> ('w, 'l) py"
  module_parameters :: "'m \<Rightarrow> ('w, 'ps) py"
  new_optimizer :: "string \<Rightarrow> 'ps \<Rightarrow> rat option \<Rightarrow> ('w, 'o) py"
  cpu_numpy :: "int list \<Rightarrow> ('w, int list) py"
  confusion_matrix :: "int list \<Rightarrow> int list \<Rightarrow> ('w, 'cm) py"
  divide_by_row_sums :: "'cm \<Rightarrow> ('w, 'cm) py"

text \<open>
  \<^verbatim>\<open>
  def fit_one_epoch(train_dataloader, test_dataloader, model, loss_fn, optimizer, device=DEVICE):
      train_losses = train(train_dataloader, model, loss_fn, optimizer, device)
      test_losses = test(test_dataloader, model, loss_fn, device)
      return train_losses, test_losses

  def report_accuracy(test_dataloader, train_dataloader, model):
      accuracy_test = accuracy(test_dataloader, model)
      accuracy_train = accuracy(train_dataloader, model)
      print(f'Accuracy: train={accuracy_train:5.1%}, test={accuracy_test:5.1%}')
  \<close>
  \<^verbatim>\<open>DEVICE\<close> is the default of the device arguments.
\<close>

definition fit_one_epoch :: "('w, 'm, 'o, 'dev, 'dl, 'x, 'p, 'l) torch_lib \<Rightarrow> 'dl \<Rightarrow> 'dl \<Rightarrow> 'm \<Rightarrow>
    ('p \<Rightarrow> int list \<Rightarrow> ('w, 'l) py) \<Rightarrow> 'o \<Rightarrow> 'dev \<Rightarrow> ('w, rat list \<times> rat list) py" where
  "fit_one_epoch lib train_dataloader test_dataloader model loss_fn optimizer device =
     then_py (train lib train_dataloader model loss_fn optimizer device) (\<lambda>train_losses.
     then_py (test lib test_dataloader model loss_fn device) (\<lambda>test_losses.
     ret (train_losses, test_losses)))"

definition report_accuracy :: "('w, 'm, 'o, 'dev, 'dl, 'x, 'p, 'l) torch_lib \<Rightarrow> 'dev \<Rightarrow> 'dl \<Rightarrow> 'dl \<Rightarrow> 'm \<Rightarrow>
    ('w, unit) py" where
  "report_accuracy lib DEVICE test_dataloader train_dataloader model =
     then_py (accuracy lib test_dataloader model DEVICE) (\<lambda>accuracy_test.
     then_py (accuracy lib train_dataloader model DEVICE) (\<lambda>accuracy_train.
     ret ()))"

text \<open>
  The training cell, which the notebook has three times, with 20, 15 and 25 epochs:
  \<^verbatim>\<open>
  test_losses = []
  train_losses = []
  report_accuracy(test_dataloader, train_dataloader, model)
  for t in tqdm(range(epochs)):
      epoch_loss_train, epoch_loss_test = fit_one_epoch(
          train_dataloader, test_dataloader, model, loss_fn, optimizer
      )
      train_losses.append(epoch_loss_train)
      test_losses.append(epoch_loss_test)
      report_accuracy(test_dataloader, train_dataloader, model)
  \<close>
\<close>

definition training_cell :: "('w, 'm, 'o, 'dev, 'dl, 'x, 'p, 'l) torch_lib \<Rightarrow> 'dev \<Rightarrow> nat \<Rightarrow> 'dl \<Rightarrow> 'dl \<Rightarrow> 'm \<Rightarrow>
    ('p \<Rightarrow> int list \<Rightarrow> ('w, 'l) py) \<Rightarrow> 'o \<Rightarrow> ('w, rat list list \<times> rat list list) py" where
  "training_cell lib DEVICE epochs train_dataloader test_dataloader model loss_fn optimizer =
     then_py (report_accuracy lib DEVICE test_dataloader train_dataloader model) (\<lambda>_.
     for_py (map ret [0 ..< epochs]) (\<lambda>t (train_losses, test_losses).
       then_py (fit_one_epoch lib train_dataloader test_dataloader model loss_fn optimizer DEVICE)
         (\<lambda>(epoch_loss_train, epoch_loss_test).
       then_py (report_accuracy lib DEVICE test_dataloader train_dataloader model) (\<lambda>_.
       ret (train_losses @ [epoch_loss_train], test_losses @ [epoch_loss_test]))))
       ([], []))"

text \<open>
  The cells on MNIST:
  \<^verbatim>\<open>
  mnist_train = datasets.MNIST(root="data", train=True,
      transform=Compose([Resize((16, 16)), ToTensor()]), download=True)
  mnist_test = datasets.MNIST(root="data", train=False,
      transform=Compose([Resize((16, 16)), ToTensor()]), download=True)

  batch_size = 64
  train_dataloader = DataLoader(mnist_train, batch_size=batch_size, shuffle=True)
  test_dataloader = DataLoader(mnist_test, batch_size=batch_size, shuffle=True)
  X, y = next(iter(test_dataloader))

  (a figure of ten images)

  model = FullyConnected(input_size=X[0].shape.numel(), n_classes=len(mnist_train.classes),
      n_hidden=256, dropout=0.25)
  loss_fn = nn.CrossEntropyLoss()
  optimizer = torch.optim.AdamW(model.parameters())
  (the training cell with 20 epochs)

  plot_losses(train_losses, test_losses)
  plt.yscale('log')
  \<close>
  \<^verbatim>\<open>plot_losses\<close>, which the notebook defines, only prepares and draws one figure
  and is one \<open>plot\<close> call.
\<close>

definition mnist_cells :: "('w, 'ld, 'f, 'y, 'pr, 'cv) notebook_lib \<Rightarrow>
    ('w, 'ds, 'dl, 'm, 'o, 'x, 'p, 'l, 'ps, 'cm) vision_lib \<Rightarrow>
    ('w, 'm, 'o, string, 'dl, 'x, 'p, 'l) torch_lib \<Rightarrow> string \<Rightarrow> ('w, unit) py" where
  "mnist_cells nb vision lib DEVICE =
     then_py (image_dataset vision ''MNIST'' ''data'' True [''Resize((16, 16))'', ''ToTensor()''] True) (\<lambda>mnist_train.
     then_py (image_dataset vision ''MNIST'' ''data'' False [''Resize((16, 16))'', ''ToTensor()''] True) (\<lambda>mnist_test.
     then_py (data_loader vision mnist_train 64 True) (\<lambda>train_dataloader.
     then_py (data_loader vision mnist_test 64 True) (\<lambda>test_dataloader.
     then_py (first_batch vision test_dataloader) (\<lambda>(X, y).
     then_py (plot nb ''images'') (\<lambda>_.
     then_py (sample_numel vision X) (\<lambda>input_size.
     then_py (n_classes vision mnist_train) (\<lambda>classes.
     then_py (new_module vision (FullyConnected input_size classes (1 / 4) 256)) (\<lambda>model.
     then_py (new_loss vision) (\<lambda>_.
     then_py (module_parameters vision model) (\<lambda>parameters.
     then_py (new_optimizer vision ''AdamW'' parameters None) (\<lambda>optimizer.
     then_py (training_cell lib DEVICE 20 train_dataloader test_dataloader model
         (cross_entropy vision) optimizer) (\<lambda>(train_losses, test_losses).
     plot nb ''losses'')))))))))))))"

text \<open>
  The cells on CIFAR10 with the fully connected network; the loaders stay bound for
  the cells that follow:
  \<^verbatim>\<open>
  cifar10_train = datasets.CIFAR10(root="data", train=True, transform=ToTensor(), download=True)
  cifar10_test = datasets.CIFAR10(root="data", train=False, transform=ToTensor(), download=True)

  batch_size = 64
  train_dataloader = DataLoader(cifar10_train, batch_size=batch_size)
  test_dataloader = DataLoader(cifar10_test, batch_size=batch_size)
  X, y = next(iter(test_dataloader))

  (a figure of sixteen images)

  model = FullyConnected(input_size=X[0].shape.numel(), n_classes=len(cifar10_train.classes))
  loss_fn = nn.CrossEntropyLoss()
  optimizer = torch.optim.Adam(model.parameters(), lr=1e-3)
  (the training cell with 15 epochs)
  plot_losses(train_losses, test_losses)
  plt.yscale('log')
  \<close>
\<close>

definition cifar10_cells :: "('w, 'ld, 'f, 'y, 'pr, 'cv) notebook_lib \<Rightarrow>
    ('w, 'ds, 'dl, 'm, 'o, 'x, 'p, 'l, 'ps, 'cm) vision_lib \<Rightarrow>
    ('w, 'm, 'o, string, 'dl, 'x, 'p, 'l) torch_lib \<Rightarrow> string \<Rightarrow> ('w, 'dl \<times> 'dl) py" where
  "cifar10_cells nb vision lib DEVICE =
     then_py (image_dataset vision ''CIFAR10'' ''data'' True [''ToTensor()''] True) (\<lambda>cifar10_train.
     then_py (image_dataset vision ''CIFAR10'' ''data'' False [''ToTensor()''] True) (\<lambda>cifar10_test.
     then_py (data_loader vision cifar10_train 64 False) (\<lambda>train_dataloader.
     then_py (data_loader vision cifar10_test 64 False) (\<lambda>test_dataloader.
     then_py (first_batch vision test_dataloader) (\<lambda>(X, y).
     then_py (plot nb ''images'') (\<lambda>_.
     then_py (sample_numel vision X) (\<lambda>input_size.
     then_py (n_classes vision cifar10_train) (\<lambda>classes.
     then_py (new_module vision (FullyConnected input_size classes (1 / 4) 256)) (\<lambda>model.
     then_py (new_loss vision) (\<lambda>_.
     then_py (module_parameters vision model) (\<lambda>parameters.
     then_py (new_optimizer vision ''Adam'' parameters (Some (1 / 1000))) (\<lambda>optimizer.
     then_py (training_cell lib DEVICE 15 train_dataloader test_dataloader model
         (cross_entropy vision) optimizer) (\<lambda>(train_losses, test_losses).
     then_py (plot nb ''losses'') (\<lambda>_.
     ret (train_dataloader, test_dataloader)))))))))))))))"

text \<open>
  The cells on CIFAR10 with the convolutional network:
  \<^verbatim>\<open>
  model = ConvolutionalNetwork()
  loss_fn = nn.CrossEntropyLoss()
  optimizer = torch.optim.AdamW(model.parameters())
  (the training cell with 25 epochs)
  plot_losses(train_losses=train_losses, test_losses=test_losses)

  prediction, y = predictions(test_dataloader, model)

  matrix = confusion_matrix(y.cpu().numpy(), prediction.cpu().numpy())
  matrix = np.divide(matrix, matrix.sum(axis = 1))
  (a figure of the matrix)
  \<close>
\<close>

definition convolutional_cells :: "('w, 'ld, 'f, 'y, 'pr, 'cv) notebook_lib \<Rightarrow>
    ('w, 'ds, 'dl, 'm, 'o, 'x, 'p, 'l, 'ps, 'cm) vision_lib \<Rightarrow>
    ('w, 'm, 'o, string, 'dl, 'x, 'p, 'l) torch_lib \<Rightarrow> string \<Rightarrow> 'dl \<Rightarrow> 'dl \<Rightarrow> ('w, unit) py" where
  "convolutional_cells nb vision lib DEVICE train_dataloader test_dataloader =
     then_py (new_module vision ConvolutionalNetwork) (\<lambda>model.
     then_py (new_loss vision) (\<lambda>_.
     then_py (module_parameters vision model) (\<lambda>parameters.
     then_py (new_optimizer vision ''AdamW'' parameters None) (\<lambda>optimizer.
     then_py (training_cell lib DEVICE 25 train_dataloader test_dataloader model
         (cross_entropy vision) optimizer) (\<lambda>(train_losses, test_losses).
     then_py (plot nb ''losses'') (\<lambda>_.
     then_py (predictions lib test_dataloader model DEVICE) (\<lambda>(prediction, y).
     then_py (cpu_numpy vision y) (\<lambda>truth.
     then_py (cpu_numpy vision prediction) (\<lambda>predicted.
     then_py (confusion_matrix vision truth predicted) (\<lambda>matrix.
     then_py (divide_by_row_sums vision matrix) (\<lambda>matrix.
     plot nb ''confusion matrix'')))))))))))"

text \<open>
  The notebook: its first cells, then the three groups of cells above.
  \<^verbatim>\<open>
  %%javascript
  $.getScript('https://kmahelona.github.io/ipython_notebook_goodies/ipython_notebook_toc.js')

  %matplotlib widget

  FullyConnected()
  FullyConnected(input_size=3 * 50 * 50, n_classes=2)

  DEVICE = "cuda" if torch.cuda.is_available() else "cpu"
  \<close>
\<close>

definition torch_notebook :: "('w, 'ld, 'f, 'y, 'pr, 'cv) notebook_lib \<Rightarrow>
    ('w, 'ds, 'dl, 'm, 'o, 'x, 'p, 'l, 'ps, 'cm) vision_lib \<Rightarrow>
    ('w, 'm, 'o, string, 'dl, 'x, 'p, 'l) torch_lib \<Rightarrow> ('w, unit) py" where
  "torch_notebook nb vision lib =
     then_py (get_script nb toc_script) (\<lambda>_.
     then_py (matplotlib_magic nb ''widget'') (\<lambda>_.
     then_py (new_module vision FullyConnected_fixed) (\<lambda>_.
     then_py (new_module vision (FullyConnected (3 * 50 * 50) 2 (1 / 4) 256)) (\<lambda>_.
     then_py (cuda_is_available vision) (\<lambda>available.
     (let DEVICE = (if available then ''cuda'' else ''cpu'') in
     then_py (mnist_cells nb vision lib DEVICE) (\<lambda>_.
     then_py (cifar10_cells nb vision lib DEVICE) (\<lambda>(train_dataloader, test_dataloader).
     convolutional_cells nb vision lib DEVICE train_dataloader test_dataloader))))))))"

section \<open>The calls of a notebook run, in order\<close>

text \<open>
  What a notebook does to the outside and the order in which it does it are properties
  of the sequence of its library calls. \<open>traced ev call\<close> behaves as \<open>call\<close> and
  appends the event \<open>ev\<close> to a trace kept beside the world, whether the call returns
  or raises; \<open>traced_result\<close> lets the event depend on the outcome. An event names the
  call and the arguments that the properties below are about: the script that
  \<^verbatim>\<open>$.getScript\<close> fetches, the video of the HTML cell, the data set that
  \<^verbatim>\<open>get_dataset_path\<close> locates with the path it returns, the file a
  \<^verbatim>\<open>TableLoader\<close> opens, the
  other ctapipe calls on a loader or table, the image data set that torchvision
  downloads, the calls of scikit-learn with their classifier and data, the figure with
  the ROC curve. \<open>Call\<close> stands for every other library call (pandas, numpy,
  matplotlib, torch, the set-up of the notebook).
\<close>

datatype ('f, 'y, 'clf) event =
    Script string
  | Video string
  | DatasetPath string "string option"
  | OpenTable string
  | TableCall
  | ImageDataset string
  | Call
  | Split 'f 'y "('f \<times> 'f \<times> 'y \<times> 'y) option"
  | New "'clf classifier"
  | Fit 'clf 'f 'y
  | Predict 'clf 'f
  | PredictProba 'clf 'f
  | Importances 'clf
  | StagedScore 'clf 'f 'y
  | StagedPredict 'clf 'f
  | NextStage
  | AccuracyScore 'y 'y
  | RocAucScore 'y 'y
  | RocCurve 'y 'y
  | PlotRoc
  | CrossValidate 'clf 'f 'y

definition traced_result :: "(error + 'a \<Rightarrow> 'ev) \<Rightarrow> ('w, 'a) py \<Rightarrow> ('w \<times> 'ev list, 'a) py" where
  "traced_result ev call = (\<lambda>(w, tr). case call w of (r, w') \<Rightarrow> (r, (w', tr @ [ev r])))"

definition traced :: "'ev \<Rightarrow> ('w, 'a) py \<Rightarrow> ('w \<times> 'ev list, 'a) py" where
  "traced ev call = traced_result (\<lambda>_. ev) call"

text \<open>A generator of stages: the call that makes it and each of its fetches are traced.\<close>

definition traced_stages :: "('f, 'y, 'clf) event \<Rightarrow> ('w, ('w, 'a) py list) py \<Rightarrow>
    ('w \<times> ('f, 'y, 'clf) event list, ('w \<times> ('f, 'y, 'clf) event list, 'a) py list) py" where
  "traced_stages ev call = then_py (traced ev call) (\<lambda>stages. ret (map (traced NextStage) stages))"

definition split_event :: "'f \<Rightarrow> 'y \<Rightarrow> error + 'f \<times> 'f \<times> 'y \<times> 'y \<Rightarrow> ('f, 'y, 'clf) event" where
  "split_event X y r = Split X y (case r of Inl e \<Rightarrow> None | Inr parts \<Rightarrow> Some parts)"

definition located :: "string \<Rightarrow> error + string \<Rightarrow> ('f, 'y, 'clf) event" where
  "located name r = DatasetPath name (case r of Inl e \<Rightarrow> None | Inr path \<Rightarrow> Some path)"

definition observed_notebook :: "('w, 'ld, 'f, 'y, 'pr, 'cv) notebook_lib \<Rightarrow>
    ('w \<times> ('f, 'y, 'clf) event list, 'ld, 'f, 'y, 'pr, 'cv) notebook_lib" where
  "observed_notebook lib =
     \<lparr>get_script = (\<lambda>url. traced (Script url) (get_script lib url)),
      set_max_rows = (\<lambda>n. traced Call (set_max_rows lib n)),
      set_plot_style = traced Call (set_plot_style lib),
      matplotlib_magic = (\<lambda>backend. traced Call (matplotlib_magic lib backend)),
      html_video = (\<lambda>src. traced (Video src) (html_video lib src)),
      get_dataset_path = (\<lambda>name. traced_result (located name) (get_dataset_path lib name)),
      subarray_peek = (\<lambda>loader. traced TableCall (subarray_peek lib loader)),
      plot = (\<lambda>what. traced Call (plot lib what)),
      plot_roc = (\<lambda>curve auc acc. traced PlotRoc (plot_roc lib curve auc acc)),
      pd_concat = (\<lambda>dfs. traced Call (pd_concat lib dfs)),
      df_len = (\<lambda>df. traced Call (df_len lib df)),
      np_ones = (\<lambda>n. traced Call (np_ones lib n)),
      np_zeros = (\<lambda>n. traced Call (np_zeros lib n)),
      np_concatenate = (\<lambda>ys. traced Call (np_concatenate lib ys)),
      np_array = (\<lambda>xs. traced Call (np_array lib xs)),
      proba_column = (\<lambda>p k. traced Call (proba_column lib p k)),
      cv_getitem = (\<lambda>results key. traced Call (cv_getitem lib results key))\<rparr>"

definition observed_tables :: "('w, 'ld, 'tb, 'd, 'v) table_lib \<Rightarrow>
    ('w \<times> ('f, 'y, 'clf) event list, 'ld, 'tb, 'd, 'v) table_lib" where
  "observed_tables lib =
     \<lparr>TableLoader = (\<lambda>path kwargs. traced (OpenTable path) (TableLoader lib path kwargs)),
      read_telescope_events = (\<lambda>loader. traced TableCall (read_telescope_events lib loader)),
      remove_columns = (\<lambda>table names. traced TableCall (remove_columns lib table names)),
      to_pandas = (\<lambda>table. traced TableCall (to_pandas lib table))\<rparr>"

definition observed_frames :: "('w, 'd, 'v) frame_lib \<Rightarrow> ('w \<times> ('f, 'y, 'clf) event list, 'd, 'v) frame_lib" where
  "observed_frames lib =
     \<lparr>df_filter = (\<lambda>r df. traced Call (df_filter lib r df)),
      select_dtypes_exclude = (\<lambda>kinds df. traced Call (select_dtypes_exclude lib kinds df)),
      df_columns = (\<lambda>df. traced Call (df_columns lib df)),
      df_drop = (\<lambda>labels df. traced Call (df_drop lib labels df)),
      df_count = (\<lambda>df. traced Call (df_count lib df)),
      series_eq = (\<lambda>xs v. traced Call (series_eq lib xs v)),
      index_getitem = (\<lambda>ix sel. traced Call (index_getitem lib ix sel)),
      df_describe = (\<lambda>df. traced Call (df_describe lib df)),
      df_loc = (\<lambda>df l. traced Call (df_loc lib df l)),
      df_dropna = (\<lambda>df. traced Call (df_dropna lib df))\<rparr>"

definition observed_series :: "('w, 'd, 'v) series_lib \<Rightarrow> ('w \<times> ('f, 'y, 'clf) event list, 'd, 'v) series_lib" where
  "observed_series lib =
     \<lparr>df_getitem = (\<lambda>df l. traced Call (df_getitem lib df l)),
      df_setitem = (\<lambda>df l xs. traced Call (df_setitem lib df l xs)),
      series_mul = (\<lambda>xs ys. traced Call (series_mul lib xs ys)),
      series_truediv = (\<lambda>xs ys. traced Call (series_truediv lib xs ys)),
      series_sub = (\<lambda>xs ys. traced Call (series_sub lib xs ys)),
      series_add = (\<lambda>xs ys. traced Call (series_add lib xs ys)),
      series_pow = (\<lambda>xs n. traced Call (series_pow lib xs n)),
      np_sqrt = (\<lambda>xs. traced Call (np_sqrt lib xs))\<rparr>"

definition observed_sklearn :: "('w, 'f, 'y, 'clf, 'pr, 'cv) sklearn_lib \<Rightarrow>
    ('w \<times> ('f, 'y, 'clf) event list, 'f, 'y, 'clf, 'pr, 'cv) sklearn_lib" where
  "observed_sklearn lib =
     \<lparr>train_test_split = (\<lambda>X y. traced_result (split_event X y) (train_test_split lib X y)),
      new_classifier = (\<lambda>c. traced (New c) (new_classifier lib c)),
      fit = (\<lambda>clf X y. traced (Fit clf X y) (fit lib clf X y)),
      predict = (\<lambda>clf X. traced (Predict clf X) (predict lib clf X)),
      predict_proba = (\<lambda>clf X. traced (PredictProba clf X) (predict_proba lib clf X)),
      feature_importances = (\<lambda>clf. traced (Importances clf) (feature_importances lib clf)),
      staged_score = (\<lambda>clf X y. traced_stages (StagedScore clf X y) (staged_score lib clf X y)),
      staged_predict = (\<lambda>clf X. traced_stages (StagedPredict clf X) (staged_predict lib clf X)),
      accuracy_score = (\<lambda>t p. traced (AccuracyScore t p) (accuracy_score lib t p)),
      roc_auc_score = (\<lambda>t s. traced (RocAucScore t s) (roc_auc_score lib t s)),
      roc_curve = (\<lambda>t s. traced (RocCurve t s) (roc_curve lib t s)),
      cross_validate = (\<lambda>clf X y cv scoring train_score.
         traced (CrossValidate clf X y) (cross_validate lib clf X y cv scoring train_score))\<rparr>"

text \<open>
  The trace of the boosting notebook, run from a world \<open>w\<close> with libraries of any
  behaviour.
\<close>

definition boosting_trace :: "('w, 'ld, ('d, 'v) frame, 'y, 'pr, 'cv) notebook_lib \<Rightarrow>
    ('w, 'ld, 'tb, 'd, 'v::semiring_1) table_lib \<Rightarrow> ('w, 'd, 'v) frame_lib \<Rightarrow> ('w, 'd, 'v) series_lib \<Rightarrow>
    ('w, ('d, 'v) frame, 'y, 'clf, 'pr, 'cv) sklearn_lib \<Rightarrow> 'w \<Rightarrow> (('d, 'v) frame, 'y, 'clf) event list" where
  "boosting_trace nb tables frames series sk w =
     snd (snd (boosting_notebook (observed_notebook nb) (observed_tables tables) (observed_frames frames)
       (observed_series series) (observed_sklearn sk) (w, [])))"

text \<open>
  A monitor reads a trace event by event; \<open>delta q ev\<close> is its next state, or \<open>None\<close>
  when the event is not allowed in state \<open>q\<close>. \<open>safe delta q0 q run\<close>: when the
  monitor, started in \<open>q0\<close>, is in state \<open>q\<close> after the trace so far, it accepts the
  trace after \<open>run\<close> as well, whether \<open>run\<close> returns or raises; \<open>stays\<close>: and is
  in state \<open>q\<close> again.
\<close>

fun monitor :: "('q \<Rightarrow> 'ev \<Rightarrow> 'q option) \<Rightarrow> 'q \<Rightarrow> 'ev list \<Rightarrow> 'q option" where
  "monitor delta q [] = Some q"
| "monitor delta q (ev # tr) = (case delta q ev of None \<Rightarrow> None | Some q' \<Rightarrow> monitor delta q' tr)"

definition safe :: "('q \<Rightarrow> 'ev \<Rightarrow> 'q option) \<Rightarrow> 'q \<Rightarrow> 'q \<Rightarrow> ('w \<times> 'ev list, 'a) py \<Rightarrow> bool" where
  "safe delta q0 q run \<longleftrightarrow>
     (\<forall>w tr. monitor delta q0 tr = Some q \<longrightarrow> monitor delta q0 (snd (snd (run (w, tr)))) \<noteq> None)"

definition stays :: "('q \<Rightarrow> 'ev \<Rightarrow> 'q option) \<Rightarrow> 'q \<Rightarrow> 'q \<Rightarrow> ('w \<times> 'ev list, 'a) py \<Rightarrow> bool" where
  "stays delta q0 q run \<longleftrightarrow>
     (\<forall>w tr. monitor delta q0 tr = Some q \<longrightarrow> monitor delta q0 (snd (snd (run (w, tr)))) = Some q)"

section \<open>Which part of the split the classifiers are given\<close>

text \<open>
  \<open>rows\<close> is the number of rows of a frame, \<open>quarter n\<close> is \<open>n / 4\<close> rounded up.
  With its default sizes scikit-learn's \<^verbatim>\<open>train_test_split\<close> returns, for each
  of its arguments, the training part followed by the test part, the test part with a
  quarter of the rows rounded up and the training part with the rest.
\<close>

definition rows :: "('d, 'v) frame \<Rightarrow> nat" where
  "rows df = length (index df)"

definition quarter :: "nat \<Rightarrow> nat" where
  "quarter n = (n + 3) div 4"

definition default_split :: "('w, ('d, 'v) frame, 'y, 'clf, 'pr, 'cv) sklearn_lib \<Rightarrow> bool" where
  "default_split sk \<longleftrightarrow>
     (\<forall>X y w a b c d w'. train_test_split sk X y w = (Inr (a, b, c, d), w') \<longrightarrow>
        rows a = rows X - quarter (rows X) \<and> rows b = quarter (rows X))"

text \<open>
  The monitor of the use of the parts. Its state is, once the split has returned, the
  table \<open>X\<close> and the labels \<open>y\<close> that were split and the result \<open>(a, b, c, d)\<close>; a
  split is accepted when its first part has all rows but a quarter and its second part
  a quarter of them. Afterwards the monitor accepts \<^verbatim>\<open>fit\<close> on \<open>(b, d)\<close> only,
  the queries of a classifier on \<open>a\<close> only (scored against \<open>c\<close>), and the scores only
  with \<open>c\<close> as the truth (or, in the list of staged accuracies, as the second
  argument). With \<open>cv\<close> it accepts cross-validation on \<open>(b, d)\<close> only, without \<open>cv\<close>
  on \<open>(X, y)\<close> only.
\<close>

type_synonym ('f, 'y) parts = "'f \<times> 'y \<times> 'f \<times> 'f \<times> 'y \<times> 'y"

definition uses_parts :: "bool \<Rightarrow> (('d, 'v) frame, 'y) parts option \<Rightarrow>
    (('d, 'v) frame, 'y, 'clf) event \<Rightarrow> (('d, 'v) frame, 'y) parts option option" where
  "uses_parts cv q ev =
     (case q of
        None \<Rightarrow>
          (case ev of
             Split X y r \<Rightarrow>
               (case r of
                  None \<Rightarrow> Some None
                | Some (a, b, c, d) \<Rightarrow>
                    if rows a = rows X - quarter (rows X) \<and> rows b = quarter (rows X)
                    then Some (Some (X, y, a, b, c, d)) else None)
           | Fit clf X y \<Rightarrow> None
           | Predict clf X \<Rightarrow> None
           | PredictProba clf X \<Rightarrow> None
           | StagedScore clf X y \<Rightarrow> None
           | StagedPredict clf X \<Rightarrow> None
           | AccuracyScore t p \<Rightarrow> None
           | RocAucScore t s \<Rightarrow> None
           | RocCurve t s \<Rightarrow> None
           | CrossValidate clf X y \<Rightarrow> None
           | _ \<Rightarrow> Some q)
      | Some (X0, y0, a, b, c, d) \<Rightarrow>
          (case ev of
             Split X y r \<Rightarrow> None
           | Fit clf X y \<Rightarrow> (if X = b \<and> y = d then Some q else None)
           | Predict clf X \<Rightarrow> (if X = a then Some q else None)
           | PredictProba clf X \<Rightarrow> (if X = a then Some q else None)
           | StagedScore clf X y \<Rightarrow> (if X = a \<and> y = c then Some q else None)
           | StagedPredict clf X \<Rightarrow> (if X = a then Some q else None)
           | AccuracyScore t p \<Rightarrow> (if t = c \<or> p = c then Some q else None)
           | RocAucScore t s \<Rightarrow> (if t = c then Some q else None)
           | RocCurve t s \<Rightarrow> (if t = c then Some q else None)
           | CrossValidate clf X y \<Rightarrow>
               (if cv then (if X = b \<and> y = d then Some q else None)
                else (if X = X0 \<and> y = y0 then Some q else None))
           | _ \<Rightarrow> Some q))"

section \<open>The order of loading, fitting, predicting and scoring\<close>

text \<open>
  Whether the run of the boosting notebook returns or raises, observed as above.
\<close>

definition boosting_outcome :: "('w, 'ld, ('d, 'v) frame, 'y, 'pr, 'cv) notebook_lib \<Rightarrow>
    ('w, 'ld, 'tb, 'd, 'v::semiring_1) table_lib \<Rightarrow> ('w, 'd, 'v) frame_lib \<Rightarrow> ('w, 'd, 'v) series_lib \<Rightarrow>
    ('w, ('d, 'v) frame, 'y, 'clf, 'pr, 'cv) sklearn_lib \<Rightarrow> 'w \<Rightarrow> error + unit" where
  "boosting_outcome nb tables frames series sk w =
     fst (boosting_notebook (observed_notebook nb) (observed_tables tables) (observed_frames frames)
       (observed_series series)
       (observed_sklearn sk :: ('w \<times> (('d, 'v) frame, 'y, 'clf) event list, ('d, 'v) frame, 'y, 'clf, 'pr, 'cv) sklearn_lib)
       (w, []))"

text \<open>
  The calls that locate and read the event tables, and the calls that score
  predictions or draw the ROC curve.
\<close>

definition loads :: "('f, 'y, 'clf) event \<Rightarrow> bool" where
  "loads ev = (case ev of DatasetPath name r \<Rightarrow> True | OpenTable path \<Rightarrow> True | TableCall \<Rightarrow> True | _ \<Rightarrow> False)"

definition scores :: "('f, 'y, 'clf) event \<Rightarrow> bool" where
  "scores ev =
     (case ev of AccuracyScore t p \<Rightarrow> True | RocAucScore t s \<Rightarrow> True | RocCurve t s \<Rightarrow> True
      | PlotRoc \<Rightarrow> True | _ \<Rightarrow> False)"

text \<open>
  The monitor of the order. Its state is \<open>Loading k\<close> after \<open>k\<close> calls that locate
  or read the event tables and before any \<^verbatim>\<open>fit\<close>; \<open>Cycle clf st n\<close> while the
  classifier \<open>clf\<close>, fitted after \<open>n\<close> finished ones, is at the stage \<open>st\<close>;
  \<open>Done n\<close> when the ROC figure of the \<open>n\<close>-th classifier is drawn. The stages are,
  in order: fitted, \<^verbatim>\<open>predict\<close> called, \<^verbatim>\<open>predict_proba\<close> called (and then
  possibly inside the list of staged scores, inside the list of staged predictions, or
  at a staged prediction that was just fetched), accuracy computed, ROC AUC computed,
  ROC curve computed.
\<close>

datatype stage = Fitted | Predicted | Probed | ScoreStages | PredictStages | StageFetched
  | Accuracy | Auc | Curve

datatype 'clf phase = Loading nat | Cycle 'clf stage nat | Done nat

text \<open>The notebook makes twelve calls that locate and read the event tables.\<close>

definition loading_calls :: nat where
  "loading_calls = 12"

text \<open>
  \<open>during q clf st st'\<close>: the classifier \<open>clf\<close> is the one fitted last and at stage
  \<open>st\<close>, and goes to stage \<open>st'\<close>; \<open>advance\<close> is the same for a call that names no
  classifier.
\<close>

definition advance :: "'clf phase \<Rightarrow> stage \<Rightarrow> stage \<Rightarrow> 'clf phase option" where
  "advance q st st' =
     (case q of Cycle c k n \<Rightarrow> if k = st then Some (Cycle c st' n) else None | _ \<Rightarrow> None)"

definition during :: "'clf phase \<Rightarrow> 'clf \<Rightarrow> stage \<Rightarrow> stage \<Rightarrow> 'clf phase option" where
  "during q clf st st' =
     (case q of Cycle c k n \<Rightarrow> if c = clf then advance q st st' else None | _ \<Rightarrow> None)"

text \<open>
  The monitor accepts: a call that locates or reads the event tables only before the
  first \<^verbatim>\<open>fit\<close>; a \<^verbatim>\<open>fit\<close> only after all the loading calls or after the
  ROC figure of the classifier before; \<^verbatim>\<open>predict\<close> only on the classifier just
  fitted; \<^verbatim>\<open>predict_proba\<close> only after \<^verbatim>\<open>predict\<close> on it; its feature
  importances and staged scores or predictions only after both; the accuracy only after
  both predictions (inside the list of staged predictions: one accuracy for each
  prediction fetched); the ROC AUC only after the accuracy, the ROC curve only after the
  ROC AUC, the ROC figure only after the ROC curve. Cross-validation, which fits and
  scores inside the library a classifier that the notebook neither fits nor queries,
  has no place in this order: with \<open>cv\<close> the monitor accepts it between the ROC figure
  of one classifier and the \<^verbatim>\<open>fit\<close> of the next, without \<open>cv\<close> nowhere.
\<close>

definition pipeline_order :: "bool \<Rightarrow> 'clf phase \<Rightarrow> ('f, 'y, 'clf) event \<Rightarrow> 'clf phase option" where
  "pipeline_order cv q ev =
     (case ev of
        DatasetPath name r \<Rightarrow> (case q of Loading k \<Rightarrow> Some (Loading (Suc k)) | _ \<Rightarrow> None)
      | OpenTable path \<Rightarrow> (case q of Loading k \<Rightarrow> Some (Loading (Suc k)) | _ \<Rightarrow> None)
      | TableCall \<Rightarrow> (case q of Loading k \<Rightarrow> Some (Loading (Suc k)) | _ \<Rightarrow> None)
      | Fit clf X y \<Rightarrow>
          (case q of
             Loading k \<Rightarrow> if k = loading_calls then Some (Cycle clf Fitted 0) else None
           | Cycle c st n \<Rightarrow> None
           | Done n \<Rightarrow> Some (Cycle clf Fitted n))
      | Predict clf X \<Rightarrow> during q clf Fitted Predicted
      | PredictProba clf X \<Rightarrow> during q clf Predicted Probed
      | Importances clf \<Rightarrow> during q clf Probed Probed
      | StagedScore clf X y \<Rightarrow> during q clf Probed ScoreStages
      | StagedPredict clf X \<Rightarrow> during q clf Probed PredictStages
      | NextStage \<Rightarrow>
          (case q of
             Cycle c st n \<Rightarrow>
               if st = ScoreStages then Some q
               else if st = PredictStages then Some (Cycle c StageFetched n)
               else None
           | _ \<Rightarrow> None)
      | AccuracyScore t p \<Rightarrow>
          (case q of
             Cycle c st n \<Rightarrow>
               if st = StageFetched then Some (Cycle c PredictStages n)
               else if st = Probed \<or> st = ScoreStages \<or> st = PredictStages then Some (Cycle c Accuracy n)
               else None
           | _ \<Rightarrow> None)
      | RocAucScore t s \<Rightarrow> advance q Accuracy Auc
      | RocCurve t s \<Rightarrow> advance q Auc Curve
      | PlotRoc \<Rightarrow> (case q of Cycle c st n \<Rightarrow> if st = Curve then Some (Done (Suc n)) else None | _ \<Rightarrow> None)
      | CrossValidate clf X y \<Rightarrow> (case q of Done n \<Rightarrow> if cv then Some q else None | _ \<Rightarrow> None)
      | _ \<Rightarrow> Some q)"

text \<open>
  \<open>reaches delta q0 q run q'\<close>: when the monitor, started in \<open>q0\<close>, is in state \<open>q\<close>
  after the trace so far, it accepts the trace after \<open>run\<close> as well, and is in state
  \<open>q'\<close> if \<open>run\<close> returns.
\<close>

definition reaches :: "('q \<Rightarrow> 'ev \<Rightarrow> 'q option) \<Rightarrow> 'q \<Rightarrow> 'q \<Rightarrow> ('w \<times> 'ev list, 'a) py \<Rightarrow> 'q \<Rightarrow> bool" where
  "reaches delta q0 q run q' \<longleftrightarrow>
     (\<forall>w tr. monitor delta q0 tr = Some q \<longrightarrow>
        (case fst (run (w, tr)) of
           Inl e \<Rightarrow> monitor delta q0 (snd (snd (run (w, tr)))) \<noteq> None
         | Inr a \<Rightarrow> monitor delta q0 (snd (snd (run (w, tr)))) = Some q'))"

text \<open>
  The calls of one classifier's cycle, by name, and the names of these calls in a
  trace. \<^verbatim>\<open>accuracy_score\<close> is left out of the names because the list of staged
  predictions calls it any number of times; the monitor has it.
\<close>

definition cycle_calls :: "string list" where
  "cycle_calls = [''fit'', ''predict'', ''predict_proba'', ''roc_auc_score'', ''roc_curve'', ''roc figure'']"

definition called :: "('f, 'y, 'clf) event \<Rightarrow> string option" where
  "called ev =
     (case ev of
        Fit clf X y \<Rightarrow> Some ''fit''
      | Predict clf X \<Rightarrow> Some ''predict''
      | PredictProba clf X \<Rightarrow> Some ''predict_proba''
      | RocAucScore t s \<Rightarrow> Some ''roc_auc_score''
      | RocCurve t s \<Rightarrow> Some ''roc_curve''
      | PlotRoc \<Rightarrow> Some ''roc figure''
      | _ \<Rightarrow> None)"

definition cycle_names :: "('f, 'y, 'clf) event list \<Rightarrow> string list" where
  "cycle_names tr = List.map_filter called tr"

text \<open>How many of the calls of its cycle a classifier at a stage has behind it.\<close>

fun behind :: "stage \<Rightarrow> nat" where
  "behind Fitted = 1"
| "behind Predicted = 2"
| "behind Probed = 3"
| "behind ScoreStages = 3"
| "behind PredictStages = 3"
| "behind StageFetched = 3"
| "behind Accuracy = 3"
| "behind Auc = 4"
| "behind Curve = 5"

definition names_so_far :: "'clf phase \<Rightarrow> string list" where
  "names_so_far q =
     (case q of
        Loading k \<Rightarrow> []
      | Cycle c st n \<Rightarrow> concat (replicate n cycle_calls) @ take (behind st) cycle_calls
      | Done n \<Rightarrow> concat (replicate n cycle_calls))"

text \<open>\<open>concerns clf ev\<close>: the call fits or queries the classifier \<open>clf\<close>.\<close>

definition concerns :: "'clf \<Rightarrow> ('f, 'y, 'clf) event \<Rightarrow> bool" where
  "concerns clf ev =
     (case ev of
        Fit c X y \<Rightarrow> c = clf
      | Predict c X \<Rightarrow> c = clf
      | PredictProba c X \<Rightarrow> c = clf
      | _ \<Rightarrow> False)"

section \<open>The resources outside the notebooks\<close>

text \<open>
  The torch notebook under observation. A torchvision data set is traced with its
  name, everything else as \<open>Call\<close>; the fetches of a loader are traced as well.
\<close>

definition traced_fetches :: "('w, ('w, 'a) py list) py \<Rightarrow>
    ('w \<times> ('f, 'y, 'clf) event list, ('w \<times> ('f, 'y, 'clf) event list, 'a) py list) py" where
  "traced_fetches call = then_py (traced Call call) (\<lambda>fetches. ret (map (traced Call) fetches))"

definition observed_vision :: "('w, 'ds, 'dl, 'm, 'o, 'x, 'p, 'l, 'ps, 'cm) vision_lib \<Rightarrow>
    ('w \<times> ('f, 'y, 'clf) event list, 'ds, 'dl, 'm, 'o, 'x, 'p, 'l, 'ps, 'cm) vision_lib" where
  "observed_vision lib =
     \<lparr>cuda_is_available = traced Call (cuda_is_available lib),
      image_dataset = (\<lambda>name root train transform download.
         traced (ImageDataset name) (image_dataset lib name root train transform download)),
      data_loader = (\<lambda>ds batch_size shuffle. traced Call (data_loader lib ds batch_size shuffle)),
      first_batch = (\<lambda>dl. traced Call (first_batch lib dl)),
      sample_numel = (\<lambda>X. traced Call (sample_numel lib X)),
      n_classes = (\<lambda>ds. traced Call (n_classes lib ds)),
      new_module = (\<lambda>layers. traced Call (new_module lib layers)),
      new_loss = traced Call (new_loss lib),
      cross_entropy = (\<lambda>p y. traced Call (cross_entropy lib p y)),
      module_parameters = (\<lambda>m. traced Call (module_parameters lib m)),
      new_optimizer = (\<lambda>name ps lr. traced Call (new_optimizer lib name ps lr)),
      cpu_numpy = (\<lambda>t. traced Call (cpu_numpy lib t)),
      confusion_matrix = (\<lambda>t p. traced Call (confusion_matrix lib t p)),
      divide_by_row_sums = (\<lambda>m. traced Call (divide_by_row_sums lib m))\<rparr>"

definition observed_torch :: "('w, 'm, 'o, 'dev, 'dl, 'x, 'p, 'l) torch_lib \<Rightarrow>
    ('w \<times> ('f, 'y, 'clf) event list, 'm, 'o, 'dev, 'dl, 'x, 'p, 'l) torch_lib" where
  "observed_torch lib =
     \<lparr>iterate = (\<lambda>dl. traced_fetches (iterate lib dl)),
      module_to = (\<lambda>m d. traced Call (module_to lib m d)),
      module_train = (\<lambda>m. traced Call (module_train lib m)),
      module_eval = (\<lambda>m. traced Call (module_eval lib m)),
      input_to = (\<lambda>X d. traced Call (input_to lib X d)),
      labels_to = (\<lambda>y d. traced Call (labels_to lib y d)),
      forward = (\<lambda>m X. traced Call (forward lib m X)),
      zero_grad = (\<lambda>opt. traced Call (zero_grad lib opt)),
      backward = (\<lambda>loss. traced Call (backward lib loss)),
      step = (\<lambda>opt. traced Call (step lib opt)),
      item = (\<lambda>s. traced Call (item lib s)),
      tensor_len = (\<lambda>y. traced Call (tensor_len lib y)),
      argmax = (\<lambda>p dim. traced Call (argmax lib p dim)),
      tensor_eq = (\<lambda>a b. traced Call (tensor_eq lib a b)),
      as_float = (\<lambda>bs. traced Call (as_float lib bs)),
      tensor_sum = (\<lambda>fs. traced Call (tensor_sum lib fs)),
      cat = (\<lambda>ts. traced Call (cat lib ts)),
      is_grad_enabled = (\<lambda>(w, tr). is_grad_enabled lib w),
      set_grad_enabled = (\<lambda>b (w, tr). (set_grad_enabled lib b w, tr))\<rparr>"

definition torch_trace :: "('w, 'ld, 'f, 'y, 'pr, 'cv) notebook_lib \<Rightarrow>
    ('w, 'ds, 'dl, 'm, 'o, 'x, 'p, 'l, 'ps, 'cm) vision_lib \<Rightarrow>
    ('w, 'm, 'o, string, 'dl, 'x, 'p, 'l) torch_lib \<Rightarrow> 'w \<Rightarrow> ('f, 'y, 'clf) event list" where
  "torch_trace nb vision lib w =
     snd (snd (torch_notebook (observed_notebook nb) (observed_vision vision) (observed_torch lib) (w, [])))"

text \<open>
  The monitor of the resources. Its state is the list of the paths that
  \<^verbatim>\<open>get_dataset_path\<close> has returned. It accepts locating the two files of
  simulated events, opening a table at a path that was located, and the torchvision
  data sets MNIST and CIFAR10. With \<open>page\<close> it also accepts what the notebook page
  itself fetches: the script of the table of contents and the video of the HTML cell.
\<close>

definition event_files :: "string list" where
  "event_files = [''gamma_diffuse_dl2_train_small.dl2.h5'', ''proton_dl2_train_small.dl2.h5'']"

definition image_datasets :: "string list" where
  "image_datasets = [''MNIST'', ''CIFAR10'']"

definition event_video :: string where
  "event_video = ''./resources/fact_events.mp4''"

definition resources :: "bool \<Rightarrow> string list \<Rightarrow> ('f, 'y, 'clf) event \<Rightarrow> string list option" where
  "resources page q ev =
     (case ev of
        Script url \<Rightarrow> (if page \<and> url = toc_script then Some q else None)
      | Video src \<Rightarrow> (if page \<and> src = event_video then Some q else None)
      | DatasetPath name r \<Rightarrow>
          (if name \<in> set event_files then Some (case r of None \<Rightarrow> q | Some path \<Rightarrow> path # q) else None)
      | OpenTable path \<Rightarrow> (if path \<in> set q then Some q else None)
      | ImageDataset name \<Rightarrow> (if name \<in> set image_datasets then Some q else None)
      | _ \<Rightarrow> Some q)"

section \<open>Concrete inputs\<close>

text \<open>
  A small event table with the kinds of column the notebook meets: identifiers, a
  simulation truth column, image parameters with and without missing entries, a column
  without any entry, a constant column and a column of objects. \<open>np_kind\<close> classifies
  its dtypes as numpy does, \<open>constant_std\<close> reports a standard deviation of zero for
  the column that only holds the value 7.
\<close>

datatype dtype = Int64 | Float64 | Bool | Object

fun np_kind :: "string \<Rightarrow> dtype \<Rightarrow> bool" where
  "np_kind k Int64 = (k = ''number'')"
| "np_kind k Float64 = (k = ''number'')"
| "np_kind k Bool = (k = ''bool'')"
| "np_kind k Object = (k = ''object'')"

definition constant_std :: "string \<Rightarrow> int option list \<Rightarrow> int option" where
  "constant_std s xs =
     (if s = ''std'' \<and> list_all (\<lambda>x. x = Some 7 \<or> x = None) xs then Some 0 else Some 1)"

definition events :: "(dtype, int) frame" where
  "events = \<lparr>index = [Pos 0, Pos 1, Pos 2],
     cols = [\<lparr>col_name = ''obs_id'', col_dtype = Int64, cells = [Some 1, Some 1, Some 1]\<rparr>,
             \<lparr>col_name = ''true_energy'', col_dtype = Float64, cells = [Some 3, Some 4, Some 5]\<rparr>,
             \<lparr>col_name = ''hillas_width'', col_dtype = Float64, cells = [Some 2, None, Some 4]\<rparr>,
             \<lparr>col_name = ''tel_type'', col_dtype = Object, cells = [Some 0, Some 0, Some 0]\<rparr>,
             \<lparr>col_name = ''hillas_psi'', col_dtype = Float64, cells = [None, None, None]\<rparr>,
             \<lparr>col_name = ''tel_id'', col_dtype = Int64, cells = [Some 7, Some 7, Some 7]\<rparr>,
             \<lparr>col_name = ''hillas_length'', col_dtype = Float64, cells = [Some 5, Some 6, Some 8]\<rparr>]\<rparr>"

definition events_clean :: "(dtype, int) frame" where
  "events_clean = \<lparr>index = [Pos 0, Pos 2],
     cols = [\<lparr>col_name = ''hillas_width'', col_dtype = Float64, cells = [Some 2, Some 4]\<rparr>,
             \<lparr>col_name = ''hillas_length'', col_dtype = Float64, cells = [Some 5, Some 8]\<rparr>]\<rparr>"

text \<open>
  A library whose model is a threshold on one feature (class 1 from the threshold on),
  with torch's tensor calls; a loader is the list of its batches. One loader has two
  batches with two and three samples.
  The world is the grad mode.
\<close>

definition threshold_torch ::
  "(bool, int, unit, string, (int list \<times> int list) list, int list, (rat \<times> rat) list, rat) torch_lib" where
  "threshold_torch =
     \<lparr>iterate = (\<lambda>batches. ret (map ret batches)),
      module_to = (\<lambda>m d. ret m),
      module_train = (\<lambda>m. ret ()),
      module_eval = (\<lambda>m. ret ()),
      input_to = (\<lambda>X d. ret X),
      labels_to = (\<lambda>y d. ret y),
      forward = (\<lambda>m X. ret (map (\<lambda>x. if x < m then (1, 0) else (0, 1)) X)),
      zero_grad = (\<lambda>opt. ret ()),
      backward = (\<lambda>loss. ret ()),
      step = (\<lambda>opt. ret ()),
      item = ret,
      tensor_len = (\<lambda>y. ret (length y)),
      argmax = (\<lambda>p dim. ret (map (\<lambda>(a, b). if a \<ge> b then 0 else 1) p)),
      tensor_eq = torch_eq,
      as_float = (\<lambda>bs. ret (map (\<lambda>b. if b then 1 else 0) bs)),
      tensor_sum = (\<lambda>fs. ret (sum_list fs)),
      cat = torch_cat,
      is_grad_enabled = (\<lambda>w. w),
      set_grad_enabled = (\<lambda>b w. b)\<rparr>"

definition two_batches :: "(int list \<times> int list) list" where
  "two_batches = [([1, 5], [0, 1]), ([7, 2, 9], [0, 0, 1])]"

text \<open>
  A table library whose loader does not find the file, and a loader whose second batch
  has three inputs and two labels.
\<close>

definition missing_file :: "(unit, unit, unit, dtype, int) table_lib" where
  "missing_file =
     \<lparr>TableLoader = (\<lambda>path kwargs. raise FileNotFoundError),
      read_telescope_events = (\<lambda>loader. ret ()),
      remove_columns = (\<lambda>table names. ret ()),
      to_pandas = (\<lambda>table. ret \<lparr>index = [], cols = []\<rparr>)\<rparr>"

definition ragged_batches :: "(int list \<times> int list) list" where
  "ragged_batches = [([1, 5], [0, 1]), ([7, 2, 9], [0, 0]), ([3], [0])]"

text \<open>
  Libraries for a complete run of the boosting notebook. The world counts the
  classifiers made so far, and a classifier's handle is its number. The table library
  hands out the event table above for every file, pandas is the model above, the split
  is scikit-learn's without shuffling: the first rows are the training part. The other
  calls return without computing anything of interest.
\<close>

definition head_rows :: "nat \<Rightarrow> ('d, 'v) frame \<Rightarrow> ('d, 'v) frame" where
  "head_rows k df = \<lparr>index = take k (index df), cols = map (\<lambda>c. c\<lparr>cells := take k (cells c)\<rparr>) (cols df)\<rparr>"

definition tail_rows :: "nat \<Rightarrow> ('d, 'v) frame \<Rightarrow> ('d, 'v) frame" where
  "tail_rows k df = \<lparr>index = drop k (index df), cols = map (\<lambda>c. c\<lparr>cells := drop k (cells c)\<rparr>) (cols df)\<rparr>"

definition stacked :: "('d, 'v) frame list \<Rightarrow> ('d, 'v) frame" where
  "stacked dfs =
     \<lparr>index = concat (map index dfs),
      cols = (case dfs of [] \<Rightarrow> []
              | df # _ \<Rightarrow> map (\<lambda>k. (cols df ! k)\<lparr>cells := concat (map (\<lambda>d. cells (cols d ! k)) dfs)\<rparr>)
                           [0 ..< length (cols df)])\<rparr>"

definition plain_notebook :: "(nat, string, (dtype, int) frame, int list, int list, unit) notebook_lib" where
  "plain_notebook =
     \<lparr>get_script = (\<lambda>url. ret ()),
      set_max_rows = (\<lambda>n. ret ()),
      set_plot_style = ret (),
      matplotlib_magic = (\<lambda>backend. ret ()),
      html_video = (\<lambda>src. ret ()),
      get_dataset_path = (\<lambda>name. ret (''/cache/'' @ name)),
      subarray_peek = (\<lambda>loader. ret ()),
      plot = (\<lambda>what. ret ()),
      plot_roc = (\<lambda>curve auc acc. ret ()),
      pd_concat = (\<lambda>dfs. ret (stacked dfs)),
      df_len = (\<lambda>df. ret (rows df)),
      np_ones = (\<lambda>n. ret (replicate n 1)),
      np_zeros = (\<lambda>n. ret (replicate n 0)),
      np_concatenate = (\<lambda>ys. ret (concat ys)),
      np_array = (\<lambda>xs. ret []),
      proba_column = (\<lambda>p k. ret p),
      cv_getitem = (\<lambda>results key. ret [])\<rparr>"

definition plain_tables :: "(nat, string, string, dtype, int) table_lib" where
  "plain_tables =
     \<lparr>TableLoader = (\<lambda>path kwargs. ret path),
      read_telescope_events = (\<lambda>loader. ret loader),
      remove_columns = (\<lambda>table names. ret ()),
      to_pandas = (\<lambda>table. ret events)\<rparr>"

definition plain_series :: "(nat, dtype, int) series_lib" where
  "plain_series =
     \<lparr>df_getitem = (\<lambda>df l. ret []),
      df_setitem = (\<lambda>df l xs. ret df),
      series_mul = (\<lambda>xs ys. ret []),
      series_truediv = (\<lambda>xs ys. ret []),
      series_sub = (\<lambda>xs ys. ret []),
      series_add = (\<lambda>xs ys. ret []),
      series_pow = (\<lambda>xs n. ret []),
      np_sqrt = (\<lambda>xs. ret [])\<rparr>"

definition unshuffled_split :: "('d, 'v) frame \<Rightarrow> int list \<Rightarrow>
    (nat, ('d, 'v) frame \<times> ('d, 'v) frame \<times> int list \<times> int list) py" where
  "unshuffled_split X y =
     (let k = rows X - quarter (rows X)
      in if k = 0 then raise ValueError
         else ret (head_rows k X, tail_rows k X, take k y, drop k y))"

definition plain_sklearn :: "(nat, (dtype, int) frame, int list, nat, int list, unit) sklearn_lib" where
  "plain_sklearn =
     \<lparr>train_test_split = unshuffled_split,
      new_classifier = (\<lambda>c w. (Inr w, Suc w)),
      fit = (\<lambda>clf X y. ret ()),
      predict = (\<lambda>clf X. ret (replicate (rows X) 0)),
      predict_proba = (\<lambda>clf X. ret (replicate (rows X) 0)),
      feature_importances = (\<lambda>clf. ret []),
      staged_score = (\<lambda>clf X y. ret [ret 1, ret 1]),
      staged_predict = (\<lambda>clf X. ret [ret (replicate (rows X) 0), ret (replicate (rows X) 0)]),
      accuracy_score = (\<lambda>t p. ret 1),
      roc_auc_score = (\<lambda>t s. ret 1),
      roc_curve = (\<lambda>t s. ret ([], [], [])),
      cross_validate = (\<lambda>clf X y cv scoring train_score. ret ())\<rparr>"

definition plain_trace :: "((dtype, int) frame, int list, nat) event list" where
  "plain_trace =
     boosting_trace plain_notebook plain_tables (pandas np_kind constant_std Float64) plain_series
       plain_sklearn 0"

text \<open>
  The table that this run splits (its labels are \<open>[1, 1, 0, 0]\<close>), and the first and
  the second part of the split.
\<close>

definition both_tables :: "(dtype, int) frame" where
  "both_tables = \<lparr>index = [Pos 0, Pos 2, Pos 0, Pos 2],
     cols = [\<lparr>col_name = ''hillas_width'', col_dtype = Float64, cells = [Some 2, Some 4, Some 2, Some 4]\<rparr>,
             \<lparr>col_name = ''hillas_length'', col_dtype = Float64, cells = [Some 5, Some 8, Some 5, Some 8]\<rparr>]\<rparr>"

definition first_three :: "(dtype, int) frame" where
  "first_three = \<lparr>index = [Pos 0, Pos 2, Pos 0],
     cols = [\<lparr>col_name = ''hillas_width'', col_dtype = Float64, cells = [Some 2, Some 4, Some 2]\<rparr>,
             \<lparr>col_name = ''hillas_length'', col_dtype = Float64, cells = [Some 5, Some 8, Some 5]\<rparr>]\<rparr>"

definition last_quarter :: "(dtype, int) frame" where
  "last_quarter = \<lparr>index = [Pos 2],
     cols = [\<lparr>col_name = ''hillas_width'', col_dtype = Float64, cells = [Some 4]\<rparr>,
             \<lparr>col_name = ''hillas_length'', col_dtype = Float64, cells = [Some 8]\<rparr>]\<rparr>"


text \<open>
  Libraries for a run of the torch notebook: every data set is made of the two batches
  above, the model is a threshold of the torch library above, without a GPU; and the
  same without a network, where making a data set fails.
\<close>

definition plain_vision :: "(bool, unit, (int list \<times> int list) list, int, unit, int list, (rat \<times> rat) list,
    rat, unit, unit) vision_lib" where
  "plain_vision =
     \<lparr>cuda_is_available = ret False,
      image_dataset = (\<lambda>name root train transform download. ret ()),
      data_loader = (\<lambda>ds batch_size shuffle. ret two_batches),
      first_batch = (\<lambda>dl. case dl of [] \<Rightarrow> raise RuntimeError | batch # _ \<Rightarrow> ret batch),
      sample_numel = (\<lambda>X. ret 1),
      n_classes = (\<lambda>ds. ret 2),
      new_module = (\<lambda>layers. ret 4),
      new_loss = ret (),
      cross_entropy = (\<lambda>p y. ret 0),
      module_parameters = (\<lambda>m. ret ()),
      new_optimizer = (\<lambda>name ps lr. ret ()),
      cpu_numpy = (\<lambda>t. ret t),
      confusion_matrix = (\<lambda>t p. ret ()),
      divide_by_row_sums = (\<lambda>m. ret ())\<rparr>"

definition offline_vision :: "(bool, unit, (int list \<times> int list) list, int, unit, int list, (rat \<times> rat) list,
    rat, unit, unit) vision_lib" where
  "offline_vision = plain_vision\<lparr>image_dataset := (\<lambda>name root train transform download. raise RuntimeError)\<rparr>"

definition quiet_notebook :: "(bool, unit, unit, unit, unit, unit) notebook_lib" where
  "quiet_notebook =
     \<lparr>get_script = (\<lambda>url. ret ()),
      set_max_rows = (\<lambda>n. ret ()),
      set_plot_style = ret (),
      matplotlib_magic = (\<lambda>backend. ret ()),
      html_video = (\<lambda>src. ret ()),
      get_dataset_path = (\<lambda>name. ret name),
      subarray_peek = (\<lambda>loader. ret ()),
      plot = (\<lambda>what. ret ()),
      plot_roc = (\<lambda>curve auc acc. ret ()),
      pd_concat = (\<lambda>dfs. ret ()),
      df_len = (\<lambda>df. ret 0),
      np_ones = (\<lambda>n. ret ()),
      np_zeros = (\<lambda>n. ret ()),
      np_concatenate = (\<lambda>ys. ret ()),
      np_array = (\<lambda>xs. ret ()),
      proba_column = (\<lambda>p k. ret ()),
      cv_getitem = (\<lambda>results key. ret ())\<rparr>"

definition offline_torch_trace :: "(unit, unit, unit) event list" where
  "offline_torch_trace = torch_trace quiet_notebook offline_vision threshold_torch False"
section \<open>Sequencing\<close>

lemma then_py_returns:
  assumes "then_py m f w = (Inr b, w2)"
  obtains a w1 where "m w = (Inr a, w1)" and "f a w1 = (Inr b, w2)"
  using assms by (auto simp: then_py_def split: prod.splits sum.splits)

lemma ret_returns: "ret a w = (Inr b, w') \<longleftrightarrow> b = a \<and> w' = w"
  by (auto simp: ret_def)

lemma then_py_ret: "then_py (ret a) f = f a"
  by (simp add: then_py_def ret_def)

lemma search_filter_pattern:
  assumes "re_search (Cat Start (Cat (NotAhead r) (Cat DotStar End))) s"
  shows "\<not> re_match r s"
proof -
  from assms obtain i where i: "ends (Cat Start (Cat (NotAhead r) (Cat DotStar End))) s i \<noteq> []"
    by (auto simp: re_search_def list_ex_iff)
  then have "i = 0" by (auto split: if_splits)
  with i have "ends (NotAhead r) s 0 \<noteq> []" by auto
  then show ?thesis by (auto simp: re_match_def split: if_splits)
qed

lemma take_is_prefix: "take (length l) s = l \<longleftrightarrow> prefix l s"
  by (metis append_eq_conv_conj prefix_def append_take_drop_id)

lemma match_forbidden_columns:
  "re_match forbidden_columns s \<longleftrightarrow>
     prefix ''true_'' s \<or> prefix ''obs_id'' s \<or> prefix ''event_id'' s"
proof -
  have "re_match forbidden_columns s \<longleftrightarrow>
     take (length ''true_'') s = ''true_'' \<or> take (length ''obs_id'') s = ''obs_id'' \<or> take (length ''event_id'') s = ''event_id''"
    by (simp add: re_match_def forbidden_columns_def)
  then show ?thesis unfolding take_is_prefix .
qed

lemma pd_drop_cols:
  assumes "pd_drop labels df w = (Inr df', w')"
  shows "set (cols df') \<subseteq> set (cols df)"
  using assms by (auto simp: pd_drop_def ret_def raise_def split: list.splits)

lemma row_mask_notna:
  assumes "c \<in> set cs" and "(x, True) \<in> set (zip (cells c) (row_mask n cs))"
  shows "x \<noteq> None"
  using assms
proof (induction cs)
  case Nil
  then show ?case by simp
next
  case (Cons d cs)
  from Cons.prems(2) obtain i where i: "i < length (cells c)" "i < length (row_mask n (d # cs))"
    "cells c ! i = x" "row_mask n (d # cs) ! i"
    by (auto simp: set_zip)
  from i(2) have len: "i < length (cells d)" "i < length (row_mask n cs)"
    by (simp_all add: notna_def)
  with i(4) have both: "notna d ! i" "row_mask n cs ! i"
    by (simp_all add: notna_def)
  show ?case
  proof (cases "c = d")
    case True
    with both(1) len(1) i(3) show ?thesis by (simp add: notna_def)
  next
    case False
    with Cons.prems(1) have "c \<in> set cs" by simp
    moreover have "(x, True) \<in> set (zip (cells c) (row_mask n cs))"
      using i(1,3) len(2) both(2) by (force simp: set_zip)
    ultimately show ?thesis by (rule Cons.IH)
  qed
qed

lemma pd_dropna_complete:
  assumes "c \<in> set (cols (pd_dropna df))"
  shows "None \<notin> set (cells c)"
proof
  assume none: "None \<in> set (cells c)"
  from assms obtain d where d: "d \<in> set (cols df)"
    and c: "cells c = keep_where (row_mask (length (index df)) (cols df)) (cells d)"
    by (auto simp: pd_dropna_def Let_def)
  from none c have "(None, True) \<in> set (zip (cells d) (row_mask (length (index df)) (cols df)))"
    by (auto simp: keep_where_def)
  with d show False using row_mask_notna by blast
qed

lemma pd_dropna_cols:
  assumes "c \<in> set (cols (pd_dropna df))"
  obtains d where "d \<in> set (cols df)" "col_name c = col_name d" "col_dtype c = col_dtype d"
  using assms by (auto simp: pd_dropna_def Let_def)

lemma pd_drop_non_numbers:
  assumes "pd_drop (pd_columns (pd_select_dtypes_exclude dtype_in [''number''] df)) df w = (Inr df', w')"
    and "c \<in> set (cols df')"
  shows "dtype_in ''number'' (col_dtype c)"
proof (rule ccontr)
  assume other: "\<not> dtype_in ''number'' (col_dtype c)"
  let ?labels = "pd_columns (pd_select_dtypes_exclude dtype_in [''number''] df)"
  from assms have c: "c \<in> set (cols df)" "col_name c \<notin> set ?labels"
    by (auto simp: pd_drop_def ret_def raise_def split: list.splits)
  from c(1) other have "col_name c \<in> set ?labels"
    by (force simp: pd_columns_def pd_select_dtypes_exclude_def)
  with c(2) show False by simp
qed

lemma drops_then_dropna:
  fixes df1 :: "('d, 'v) frame"
  assumes "pd_drop c4 df3 w4 = (Inr df4, w5)"
    and "pd_drop c3 df2 w2 = (Inr df3, w3)"
    and "pd_drop (pd_columns (pd_select_dtypes_exclude dtype_in [''number''] df1)) df1 w0 = (Inr df2, w1)"
  shows "\<exists>(df2 :: ('d, 'v) frame) df4'. pd_dropna df4 = pd_dropna df4' \<and> set (cols df4') \<subseteq> set (cols df2)
      \<and> set (cols df2) \<subseteq> set (cols df1)
      \<and> (\<forall>c \<in> set (cols df2). dtype_in ''number'' (col_dtype c))"
proof -
  have "set (cols df4) \<subseteq> set (cols df3)"
    using assms(1) by (rule pd_drop_cols)
  moreover have "set (cols df3) \<subseteq> set (cols df2)"
    using assms(2) by (rule pd_drop_cols)
  ultimately have "set (cols df4) \<subseteq> set (cols df2)" by (rule subset_trans)
  moreover have "set (cols df2) \<subseteq> set (cols df1)"
    using assms(3) by (rule pd_drop_cols)
  moreover have "\<forall>c \<in> set (cols df2). dtype_in ''number'' (col_dtype c)"
    using pd_drop_non_numbers [OF assms(3)] by (rule ballI)
  ultimately have "pd_dropna df4 = pd_dropna df4 \<and> set (cols df4) \<subseteq> set (cols df2)
      \<and> set (cols df2) \<subseteq> set (cols df1)
      \<and> (\<forall>c \<in> set (cols df2). dtype_in ''number'' (col_dtype c))"
    by simp
  then show ?thesis by (intro exI)
qed

lemma preprocess_pandas_steps:
  fixes df :: "('d, 'v::semiring_1) frame"
  assumes "preprocess (pandas dtype_in stat float64) df w = (Inr out, w')"
  shows "\<exists>(df2 :: ('d, 'v) frame) df4. out = pd_dropna df4 \<and> set (cols df4) \<subseteq> set (cols df2)
      \<and> set (cols df2) \<subseteq> set (cols (pd_filter (Cat Start (Cat (NotAhead forbidden_columns) (Cat DotStar End))) df))
      \<and> (\<forall>c \<in> set (cols df2). dtype_in ''number'' (col_dtype c))"
  using assms unfolding preprocess_def pandas_def
  apply (simp add: then_py_ret)
  apply (elim then_py_returns)
  apply (simp only: ret_returns)
  apply (elim conjE)
  apply (rule drops_then_dropna; assumption)
  done


section \<open>The table that preprocess returns\<close>
text \<open>
  Claim C5. For every input data frame, with pandas behaving as documented, the frame
  that \<^verbatim>\<open>preprocess\<close> returns has no missing entry, every one of its columns
  has a dtype that pandas classifies as a number, and no column name is matched by the
  pattern \<^verbatim>\<open>true_|obs_id|event_id\<close>. Matching is Python's
  \<^verbatim>\<open>re.match\<close>, at the start of the name, as the lookahead of the filter
  tests it: by \<open>match_forbidden_columns\<close> no name starts with \<^verbatim>\<open>true_\<close>,
  \<^verbatim>\<open>obs_id\<close> or \<^verbatim>\<open>event_id\<close>. The statement is about calls that
  return: on a table that keeps no column, \<^verbatim>\<open>describe\<close> raises ValueError
  and so does \<^verbatim>\<open>preprocess\<close>.
\<close>

theorem preprocess_clean:
  fixes df :: "('d, 'v::semiring_1) frame"
  assumes "preprocess (pandas dtype_in stat float64) df w = (Inr out, w')"
  shows "(\<forall>c \<in> set (cols out). None \<notin> set (cells c))
       \<and> (\<forall>c \<in> set (cols out). dtype_in ''number'' (col_dtype c))
       \<and> (\<forall>c \<in> set (cols out). \<not> re_match forbidden_columns (col_name c))"
proof -
  from preprocess_pandas_steps [OF assms] obtain df2 :: "('d, 'v) frame" and df4 where
    out: "out = pd_dropna df4" and sub: "set (cols df4) \<subseteq> set (cols df2)"
    and filtered: "set (cols df2) \<subseteq> set (cols (pd_filter (Cat Start (Cat (NotAhead forbidden_columns) (Cat DotStar End))) df))"
    and numbers: "\<forall>c \<in> set (cols df2). dtype_in ''number'' (col_dtype c)"
    by (elim exE conjE)
  have "None \<notin> set (cells c)" if "c \<in> set (cols out)" for c
    using that pd_dropna_complete unfolding out by blast
  moreover have "dtype_in ''number'' (col_dtype c)" if "c \<in> set (cols out)" for c
    using that sub numbers unfolding out by (auto elim!: pd_dropna_cols)
  moreover have "\<not> re_match forbidden_columns (col_name c)" if "c \<in> set (cols out)" for c
  proof -
    from that obtain d where "d \<in> set (cols df4)" "col_name c = col_name d"
      unfolding out by (auto elim!: pd_dropna_cols)
    with sub filtered have "re_search (Cat Start (Cat (NotAhead forbidden_columns) (Cat DotStar End))) (col_name c)"
      by (auto simp: pd_filter_def)
    then show ?thesis by (rule search_filter_pattern)
  qed
  ultimately show ?thesis by blast
qed


text \<open>
  On the concrete event table the call returns two rows of two columns, and the theorem
  applies to them.
\<close>

theorem preprocess_clean_witness:
  "preprocess (pandas np_kind constant_std Float64) events () = (Inr events_clean, ())
   \<and> list_all (\<lambda>c. None \<notin> set (cells c) \<and> np_kind ''number'' (col_dtype c)
        \<and> \<not> re_match forbidden_columns (col_name c)) (cols events_clean)"
proof -
  have run: "preprocess (pandas np_kind constant_std Float64) events () = (Inr events_clean, ())"
    by code_simp
  from preprocess_clean [OF run] show ?thesis
    using run by (simp add: list_all_iff)
qed


section \<open>Accuracy and predictions\<close>

lemma then_py_raises:
  "m w = (Inl e, w1) \<Longrightarrow> then_py m f w = (Inl e, w1)"
  by (simp add: then_py_def)

lemma then_py_continues:
  "m w = (Inr a, w1) \<Longrightarrow> then_py m f w = f a w1"
  by (simp add: then_py_def)


lemma no_grad_continues:
  "body (set_grad_enabled lib False w) = (r, w1) \<Longrightarrow>
   no_grad lib body w = (r, set_grad_enabled lib (is_grad_enabled lib w) w1)"
  by (simp add: no_grad_def Let_def)













section \<open>Exceptions of library calls\<close>

lemma not_quiet: "\<not> quiet hist \<longleftrightarrow> (\<exists>e. Raised e \<in> set hist)"
proof
  assume "\<not> quiet hist"
  then obtain c where c: "c \<in> set hist" "c \<noteq> Returned"
    by (auto simp: quiet_def list_all_iff)
  show "\<exists>e. Raised e \<in> set hist"
  proof (cases c)
    case Returned
    with c(2) show ?thesis by simp
  next
    case (Raised e)
    with c(1) show ?thesis by blast
  qed
next
  assume "\<exists>e. Raised e \<in> set hist"
  then show "\<not> quiet hist" by (auto simp: quiet_def list_all_iff)
qed

lemma quiet_no_raise: "quiet hist \<Longrightarrow> Raised e \<notin> set hist"
  using not_quiet by blast

lemma propagatesI:
  assumes "\<And>w hist e result w' hist'. quiet hist \<Longrightarrow> run (w, hist) = (result, (w', hist')) \<Longrightarrow>
      Raised e \<in> set hist' \<Longrightarrow> result = Inl e \<and> (\<exists>calls. hist' = calls @ [Raised e] \<and> quiet calls)"
  shows "propagates_unchanged run"
  unfolding propagates_unchanged_def using assms by (auto split: prod.splits)

lemma propagatesD:
  assumes "propagates_unchanged run" "quiet hist" "run (w, hist) = (result, (w', hist'))"
    "Raised e \<in> set hist'"
  shows "result = Inl e" "\<exists>calls. hist' = calls @ [Raised e] \<and> quiet calls"
  using assms unfolding propagates_unchanged_def by (fastforce split: prod.splits)+

lemma propagates_from_start:
  assumes "propagates_unchanged run" and "Raised e \<in> set (snd (snd (run (w, []))))"
  shows "fst (run (w, [])) = Inl e"
proof -
  obtain result w' hist' where run: "run (w, []) = (result, (w', hist'))"
    by (metis surj_pair)
  have "quiet []" by (simp add: quiet_def)
  from propagatesD(1) [OF assms(1) this run] assms(2) show ?thesis
    by (simp add: run)
qed

lemma propagates_returned:
  assumes "propagates_unchanged run" "quiet hist" "run (w, hist) = (Inr a, (w', hist'))"
  shows "quiet hist'"
proof (rule ccontr)
  assume "\<not> quiet hist'"
  then obtain e where "Raised e \<in> set hist'" by (auto simp: not_quiet)
  from propagatesD(1) [OF assms this] show False by simp
qed

lemma propagates_ret: "propagates_unchanged (ret a)"
  by (rule propagatesI) (auto simp: ret_def dest: quiet_no_raise)

lemma propagates_raise: "propagates_unchanged (raise e)"
  by (rule propagatesI) (auto simp: raise_def dest: quiet_no_raise)

lemma propagates_logged: "propagates_unchanged (logged call)"
proof (rule propagatesI)
  fix w hist e result w' hist'
  assume q: "quiet hist" and run: "logged call (w, hist) = (result, (w', hist'))"
    and e: "Raised e \<in> set hist'"
  from q have none: "Raised e \<notin> set hist" using not_quiet by blast
  show "result = Inl e \<and> (\<exists>calls. hist' = calls @ [Raised e] \<and> quiet calls)"
  proof (cases "call w")
    case (Pair r w1)
    show ?thesis
    proof (cases r)
      case (Inl e')
      with Pair run have "result = Inl e'" "hist' = hist @ [Raised e']"
        by (auto simp: logged_def)
      with e none q show ?thesis by auto
    next
      case (Inr a)
      with Pair run have "hist' = hist @ [Returned]"
        by (auto simp: logged_def)
      with e none show ?thesis by auto
    qed
  qed
qed

lemma propagates_then:
  assumes m: "propagates_unchanged m" and f: "\<And>a. propagates_unchanged (f a)"
  shows "propagates_unchanged (then_py m f)"
proof (rule propagatesI)
  fix w hist e result w' hist'
  assume q: "quiet hist" and run: "then_py m f (w, hist) = (result, (w', hist'))"
    and e: "Raised e \<in> set hist'"
  obtain r w1 hist1 where first: "m (w, hist) = (r, (w1, hist1))"
    by (metis surj_pair)
  show "result = Inl e \<and> (\<exists>calls. hist' = calls @ [Raised e] \<and> quiet calls)"
  proof (cases r)
    case (Inl e')
    with first run have "result = Inl e'" "w' = w1" "hist' = hist1"
      by (auto simp: then_py_def)
    with first Inl e propagatesD [OF m q] show ?thesis by blast
  next
    case (Inr a)
    with first have q1: "quiet hist1"
      using propagates_returned [OF m q] by blast
    from Inr first run have "f a (w1, hist1) = (result, (w', hist'))"
      by (auto simp: then_py_def)
    with e propagatesD [OF f q1] show ?thesis by blast
  qed
qed

lemma propagates_for:
  assumes "\<And>fetch. fetch \<in> set fetches \<Longrightarrow> propagates_unchanged fetch"
    and "\<And>x s. propagates_unchanged (body x s)"
  shows "propagates_unchanged (for_py fetches body s)"
  using assms(1)
proof (induction fetches arbitrary: s)
  case Nil
  then show ?case by (simp add: propagates_ret)
next
  case (Cons fetch rest)
  show ?case
    by (simp, intro propagates_then Cons.prems Cons.IH assms(2)) simp_all
qed

lemma propagates_no_grad:
  assumes "propagates_unchanged body"
  shows "propagates_unchanged (no_grad (logged_torch lib) body)"
proof (rule propagatesI)
  fix w hist e result w' hist'
  assume q: "quiet hist" and run: "no_grad (logged_torch lib) body (w, hist) = (result, (w', hist'))"
    and e: "Raised e \<in> set hist'"
  from run obtain w1 where "body (set_grad_enabled lib False w, hist) = (result, (w1, hist'))"
    by (auto simp: no_grad_def logged_torch_def Let_def split: prod.splits)
  with e propagatesD [OF assms q] show "result = Inl e \<and> (\<exists>calls. hist' = calls @ [Raised e] \<and> quiet calls)"
    by blast
qed


lemma then_py_ret_after: "then_py (then_py m (\<lambda>a. ret (g a))) k = then_py m (\<lambda>a. k (g a))"
  by (auto simp: then_py_def ret_def fun_eq_iff split: prod.splits sum.splits)

lemma propagates_loader:
  assumes "\<And>x s. propagates_unchanged (body x s)"
  shows "propagates_unchanged (for_batches (logged_torch lib) dataloader body s)"
proof -
  have "for_batches (logged_torch lib) dataloader body s
      = then_py (logged (iterate lib dataloader)) (\<lambda>fetches. for_py (map logged fetches) body s)"
    by (simp add: for_batches_def logged_torch_def logged_fetches_def then_py_ret_after)
  moreover have "propagates_unchanged (for_py (map logged fetches) body s)" for fetches
    by (rule propagates_for) (auto simp: propagates_logged assms)
  ultimately show ?thesis
    by (simp add: propagates_then propagates_logged)
qed

lemma propagates_pair:
  assumes "\<And>a b. propagates_unchanged (f a b)"
  shows "propagates_unchanged (case p of (a, b) \<Rightarrow> f a b)"
  by (cases p) (simp add: assms)

lemma read_events_propagates:
  "propagates_unchanged (read_events (logged_tables lib) path)"
  unfolding read_events_def logged_tables_def
  by (simp, intro propagates_then propagates_logged)

lemma preprocess_propagates:
  "propagates_unchanged (preprocess (logged_frames lib) df)"
  unfolding preprocess_def logged_frames_def
  by (simp, intro propagates_then propagates_logged)

lemma feature_generation_propagates:
  "propagates_unchanged (feature_generation (logged_series lib) df)"
  unfolding feature_generation_def logged_series_def
  by (simp, intro propagates_then propagates_logged propagates_ret)

lemma train_batch_propagates:
  "propagates_unchanged
     (train_batch (logged_torch lib) model (\<lambda>p y. logged (loss_fn p y)) optimizer device b losses)"
  unfolding train_batch_def logged_torch_def
  by (cases b, simp, intro propagates_then propagates_logged propagates_ret)

lemma test_batch_propagates:
  "propagates_unchanged
     (test_batch (logged_torch lib) model (\<lambda>p y. logged (loss_fn p y)) device b losses)"
  unfolding test_batch_def logged_torch_def
  by (cases b, simp, intro propagates_then propagates_logged propagates_ret)

lemma accuracy_batch_propagates:
  "propagates_unchanged (accuracy_batch (logged_torch lib) model device b s)"
  unfolding accuracy_batch_def logged_torch_def
  by (cases b, cases s, simp, intro propagates_then propagates_logged propagates_ret)

lemma predictions_batch_propagates:
  "propagates_unchanged (predictions_batch (logged_torch lib) model device b s)"
  unfolding predictions_batch_def logged_torch_def
  by (cases b, cases s, simp, intro propagates_then propagates_logged propagates_ret)

lemma py_truediv_propagates: "propagates_unchanged (py_truediv a n)"
  by (simp add: py_truediv_def propagates_ret propagates_raise)

lemma logged_torch_calls:
  "module_to (logged_torch lib) m d = logged (module_to lib m d)"
  "module_train (logged_torch lib) m = logged (module_train lib m)"
  "module_eval (logged_torch lib) m = logged (module_eval lib m)"
  "cat (logged_torch lib) ts = logged (cat lib ts)"
  by (simp_all add: logged_torch_def)

lemma train_propagates:
  "propagates_unchanged
     (train (logged_torch lib) dataloader model (\<lambda>p y. logged (loss_fn p y)) optimizer device)"
  unfolding train_def logged_torch_calls
  by (intro propagates_then propagates_logged propagates_loader train_batch_propagates)

lemma test_propagates:
  "propagates_unchanged
     (test (logged_torch lib) dataloader model (\<lambda>p y. logged (loss_fn p y)) device)"
  unfolding test_def logged_torch_calls
  by (intro propagates_then propagates_logged propagates_no_grad propagates_loader
      test_batch_propagates)

lemma accuracy_propagates:
  "propagates_unchanged (accuracy (logged_torch lib) dataloader model device)"
  unfolding accuracy_def logged_torch_calls
  by (intro propagates_then propagates_logged propagates_no_grad propagates_loader
      accuracy_batch_propagates propagates_pair py_truediv_propagates)

lemma predictions_propagates:
  "propagates_unchanged (predictions (logged_torch lib) dataloader model device)"
  unfolding predictions_def logged_torch_calls
  by (intro propagates_then propagates_logged propagates_no_grad propagates_loader
      predictions_batch_propagates propagates_pair propagates_ret)

text \<open>
  Claim C3. In each of \<^verbatim>\<open>read_events\<close>, \<^verbatim>\<open>preprocess\<close>,
  \<^verbatim>\<open>feature_generation\<close>, \<^verbatim>\<open>train\<close>, \<^verbatim>\<open>test\<close>,
  \<^verbatim>\<open>accuracy\<close> and \<^verbatim>\<open>predictions\<close>, for every behaviour of the
  libraries, of the loader and of the loss function, an exception that a
  library call raises is the exception the function raises, and the function makes no
  further library call after it: nothing catches, replaces, retries or recovers.
\<close>

theorem library_exceptions_propagate:
  "propagates_unchanged (read_events (logged_tables tables) path)
   \<and> propagates_unchanged (preprocess (logged_frames frames) df)
   \<and> propagates_unchanged (feature_generation (logged_series series) df')
   \<and> propagates_unchanged
       (train (logged_torch torch) dataloader model (\<lambda>p y. logged (loss_fn p y)) optimizer device)
   \<and> propagates_unchanged
       (test (logged_torch torch) dataloader model (\<lambda>p y. logged (loss_fn p y)) device)
   \<and> propagates_unchanged (accuracy (logged_torch torch) dataloader model device)
   \<and> propagates_unchanged (predictions (logged_torch torch) dataloader model device)"
  by (intro conjI read_events_propagates preprocess_propagates feature_generation_propagates
      train_propagates test_propagates accuracy_propagates predictions_propagates)

text \<open>
  A data file that is missing: the loader's FileNotFoundError is what
  \<^verbatim>\<open>read_events\<close> raises. A batch with three inputs and two labels: the
  comparison's RuntimeError is what \<^verbatim>\<open>accuracy\<close> raises.
\<close>

theorem library_exceptions_propagate_witness:
  "Raised FileNotFoundError
     \<in> set (snd (snd (read_events (logged_tables missing_file) ''gamma.dl2.h5'' ((), []))))
   \<and> fst (read_events (logged_tables missing_file) ''gamma.dl2.h5'' ((), [])) = Inl FileNotFoundError
   \<and> Raised RuntimeError
     \<in> set (snd (snd (accuracy (logged_torch threshold_torch) ragged_batches 4 ''cpu'' (True, []))))
   \<and> fst (accuracy (logged_torch threshold_torch) ragged_batches 4 ''cpu'' (True, []))
       = Inl RuntimeError"
proof -
  have missing: "Raised FileNotFoundError
     \<in> set (snd (snd (read_events (logged_tables missing_file) ''gamma.dl2.h5'' ((), []))))"
    by code_simp
  have ragged: "Raised RuntimeError
     \<in> set (snd (snd (accuracy (logged_torch threshold_torch) ragged_batches 4 ''cpu'' (True, []))))"
    by code_simp
  note all = library_exceptions_propagate [where tables = missing_file and path = "''gamma.dl2.h5''"
      and torch = threshold_torch and dataloader = ragged_batches and model = 4 and device = "''cpu''"]
  from all have "propagates_unchanged (read_events (logged_tables missing_file) ''gamma.dl2.h5'')"
    by (rule conjunct1)
  then have one: "fst (read_events (logged_tables missing_file) ''gamma.dl2.h5'' ((), [])) = Inl FileNotFoundError"
    using missing by (rule propagates_from_start)
  from all [THEN conjunct2, THEN conjunct2, THEN conjunct2, THEN conjunct2, THEN conjunct2]
  have "propagates_unchanged (accuracy (logged_torch threshold_torch) ragged_batches 4 ''cpu'')"
    by (rule conjunct1)
  then have two: "fst (accuracy (logged_torch threshold_torch) ragged_batches 4 ''cpu'' (True, [])) = Inl RuntimeError"
    using ragged by (rule propagates_from_start)
  from missing one ragged two show ?thesis by simp
qed

section \<open>Reasoning about traces\<close>

text \<open>
  Rules for \<open>safe\<close> and \<open>stays\<close> along the sequencing of calls, loops and
  the functions of the notebooks, for any monitor.
\<close>

lemma monitor_snoc:
  "monitor delta q (tr @ [ev]) = (case monitor delta q tr of None \<Rightarrow> None | Some q' \<Rightarrow> delta q' ev)"
  by (induction tr arbitrary: q) (auto split: option.splits)

lemma traced_result_run:
  "traced_result ev call (w, tr) = (fst (call w), (snd (call w), tr @ [ev (fst (call w))]))"
  by (simp add: traced_result_def split: prod.splits)

lemma stays_safe: "stays delta q0 q run \<Longrightarrow> safe delta q0 q run"
  by (simp add: stays_def safe_def)

lemma staysD:
  assumes "stays delta q0 q m" and "monitor delta q0 tr = Some q" and "m (w, tr) = (r, (w1, tr1))"
  shows "monitor delta q0 tr1 = Some q"
proof -
  from assms(1,2) have "monitor delta q0 (snd (snd (m (w, tr)))) = Some q"
    unfolding stays_def by blast
  with assms(3) show ?thesis by simp
qed

lemma safeD:
  assumes "safe delta q0 q m" and "monitor delta q0 tr = Some q"
  shows "monitor delta q0 (snd (snd (m (w, tr)))) \<noteq> None"
  using assms unfolding safe_def by blast

lemma stays_ret: "stays delta q0 q (ret a)"
  by (simp add: stays_def ret_def)

lemma stays_raise: "stays delta q0 q (raise e)"
  by (simp add: stays_def raise_def)

lemma stays_traced: "delta q ev = Some q \<Longrightarrow> stays delta q0 q (traced ev call)"
  by (simp add: stays_def traced_def traced_result_run monitor_snoc)

lemma stays_then:
  assumes "stays delta q0 q m" and "\<And>a. stays delta q0 q (f a)"
  shows "stays delta q0 q (then_py m f)"
  unfolding stays_def
proof (intro allI impI)
  fix w tr
  assume q: "monitor delta q0 tr = Some q"
  obtain r w1 tr1 where first: "m (w, tr) = (r, (w1, tr1))"
    by (metis surj_pair)
  from staysD [OF assms(1) q first] have q1: "monitor delta q0 tr1 = Some q" .
  show "monitor delta q0 (snd (snd (then_py m f (w, tr)))) = Some q"
  proof (cases r)
    case (Inl e)
    with first q1 show ?thesis by (simp add: then_py_def)
  next
    case (Inr a)
    with first have "then_py m f (w, tr) = f a (w1, tr1)" by (simp add: then_py_def)
    with staysD [OF assms(2) [of a] q1] show ?thesis by (metis prod.collapse)
  qed
qed

lemma safe_then:
  assumes "stays delta q0 q m" and "\<And>a. safe delta q0 q (f a)"
  shows "safe delta q0 q (then_py m f)"
  unfolding safe_def
proof (intro allI impI)
  fix w tr
  assume q: "monitor delta q0 tr = Some q"
  obtain r w1 tr1 where first: "m (w, tr) = (r, (w1, tr1))"
    by (metis surj_pair)
  from staysD [OF assms(1) q first] have q1: "monitor delta q0 tr1 = Some q" .
  show "monitor delta q0 (snd (snd (then_py m f (w, tr)))) \<noteq> None"
  proof (cases r)
    case (Inl e)
    with first q1 show ?thesis by (simp add: then_py_def)
  next
    case (Inr a)
    with first have "then_py m f (w, tr) = f a (w1, tr1)" by (simp add: then_py_def)
    with safeD [OF assms(2) [of a] q1] show ?thesis by simp
  qed
qed

lemma safe_traced: "delta q ev \<noteq> None \<Longrightarrow> safe delta q0 q (traced ev call)"
  by (auto simp: safe_def traced_def traced_result_run monitor_snoc)

lemma safe_then_traced:
  assumes "delta q ev = Some q'" and "\<And>a. safe delta q0 q' (f a)"
  shows "safe delta q0 q (then_py (traced ev call) f)"
  unfolding safe_def
proof (intro allI impI)
  fix w tr
  assume q: "monitor delta q0 tr = Some q"
  obtain r w1 where first: "call w = (r, w1)"
    by (metis surj_pair)
  from q assms(1) have q1: "monitor delta q0 (tr @ [ev]) = Some q'"
    by (simp add: monitor_snoc)
  show "monitor delta q0 (snd (snd (then_py (traced ev call) f (w, tr)))) \<noteq> None"
  proof (cases r)
    case (Inl e)
    with first q1 show ?thesis by (simp add: then_py_def traced_def traced_result_run)
  next
    case (Inr a)
    with first have "then_py (traced ev call) f (w, tr) = f a (w1, tr @ [ev])"
      by (simp add: then_py_def traced_def traced_result_run)
    with safeD [OF assms(2) [of a] q1] show ?thesis by simp
  qed
qed

lemma safe_then_result:
  assumes "\<And>e. delta q (ev (Inl e)) \<noteq> None"
    and "\<And>a w w1. call w = (Inr a, w1) \<Longrightarrow> \<exists>q'. delta q (ev (Inr a)) = Some q' \<and> safe delta q0 q' (f a)"
  shows "safe delta q0 q (then_py (traced_result ev call) f)"
  unfolding safe_def
proof (intro allI impI)
  fix w tr
  assume q: "monitor delta q0 tr = Some q"
  obtain r w1 where first: "call w = (r, w1)"
    by (metis surj_pair)
  show "monitor delta q0 (snd (snd (then_py (traced_result ev call) f (w, tr)))) \<noteq> None"
  proof (cases r)
    case (Inl e)
    with first q assms(1) [of e] show ?thesis
      by (simp add: then_py_def traced_result_run monitor_snoc)
  next
    case (Inr a)
    from assms(2) [of w a w1] first Inr obtain q' where q': "delta q (ev (Inr a)) = Some q'"
      and rest: "safe delta q0 q' (f a)" by blast
    from q q' have q1: "monitor delta q0 (tr @ [ev (Inr a)]) = Some q'"
      by (simp add: monitor_snoc)
    from Inr first have "then_py (traced_result ev call) f (w, tr) = f a (w1, tr @ [ev (Inr a)])"
      by (simp add: then_py_def traced_result_run)
    with safeD [OF rest q1] show ?thesis by simp
  qed
qed

lemma stays_traced_result:
  "(\<And>r. delta q (ev r) = Some q) \<Longrightarrow> stays delta q0 q (traced_result ev call)"
  by (simp add: stays_def traced_result_run monitor_snoc)

lemma stays_for:
  assumes "\<And>fetch. fetch \<in> set fetches \<Longrightarrow> stays delta q0 q fetch"
    and "\<And>x s. stays delta q0 q (body x s)"
  shows "stays delta q0 q (for_py fetches body s)"
  using assms(1)
proof (induction fetches arbitrary: s)
  case Nil
  then show ?case by (simp add: stays_ret)
next
  case (Cons fetch rest)
  show ?case
    by (simp, intro stays_then Cons.prems Cons.IH assms(2)) simp_all
qed

lemma stays_pair:
  assumes "\<And>a b. stays delta q0 q (f a b)"
  shows "stays delta q0 q (case p of (a, b) \<Rightarrow> f a b)"
  by (cases p) (simp add: assms)

lemma then_traced_stages:
  "then_py (traced_stages ev call) k = then_py (traced ev call) (\<lambda>stages. k (map (traced NextStage) stages))"
  by (auto simp: traced_stages_def then_py_def ret_def fun_eq_iff split: prod.splits sum.splits)

lemma stays_stages:
  assumes "delta q NextStage = Some q" and "\<And>x s. stays delta q0 q (body x s)"
  shows "stays delta q0 q (for_py (map (traced NextStage) stages) body s)"
  by (rule stays_for) (auto simp: stays_traced assms)


lemma safe_then_split:
  assumes "\<And>e. delta q (split_event X y (Inl e)) \<noteq> None"
    and "\<And>a w w1. call w = (Inr a, w1) \<Longrightarrow>
      \<exists>q'. delta q (split_event X y (Inr a)) = Some q' \<and> safe delta q0 q' (f a)"
  shows "safe delta q0 q (then_py (traced_result (split_event X y) call) f)"
  using assms by (rule safe_then_result)

lemma observed_notebook_calls:
  "get_script (observed_notebook nb) url = traced (Script url) (get_script nb url)"
  "set_max_rows (observed_notebook nb) n = traced Call (set_max_rows nb n)"
  "set_plot_style (observed_notebook nb) = traced Call (set_plot_style nb)"
  "matplotlib_magic (observed_notebook nb) backend = traced Call (matplotlib_magic nb backend)"
  "html_video (observed_notebook nb) src = traced (Video src) (html_video nb src)"
  "get_dataset_path (observed_notebook nb) name = traced_result (located name) (get_dataset_path nb name)"
  "subarray_peek (observed_notebook nb) loader = traced TableCall (subarray_peek nb loader)"
  "plot (observed_notebook nb) what = traced Call (plot nb what)"
  "plot_roc (observed_notebook nb) curve auc acc = traced PlotRoc (plot_roc nb curve auc acc)"
  "pd_concat (observed_notebook nb) dfs = traced Call (pd_concat nb dfs)"
  "df_len (observed_notebook nb) df = traced Call (df_len nb df)"
  "np_ones (observed_notebook nb) n = traced Call (np_ones nb n)"
  "np_zeros (observed_notebook nb) n = traced Call (np_zeros nb n)"
  "np_concatenate (observed_notebook nb) ys = traced Call (np_concatenate nb ys)"
  "np_array (observed_notebook nb) xs = traced Call (np_array nb xs)"
  "proba_column (observed_notebook nb) p k = traced Call (proba_column nb p k)"
  "cv_getitem (observed_notebook nb) results key = traced Call (cv_getitem nb results key)"
  by (simp_all add: observed_notebook_def)

lemma observed_sklearn_calls:
  "train_test_split (observed_sklearn sk) X y = traced_result (split_event X y) (train_test_split sk X y)"
  "new_classifier (observed_sklearn sk) c = traced (New c) (new_classifier sk c)"
  "fit (observed_sklearn sk) clf X y = traced (Fit clf X y) (fit sk clf X y)"
  "predict (observed_sklearn sk) clf X = traced (Predict clf X) (predict sk clf X)"
  "predict_proba (observed_sklearn sk) clf X = traced (PredictProba clf X) (predict_proba sk clf X)"
  "feature_importances (observed_sklearn sk) clf = traced (Importances clf) (feature_importances sk clf)"
  "staged_score (observed_sklearn sk) clf X y = traced_stages (StagedScore clf X y) (staged_score sk clf X y)"
  "staged_predict (observed_sklearn sk) clf X = traced_stages (StagedPredict clf X) (staged_predict sk clf X)"
  "accuracy_score (observed_sklearn sk) t p = traced (AccuracyScore t p) (accuracy_score sk t p)"
  "roc_auc_score (observed_sklearn sk) t s = traced (RocAucScore t s) (roc_auc_score sk t s)"
  "roc_curve (observed_sklearn sk) t s = traced (RocCurve t s) (roc_curve sk t s)"
  "cross_validate (observed_sklearn sk) clf X y cv scoring train_score
     = traced (CrossValidate clf X y) (cross_validate sk clf X y cv scoring train_score)"
  by (simp_all add: observed_sklearn_def)

lemma observed_tables_calls:
  "TableLoader (observed_tables lib) path kwargs = traced (OpenTable path) (TableLoader lib path kwargs)"
  "read_telescope_events (observed_tables lib) loader = traced TableCall (read_telescope_events lib loader)"
  "remove_columns (observed_tables lib) table names = traced TableCall (remove_columns lib table names)"
  "to_pandas (observed_tables lib) table = traced TableCall (to_pandas lib table)"
  by (simp_all add: observed_tables_def)

lemma observed_frames_calls:
  "df_filter (observed_frames lib) r df = traced Call (df_filter lib r df)"
  "select_dtypes_exclude (observed_frames lib) kinds df = traced Call (select_dtypes_exclude lib kinds df)"
  "df_columns (observed_frames lib) df = traced Call (df_columns lib df)"
  "df_drop (observed_frames lib) labels df = traced Call (df_drop lib labels df)"
  "df_count (observed_frames lib) df = traced Call (df_count lib df)"
  "series_eq (observed_frames lib) xs v = traced Call (series_eq lib xs v)"
  "index_getitem (observed_frames lib) ix sel = traced Call (index_getitem lib ix sel)"
  "df_describe (observed_frames lib) df = traced Call (df_describe lib df)"
  "df_loc (observed_frames lib) df l = traced Call (df_loc lib df l)"
  "df_dropna (observed_frames lib) df = traced Call (df_dropna lib df)"
  by (simp_all add: observed_frames_def)

lemma safe_pair:
  assumes "\<And>a b. safe delta q0 q (f a b)"
  shows "safe delta q0 q (case p of (a, b) \<Rightarrow> f a b)"
  by (cases p) (simp add: assms)

lemma stays_read_events:
  assumes "delta q (OpenTable path) = Some q" and "delta q TableCall = Some q"
  shows "stays delta q0 q (read_events (observed_tables lib) path)"
  unfolding read_events_def observed_tables_calls
  by (intro stays_then stays_traced assms)

lemma stays_preprocess:
  assumes "delta q Call = Some q"
  shows "stays delta q0 q (preprocess (observed_frames lib) df)"
  unfolding preprocess_def observed_frames_calls
  by (intro stays_then stays_traced assms)

lemma stays_feature_generation:
  assumes "delta q Call = Some q"
  shows "stays delta q0 q (feature_generation (observed_series lib) df)"
  unfolding feature_generation_def observed_series_def
  by (simp, intro stays_then stays_traced stays_ret assms)

lemma stays_clean_gammas:
  assumes "delta q (OpenTable path) = Some q" and "delta q TableCall = Some q"
    and "delta q Call = Some q"
  shows "stays delta q0 q (clean_gammas (observed_tables tables) (observed_frames frames) path)"
  unfolding clean_gammas_def observed_frames_calls
  by (intro stays_then stays_read_events stays_traced assms)

lemma observed_vision_calls:
  "cuda_is_available (observed_vision lib) = traced Call (cuda_is_available lib)"
  "image_dataset (observed_vision lib) name dir training transform download
     = traced (ImageDataset name) (image_dataset lib name dir training transform download)"
  "data_loader (observed_vision lib) ds batch_size shuffle = traced Call (data_loader lib ds batch_size shuffle)"
  "first_batch (observed_vision lib) dl = traced Call (first_batch lib dl)"
  "sample_numel (observed_vision lib) X = traced Call (sample_numel lib X)"
  "n_classes (observed_vision lib) ds = traced Call (n_classes lib ds)"
  "new_module (observed_vision lib) layers = traced Call (new_module lib layers)"
  "new_loss (observed_vision lib) = traced Call (new_loss lib)"
  "cross_entropy (observed_vision lib) = (\<lambda>p y. traced Call (cross_entropy lib p y))"
  "module_parameters (observed_vision lib) m = traced Call (module_parameters lib m)"
  "new_optimizer (observed_vision lib) opt ps lr = traced Call (new_optimizer lib opt ps lr)"
  "cpu_numpy (observed_vision lib) t = traced Call (cpu_numpy lib t)"
  "confusion_matrix (observed_vision lib) t p = traced Call (confusion_matrix lib t p)"
  "divide_by_row_sums (observed_vision lib) matrix = traced Call (divide_by_row_sums lib matrix)"
  by (simp_all add: observed_vision_def)

lemma observed_torch_calls:
  "module_to (observed_torch lib) m d = traced Call (module_to lib m d)"
  "module_train (observed_torch lib) m = traced Call (module_train lib m)"
  "module_eval (observed_torch lib) m = traced Call (module_eval lib m)"
  "input_to (observed_torch lib) X d = traced Call (input_to lib X d)"
  "labels_to (observed_torch lib) y d = traced Call (labels_to lib y d)"
  "forward (observed_torch lib) m X = traced Call (forward lib m X)"
  "zero_grad (observed_torch lib) opt = traced Call (zero_grad lib opt)"
  "backward (observed_torch lib) loss = traced Call (backward lib loss)"
  "step (observed_torch lib) opt = traced Call (step lib opt)"
  "item (observed_torch lib) s = traced Call (item lib s)"
  "tensor_len (observed_torch lib) y = traced Call (tensor_len lib y)"
  "argmax (observed_torch lib) p k = traced Call (argmax lib p k)"
  "tensor_eq (observed_torch lib) a b = traced Call (tensor_eq lib a b)"
  "as_float (observed_torch lib) bs = traced Call (as_float lib bs)"
  "tensor_sum (observed_torch lib) fs = traced Call (tensor_sum lib fs)"
  "cat (observed_torch lib) ts = traced Call (cat lib ts)"
  by (simp_all add: observed_torch_def)

lemma stays_no_grad:
  assumes "stays delta q0 q body"
  shows "stays delta q0 q (no_grad (observed_torch lib) body)"
  unfolding stays_def
proof (intro allI impI)
  fix w tr
  assume q: "monitor delta q0 tr = Some q"
  obtain r w1 tr1 where run: "body (set_grad_enabled lib False w, tr) = (r, (w1, tr1))"
    by (metis surj_pair)
  from staysD [OF assms q run] have "monitor delta q0 tr1 = Some q" .
  with run show "monitor delta q0 (snd (snd (no_grad (observed_torch lib) body (w, tr)))) = Some q"
    by (simp add: no_grad_def observed_torch_def Let_def)
qed

lemma stays_loader:
  assumes "delta q Call = Some q" and "\<And>x s. stays delta q0 q (body x s)"
  shows "stays delta q0 q (for_batches (observed_torch lib) dataloader body s)"
proof -
  have "for_batches (observed_torch lib) dataloader body s
      = then_py (traced Call (iterate lib dataloader)) (\<lambda>fetches. for_py (map (traced Call) fetches) body s)"
    by (simp add: for_batches_def observed_torch_def traced_fetches_def then_py_ret_after)
  moreover have "stays delta q0 q (for_py (map (traced Call) fetches) body s)" for fetches
    by (rule stays_for) (auto simp: stays_traced assms)
  ultimately show ?thesis
    by (simp add: stays_then stays_traced assms(1))
qed

lemma stays_train:
  assumes "delta q Call = Some q"
  shows "stays delta q0 q
     (train (observed_torch lib) dataloader model (\<lambda>p y. traced Call (loss_fn p y)) optimizer device)"
  unfolding train_def
  apply (intro stays_then stays_loader assms)
   apply (simp_all add: observed_torch_calls stays_traced assms)
  apply (simp add: train_batch_def observed_torch_calls split: prod.splits)
  apply (intro allI impI stays_then stays_traced stays_ret assms)
  done

lemma stays_test:
  assumes "delta q Call = Some q"
  shows "stays delta q0 q
     (test (observed_torch lib) dataloader model (\<lambda>p y. traced Call (loss_fn p y)) device)"
  unfolding test_def
  apply (intro stays_then stays_no_grad stays_loader assms)
   apply (simp_all add: observed_torch_calls stays_traced assms)
  apply (simp add: test_batch_def observed_torch_calls split: prod.splits)
  apply (intro allI impI stays_then stays_traced stays_ret assms)
  done

lemma stays_truediv: "stays delta q0 q (py_truediv a n)"
  by (simp add: py_truediv_def stays_ret stays_raise)

lemma stays_accuracy:
  assumes "delta q Call = Some q"
  shows "stays delta q0 q (accuracy (observed_torch lib) dataloader model device)"
  unfolding accuracy_def
  apply (intro stays_then stays_no_grad stays_loader stays_pair stays_truediv assms)
   apply (simp_all add: observed_torch_calls stays_traced assms)
  apply (simp add: accuracy_batch_def observed_torch_calls split: prod.splits)
  apply (intro allI impI stays_then stays_traced stays_ret assms)
  done

lemma stays_predictions:
  assumes "delta q Call = Some q"
  shows "stays delta q0 q (predictions (observed_torch lib) dataloader model device)"
  unfolding predictions_def
  apply (intro stays_then stays_no_grad stays_loader stays_pair stays_ret assms)
   apply (simp_all add: observed_torch_calls stays_traced assms)
  apply (simp add: predictions_batch_def observed_torch_calls split: prod.splits)
  apply (intro allI impI stays_then stays_traced stays_ret assms)
  done

lemma stays_report_accuracy:
  assumes "delta q Call = Some q"
  shows "stays delta q0 q (report_accuracy (observed_torch lib) DEVICE test_dataloader train_dataloader model)"
  unfolding report_accuracy_def
  by (intro stays_then stays_accuracy stays_ret assms)

lemma stays_fit_one_epoch:
  assumes "delta q Call = Some q"
  shows "stays delta q0 q (fit_one_epoch (observed_torch lib) train_dataloader test_dataloader model
     (\<lambda>p y. traced Call (loss_fn p y)) optimizer device)"
  unfolding fit_one_epoch_def
  by (intro stays_then stays_train stays_test stays_ret assms)

lemma stays_training_cell:
  assumes "delta q Call = Some q"
  shows "stays delta q0 q (training_cell (observed_torch lib) DEVICE epochs train_dataloader test_dataloader
     model (\<lambda>p y. traced Call (loss_fn p y)) optimizer)"
  unfolding training_cell_def
  apply (intro stays_then stays_report_accuracy stays_for stays_pair stays_fit_one_epoch stays_ret assms)
  apply (auto simp: stays_ret)
  done

section \<open>The parts of the split that the classifiers are given\<close>

lemma classifiers_use_parts:
  "stays (uses_parts False) None (Some (X, y, a, b, c, d))
     (classifiers (observed_notebook nb) (observed_frames frames) (observed_sklearn sk) gammas X y a b c d)"
  unfolding classifiers_def roc_cells_def observed_notebook_calls observed_frames_calls
    observed_sklearn_calls then_traced_stages
  by (intro stays_then stays_traced stays_stages stays_ret) (simp_all add: uses_parts_def)

lemma boosting_uses_parts:
  fixes sk :: "('w, ('d, 'v::semiring_1) frame, 'y, 'clf, 'pr, 'cv) sklearn_lib"
  assumes "default_split sk"
  shows "safe (uses_parts False) None None
     (boosting_notebook (observed_notebook nb) (observed_tables tables) (observed_frames frames)
        (observed_series series) (observed_sklearn sk))"
proof -
  have rest: "\<exists>q'. uses_parts False None
        (split_event X y (Inr parts) :: (('d, 'v) frame, 'y, 'clf) event) = Some q'
      \<and> safe (uses_parts False) None q'
          ((\<lambda>(X_test, X_train, y_test, y_train).
              classifiers (observed_notebook nb) (observed_frames frames) (observed_sklearn sk)
                gammas X y X_test X_train y_test y_train) parts)"
    if "train_test_split sk X y w = (Inr parts, w1)" for X y parts w w1 gammas
  proof -
    obtain a b c d where parts: "parts = (a, b, c, d)" by (cases parts)
    with that assms have "rows a = rows X - quarter (rows X) \<and> rows b = quarter (rows X)"
      unfolding default_split_def by blast
    then have "uses_parts False None
        (split_event X y (Inr parts) :: (('d, 'v) frame, 'y, 'clf) event) = Some (Some (X, y, a, b, c, d))"
      by (simp add: uses_parts_def split_event_def parts)
    then show ?thesis
      using stays_safe [OF classifiers_use_parts] by (simp add: parts)
  qed
  show ?thesis
    unfolding boosting_notebook_def observed_notebook_calls observed_sklearn_calls observed_tables_calls
    by (intro safe_then_split safe_then stays_traced stays_traced_result stays_clean_gammas
        stays_read_events stays_preprocess stays_feature_generation rest)
      (simp_all add: uses_parts_def located_def split_event_def)
qed

lemma uses_parts_keeps:
  "uses_parts cv (Some p) ev = Some q \<Longrightarrow> q = Some p"
  by (cases p, cases ev) (auto simp: uses_parts_def split: if_splits)

lemma uses_parts_after_split:
  assumes "monitor (uses_parts False) (Some (X, y, a, b, c, d)) tr \<noteq> None"
  shows "(Fit clf X' y' \<in> set tr \<longrightarrow> X' = b \<and> y' = d)
       \<and> (Predict clf X' \<in> set tr \<longrightarrow> X' = a)
       \<and> (PredictProba clf X' \<in> set tr \<longrightarrow> X' = a)
       \<and> (CrossValidate clf X' y' \<in> set tr \<longrightarrow> X' = X \<and> y' = y)"
  using assms
proof (induction tr)
  case Nil
  then show ?case by simp
next
  case (Cons ev tr)
  from Cons.prems obtain q where q: "uses_parts False (Some (X, y, a, b, c, d)) ev = Some q"
    by (auto split: option.splits)
  then have q': "q = Some (X, y, a, b, c, d)" by (rule uses_parts_keeps)
  with q Cons.prems have "monitor (uses_parts False) (Some (X, y, a, b, c, d)) tr \<noteq> None" by simp
  then have rest: "(Fit clf X' y' \<in> set tr \<longrightarrow> X' = b \<and> y' = d)
       \<and> (Predict clf X' \<in> set tr \<longrightarrow> X' = a)
       \<and> (PredictProba clf X' \<in> set tr \<longrightarrow> X' = a)
       \<and> (CrossValidate clf X' y' \<in> set tr \<longrightarrow> X' = X \<and> y' = y)" by (rule Cons.IH)
  from q have "(ev = Fit clf X' y' \<longrightarrow> X' = b \<and> y' = d)
       \<and> (ev = Predict clf X' \<longrightarrow> X' = a)
       \<and> (ev = PredictProba clf X' \<longrightarrow> X' = a)
       \<and> (ev = CrossValidate clf X' y' \<longrightarrow> X' = X \<and> y' = y)"
    by (auto simp: uses_parts_def split: if_splits)
  with rest show ?case by auto
qed

lemma uses_parts_accepted:
  assumes "monitor (uses_parts False) None tr \<noteq> None"
    and "ev \<in> set tr"
    and "ev = Fit clf X' y' \<or> ev = Predict clf X' \<or> ev = PredictProba clf X' \<or> ev = CrossValidate clf X' y'"
  shows "\<exists>X y a b c d. Split X y (Some (a, b, c, d)) \<in> set tr
      \<and> rows a = rows X - quarter (rows X) \<and> rows b = quarter (rows X)
      \<and> (ev = Fit clf X' y' \<longrightarrow> X' = b \<and> y' = d)
      \<and> (ev = Predict clf X' \<longrightarrow> X' = a)
      \<and> (ev = PredictProba clf X' \<longrightarrow> X' = a)
      \<and> (ev = CrossValidate clf X' y' \<longrightarrow> X' = X \<and> y' = y)"
  using assms(1,2)
proof (induction tr)
  case Nil
  then show ?case by simp
next
  case (Cons e tr)
  from Cons.prems(1) obtain q where q: "uses_parts False None e = Some q"
    and rest: "monitor (uses_parts False) q tr \<noteq> None"
    by (auto split: option.splits)
  from q assms(3) have ne: "e \<noteq> ev"
    by (auto simp: uses_parts_def)
  with Cons.prems(2) have ev: "ev \<in> set tr" by simp
  show ?case
  proof (cases q)
    case None
    with rest ev Cons.IH show ?thesis by fastforce
  next
    case (Some parts)
    obtain X y a b c d where parts: "parts = (X, y, a, b, c, d)" by (cases parts)
    from q Some parts have e: "e = Split X y (Some (a, b, c, d))"
      and sizes: "rows a = rows X - quarter (rows X)" "rows b = quarter (rows X)"
      by (cases e; auto simp: uses_parts_def split: option.splits if_splits)+
    from rest Some parts have "monitor (uses_parts False) (Some (X, y, a, b, c, d)) tr \<noteq> None" by simp
    from uses_parts_after_split [OF this, of clf X' y'] ev
    have "(ev = Fit clf X' y' \<longrightarrow> X' = b \<and> y' = d)
        \<and> (ev = Predict clf X' \<longrightarrow> X' = a)
        \<and> (ev = PredictProba clf X' \<longrightarrow> X' = a)
        \<and> (ev = CrossValidate clf X' y' \<longrightarrow> X' = X \<and> y' = y)" by blast
    with e sizes show ?thesis
      by (intro exI [of _ X] exI [of _ y] exI [of _ a] exI [of _ b] exI [of _ c] exI [of _ d]) simp
  qed
qed

lemma default_split_plain: "default_split plain_sklearn"
  unfolding default_split_def plain_sklearn_def
  by (auto simp: unshuffled_split_def Let_def ret_def raise_def rows_def head_rows_def tail_rows_def
      quarter_def split: if_splits)

text \<open>
  Claim C4. The unpacking binds the first value that \<^verbatim>\<open>train_test_split\<close>
  returns to \<^verbatim>\<open>X_test\<close> and the second to \<^verbatim>\<open>X_train\<close>. In every
  run of the boosting notebook, whatever the libraries compute, with a split of the
  default sizes: every \<^verbatim>\<open>fit\<close> is given the second and the fourth value, a
  quarter of the rows rounded up; every \<^verbatim>\<open>predict\<close> and
  \<^verbatim>\<open>predict_proba\<close> is given the first value, the rest of the rows; and the
  classifier that is cross-validated is given the table and the labels that were
  split, not a part of them.
\<close>

theorem fitted_on_second_part:
  fixes sk :: "('w, ('d, 'v::semiring_1) frame, 'y, 'clf, 'pr, 'cv) sklearn_lib"
  assumes "default_split sk"
  shows "monitor (uses_parts False) None (boosting_trace nb tables frames series sk w) \<noteq> None
     \<and> (\<forall>clf X' y'. Fit clf X' y' \<in> set (boosting_trace nb tables frames series sk w) \<longrightarrow>
          (\<exists>X y a b c d. Split X y (Some (a, b, c, d)) \<in> set (boosting_trace nb tables frames series sk w)
             \<and> X' = b \<and> y' = d \<and> rows X' = quarter (rows X)))
     \<and> (\<forall>clf X'. Predict clf X' \<in> set (boosting_trace nb tables frames series sk w)
            \<or> PredictProba clf X' \<in> set (boosting_trace nb tables frames series sk w) \<longrightarrow>
          (\<exists>X y a b c d. Split X y (Some (a, b, c, d)) \<in> set (boosting_trace nb tables frames series sk w)
             \<and> X' = a \<and> rows X' = rows X - quarter (rows X)))
     \<and> (\<forall>clf X' y'. CrossValidate clf X' y' \<in> set (boosting_trace nb tables frames series sk w) \<longrightarrow>
          (\<exists>parts. Split X' y' (Some parts) \<in> set (boosting_trace nb tables frames series sk w)))"
proof -
  let ?tr = "boosting_trace nb tables frames series sk w"
  have accepted: "monitor (uses_parts False) None ?tr \<noteq> None"
    unfolding boosting_trace_def
    by (rule safeD [OF boosting_uses_parts [OF assms]]) simp
  have "\<exists>X y a b c d. Split X y (Some (a, b, c, d)) \<in> set ?tr
      \<and> X' = b \<and> y' = d \<and> rows X' = quarter (rows X)"
    if "Fit clf X' y' \<in> set ?tr" for clf X' y'
    using uses_parts_accepted [OF accepted that, of clf X' y'] by fastforce
  moreover have "\<exists>X y a b c d. Split X y (Some (a, b, c, d)) \<in> set ?tr
      \<and> X' = a \<and> rows X' = rows X - quarter (rows X)"
    if "Predict clf X' \<in> set ?tr \<or> PredictProba clf X' \<in> set ?tr" for clf X'
  proof -
    from that obtain ev where ev: "ev \<in> set ?tr" "ev = Predict clf X' \<or> ev = PredictProba clf X'"
      by blast
    from ev(2) have "ev = Fit clf X' undefined \<or> ev = Predict clf X' \<or> ev = PredictProba clf X'
        \<or> ev = CrossValidate clf X' undefined"
      by blast
    from uses_parts_accepted [OF accepted ev(1) this] ev(2) show ?thesis by fastforce
  qed
  moreover have "\<exists>parts. Split X' y' (Some parts) \<in> set ?tr"
    if "CrossValidate clf X' y' \<in> set ?tr" for clf X' y'
    using uses_parts_accepted [OF accepted that, of clf X' y'] by fastforce
  ultimately show ?thesis using accepted by blast
qed

text \<open>
  A run on two tables of two events each: the tree is fitted on the last of the four
  rows.
\<close>

theorem fitted_on_second_part_witness:
  "default_split plain_sklearn
   \<and> Fit 0 last_quarter [0] \<in> set plain_trace
   \<and> (\<exists>X y a b c d. Split X y (Some (a, b, c, d)) \<in> set plain_trace
         \<and> last_quarter = b \<and> [0] = d \<and> rows last_quarter = quarter (rows X))"
proof -
  have split: "default_split plain_sklearn" by (rule default_split_plain)
  have fitted: "Fit 0 last_quarter [0] \<in> set plain_trace" by code_simp
  from fitted_on_second_part [OF split, of plain_notebook plain_tables
      "pandas np_kind constant_std Float64" plain_series 0]
  have "\<forall>clf X' y'. Fit clf X' y' \<in> set plain_trace \<longrightarrow>
          (\<exists>X y a b c d. Split X y (Some (a, b, c, d)) \<in> set plain_trace
             \<and> X' = b \<and> y' = d \<and> rows X' = quarter (rows X))"
    unfolding plain_trace_def [symmetric] by (elim conjE)
  with fitted have "\<exists>X y a b c d. Split X y (Some (a, b, c, d)) \<in> set plain_trace
         \<and> last_quarter = b \<and> [0] = d \<and> rows last_quarter = quarter (rows X)"
    by blast
  with split fitted show ?thesis by (intro conjI)
qed

text \<open>
  Not every classifier is given the quarter: in the same run the tree of depth 12 is
  passed to \<^verbatim>\<open>cross_validate\<close> with all four rows, which the monitor that
  wants cross-validation on the second part rejects.
\<close>

theorem every_classifier_on_second_part_counterexample:
  "monitor (uses_parts True) None plain_trace = None
   \<and> Split both_tables [1, 1, 0, 0] (Some (first_three, last_quarter, [1, 1, 0], [0])) \<in> set plain_trace
   \<and> CrossValidate 1 both_tables [1, 1, 0, 0] \<in> set plain_trace
   \<and> rows both_tables = 4 \<and> rows last_quarter = 1"
proof -
  have "monitor (uses_parts True) None plain_trace = None" by code_simp
  moreover have "Split both_tables [1, 1, 0, 0] (Some (first_three, last_quarter, [1, 1, 0], [0])) \<in> set plain_trace"
    by code_simp
  moreover have "CrossValidate 1 both_tables [1, 1, 0, 0] \<in> set plain_trace" by code_simp
  moreover have "rows both_tables = 4" by code_simp
  moreover have "rows last_quarter = 1" by code_simp
  ultimately show ?thesis by (intro conjI)
qed

section \<open>Loading, fitting, predicting, scoring\<close>

text \<open>Rules for \<open>reaches\<close> along the sequencing of calls and loops.\<close>

lemma reachesI:
  assumes "\<And>w tr e w1 tr1. monitor delta q0 tr = Some q \<Longrightarrow> run (w, tr) = (Inl e, (w1, tr1)) \<Longrightarrow>
      monitor delta q0 tr1 \<noteq> None"
    and "\<And>w tr a w1 tr1. monitor delta q0 tr = Some q \<Longrightarrow> run (w, tr) = (Inr a, (w1, tr1)) \<Longrightarrow>
      monitor delta q0 tr1 = Some q'"
  shows "reaches delta q0 q run q'"
  unfolding reaches_def
proof (intro allI impI)
  fix w tr
  assume q: "monitor delta q0 tr = Some q"
  obtain r w1 tr1 where run: "run (w, tr) = (r, (w1, tr1))"
    by (metis surj_pair)
  show "case fst (run (w, tr)) of
          Inl e \<Rightarrow> monitor delta q0 (snd (snd (run (w, tr)))) \<noteq> None
        | Inr a \<Rightarrow> monitor delta q0 (snd (snd (run (w, tr)))) = Some q'"
  proof (cases r)
    case (Inl e)
    with assms(1) [OF q, of w e w1 tr1] run show ?thesis by simp
  next
    case (Inr a)
    with assms(2) [OF q, of w a w1 tr1] run show ?thesis by simp
  qed
qed

lemma reaches_raised:
  assumes "reaches delta q0 q run q'" and "monitor delta q0 tr = Some q"
    and "run (w, tr) = (Inl e, (w1, tr1))"
  shows "monitor delta q0 tr1 \<noteq> None"
proof -
  from assms(1,2) have "case fst (run (w, tr)) of
      Inl e \<Rightarrow> monitor delta q0 (snd (snd (run (w, tr)))) \<noteq> None
    | Inr a \<Rightarrow> monitor delta q0 (snd (snd (run (w, tr)))) = Some q'"
    unfolding reaches_def by blast
  with assms(3) show ?thesis by simp
qed

lemma reaches_returned:
  assumes "reaches delta q0 q run q'" and "monitor delta q0 tr = Some q"
    and "run (w, tr) = (Inr a, (w1, tr1))"
  shows "monitor delta q0 tr1 = Some q'"
proof -
  from assms(1,2) have "case fst (run (w, tr)) of
      Inl e \<Rightarrow> monitor delta q0 (snd (snd (run (w, tr)))) \<noteq> None
    | Inr a \<Rightarrow> monitor delta q0 (snd (snd (run (w, tr)))) = Some q'"
    unfolding reaches_def by blast
  with assms(3) show ?thesis by simp
qed

lemma reaches_ret: "q = q' \<Longrightarrow> reaches delta q0 q (ret a) q'"
  by (rule reachesI) (simp_all add: ret_def)

lemma reaches_stays:
  assumes "stays delta q0 q run"
  shows "reaches delta q0 q run q"
  by (rule reachesI) (auto dest: staysD [OF assms])

lemma reaches_then:
  assumes "reaches delta q0 q m q1" and "\<And>a. reaches delta q0 q1 (f a) q2"
  shows "reaches delta q0 q (then_py m f) q2"
proof (rule reachesI)
  fix w tr e w2 tr2
  assume q: "monitor delta q0 tr = Some q" and run: "then_py m f (w, tr) = (Inl e, (w2, tr2))"
  obtain r w1 tr1 where first: "m (w, tr) = (r, (w1, tr1))"
    by (metis surj_pair)
  show "monitor delta q0 tr2 \<noteq> None"
  proof (cases r)
    case (Inl e')
    with first run have "m (w, tr) = (Inl e', (w2, tr2))" by (simp add: then_py_def)
    with assms(1) q show ?thesis by (rule reaches_raised)
  next
    case (Inr a)
    with first run have "f a (w1, tr1) = (Inl e, (w2, tr2))" by (simp add: then_py_def)
    moreover from first Inr have "monitor delta q0 tr1 = Some q1"
      using reaches_returned [OF assms(1) q] by simp
    ultimately show ?thesis using reaches_raised [OF assms(2)] by blast
  qed
next
  fix w tr b w2 tr2
  assume q: "monitor delta q0 tr = Some q" and run: "then_py m f (w, tr) = (Inr b, (w2, tr2))"
  from run obtain a w1 tr1 where first: "m (w, tr) = (Inr a, (w1, tr1))"
    and rest: "f a (w1, tr1) = (Inr b, (w2, tr2))"
    by (auto elim!: then_py_returns)
  from reaches_returned [OF assms(1) q first] have "monitor delta q0 tr1 = Some q1" .
  with assms(2) show "monitor delta q0 tr2 = Some q2" using rest by (rule reaches_returned)
qed

lemma reaches_traced:
  assumes "delta q ev = Some q'"
  shows "reaches delta q0 q (traced ev call) q'"
  by (rule reachesI) (auto simp: traced_def traced_result_run monitor_snoc assms)

lemma reaches_traced_result:
  assumes "\<And>r. delta q (ev r) = Some q'"
  shows "reaches delta q0 q (traced_result ev call) q'"
  by (rule reachesI) (auto simp: traced_result_run monitor_snoc assms)

lemma reaches_then_stays:
  assumes "stays delta q0 q m" and "\<And>a. reaches delta q0 q (f a) q2"
  shows "reaches delta q0 q (then_py m f) q2"
  using reaches_stays [OF assms(1)] assms(2) by (rule reaches_then)

lemma reaches_then_kept:
  assumes "delta q ev = Some q" and "\<And>a. reaches delta q0 q (f a) q2"
  shows "reaches delta q0 q (then_py (traced ev call) f) q2"
  using stays_traced [of delta q ev, OF assms(1)] assms(2) by (rule reaches_then_stays)

lemma reaches_then_step:
  assumes "delta q ev \<noteq> None" and "\<And>a. reaches delta q0 (the (delta q ev)) (f a) q2"
  shows "reaches delta q0 q (then_py (traced ev call) f) q2"
proof -
  from assms(1) have "delta q ev = Some (the (delta q ev))" by simp
  then have "reaches delta q0 q (traced ev call) (the (delta q ev))" by (rule reaches_traced)
  then show ?thesis using assms(2) by (rule reaches_then)
qed

lemma reaches_then_result:
  assumes "\<And>r. delta q (ev r) = Some q'" and "\<And>a. reaches delta q0 q' (f a) q2"
  shows "reaches delta q0 q (then_py (traced_result ev call) f) q2"
  using reaches_traced_result [of delta q ev q', OF assms(1)] assms(2) by (rule reaches_then)

lemma reaches_pair:
  assumes "\<And>a b. reaches delta q0 q (f a b) q'"
  shows "reaches delta q0 q (case p of (a, b) \<Rightarrow> f a b) q'"
  by (cases p) (simp add: assms)

lemma reaches_for:
  assumes "\<And>fetch. fetch \<in> set fetches \<Longrightarrow> reaches delta q0 q fetch q1"
    and "\<And>x s. reaches delta q0 q1 (body x s) q"
  shows "reaches delta q0 q (for_py fetches body s) q"
  using assms(1)
proof (induction fetches arbitrary: s)
  case Nil
  then show ?case by (simp add: reaches_ret)
next
  case (Cons fetch rest)
  have "reaches delta q0 q fetch q1" by (rule Cons.prems) simp
  moreover have "reaches delta q0 q1 (then_py (body x s) (for_py rest body)) q" for x
    by (rule reaches_then [OF assms(2)]) (rule Cons.IH, rule Cons.prems, simp)
  ultimately show ?case by (simp add: reaches_then)
qed

lemma reaches_then_stages:
  assumes "delta q NextStage \<noteq> None"
    and "\<And>x s. reaches delta q0 (the (delta q NextStage)) (body x s) q"
    and "\<And>a. reaches delta q0 q (f a) q2"
  shows "reaches delta q0 q (then_py (for_py (map (traced NextStage) stages) body s) f) q2"
proof -
  from assms(1) have "delta q NextStage = Some (the (delta q NextStage))" by simp
  then have "reaches delta q0 q fetch (the (delta q NextStage))"
    if "fetch \<in> set (map (traced NextStage) stages)" for fetch
    using that by (auto simp: reaches_traced)
  then have "reaches delta q0 q (for_py (map (traced NextStage) stages) body s) q"
    using assms(2) by (rule reaches_for)
  then show ?thesis using assms(3) by (rule reaches_then)
qed

lemma then_py_assoc: "then_py (then_py m f) g = then_py m (\<lambda>a. then_py (f a) g)"
  by (auto simp: then_py_def fun_eq_iff split: prod.splits sum.splits)

lemmas reaches_then_call = reaches_then_kept [where ev = Call]

lemmas reaches_then_new = reaches_then_kept [where ev = "New c"] for c

lemmas order_steps =
  reaches_then_step [where ev = "Fit clf X y"]
  reaches_then_step [where ev = "Predict clf X"]
  reaches_then_step [where ev = "PredictProba clf X"]
  reaches_then_step [where ev = "Importances clf"]
  reaches_then_step [where ev = "StagedScore clf X y"]
  reaches_then_step [where ev = "StagedPredict clf X"]
  reaches_then_step [where ev = "AccuracyScore y y'"]
  reaches_then_step [where ev = "RocAucScore y y'"]
  reaches_then_step [where ev = "RocCurve y y'"]
  reaches_then_step [where ev = "PlotRoc"]
  reaches_then_step [where ev = "CrossValidate clf X y"]
  reaches_then_step [where ev = "OpenTable path"]
  reaches_then_step [where ev = "TableCall"]
  for clf X y y' path

lemma classifiers_reach:
  "reaches (pipeline_order True) q0 (Loading loading_calls)
     (classifiers (observed_notebook nb) (observed_frames frames) (observed_sklearn sk) gammas X y a b c d)
     (Done 4)"
  unfolding classifiers_def roc_cells_def observed_notebook_calls observed_frames_calls
    observed_sklearn_calls then_traced_stages then_py_assoc
  apply (intro reaches_then_call reaches_then_new order_steps reaches_then_stages reaches_ret
      reaches_traced)
  apply (simp_all add: pipeline_order_def during_def advance_def)
  done


lemma classifiers_reach_from:
  assumes "q = Loading loading_calls"
  shows "reaches (pipeline_order True) q0 q
     (classifiers (observed_notebook nb) (observed_frames frames) (observed_sklearn sk) gammas X y a b c d)
     (Done 4)"
  unfolding assms by (rule classifiers_reach)

lemmas reaches_then_script = reaches_then_kept [where ev = "Script url"] for url

lemmas reaches_then_video = reaches_then_kept [where ev = "Video src"] for src

lemmas reaches_then_split = reaches_then_result [where ev = "split_event X y"] for X y

lemmas reaches_then_preprocess = reaches_then_stays [OF stays_preprocess]

lemmas reaches_then_feature_generation = reaches_then_stays [OF stays_feature_generation]

lemma reaches_then_located:
  assumes "\<And>a. reaches (pipeline_order cv) q0 (Loading (Suc k)) (f a) q2"
  shows "reaches (pipeline_order cv) q0 (Loading k) (then_py (traced_result (located name) call) f) q2"
  by (rule reaches_then_result [OF _ assms]) (simp add: pipeline_order_def located_def)

lemma boosting_reaches:
  "reaches (pipeline_order True) (Loading 0) (Loading 0)
     (boosting_notebook (observed_notebook nb) (observed_tables tables) (observed_frames frames)
        (observed_series series) (observed_sklearn sk))
     (Done 4)"
  unfolding boosting_notebook_def clean_gammas_def read_events_def observed_notebook_calls
    observed_sklearn_calls observed_tables_calls observed_frames_calls then_py_assoc
  apply (intro reaches_then_call reaches_then_script reaches_then_video reaches_then_located
      order_steps reaches_then_split reaches_then_preprocess reaches_then_feature_generation
      reaches_pair classifiers_reach_from)
  apply (simp_all add: pipeline_order_def during_def advance_def loading_calls_def split_event_def)
  done

lemma monitor_append:
  "monitor delta q (pre @ post) = (case monitor delta q pre of None \<Rightarrow> None | Some q' \<Rightarrow> monitor delta q' post)"
  by (induction pre arbitrary: q) (auto split: option.splits)

lemma monitor_at:
  assumes "monitor delta q0 (pre @ ev # post) \<noteq> None"
  obtains q q' where "monitor delta q0 pre = Some q" and "delta q ev = Some q'"
    and "monitor delta q' post \<noteq> None"
  using assms by (auto simp: monitor_append split: option.splits)

lemma cycle_names_snoc:
  "cycle_names (tr @ [ev]) = cycle_names tr @ (case called ev of None \<Rightarrow> [] | Some name \<Rightarrow> [name])"
  by (simp add: cycle_names_def map_filter_def split: option.splits)

lemma replicate_cycles: "concat (replicate (Suc n) xs) = concat (replicate n xs) @ xs"
  by (induction n) simp_all

lemma order_step_names:
  assumes "pipeline_order cv q ev = Some q'"
  shows "names_so_far q' = names_so_far q @ (case called ev of None \<Rightarrow> [] | Some name \<Rightarrow> [name])"
proof (cases q)
  case (Loading k)
  with assms show ?thesis
    by (cases ev) (auto simp: pipeline_order_def during_def advance_def called_def names_so_far_def
        cycle_calls_def split: if_splits)
next
  case (Done n)
  with assms show ?thesis
    by (cases ev) (auto simp: pipeline_order_def during_def advance_def called_def names_so_far_def
        cycle_calls_def split: if_splits)
next
  case (Cycle c st n)
  show ?thesis
  proof (cases "ev = PlotRoc")
    case True
    with assms Cycle have "st = Curve" "q' = Done (Suc n)"
      by (auto simp: pipeline_order_def split: if_splits)
    with Cycle True show ?thesis
      by (simp add: names_so_far_def called_def replicate_cycles cycle_calls_def del: replicate_Suc)
  next
    case False
    with assms Cycle show ?thesis
      by (cases ev; cases st)
        (auto simp: pipeline_order_def during_def advance_def called_def names_so_far_def
          cycle_calls_def split: if_splits)
  qed
qed

lemma order_names:
  "monitor (pipeline_order cv) (Loading 0) tr = Some q \<Longrightarrow> cycle_names tr = names_so_far q"
proof (induction tr arbitrary: q rule: rev_induct)
  case Nil
  then show ?case by (auto simp: cycle_names_def names_so_far_def)
next
  case (snoc ev tr)
  from snoc.prems obtain q1 where q1: "monitor (pipeline_order cv) (Loading 0) tr = Some q1"
    and step: "pipeline_order cv q1 ev = Some q"
    by (auto simp: monitor_snoc split: option.splits)
  from snoc.IH [OF q1] order_step_names [OF step] show ?case
    by (simp add: cycle_names_snoc)
qed

lemma order_step_loads:
  assumes "pipeline_order cv q ev = Some q'"
  shows "(case q' of Loading k \<Rightarrow> k | _ \<Rightarrow> loading_calls)
       = (case q of Loading k \<Rightarrow> k | _ \<Rightarrow> loading_calls) + (if loads ev then 1 else 0)"
  using assms
  by (cases ev; cases q)
    (auto simp: pipeline_order_def during_def advance_def loads_def split: if_splits)

lemma order_loads:
  "monitor (pipeline_order cv) (Loading 0) tr = Some q \<Longrightarrow>
     length (filter loads tr) = (case q of Loading k \<Rightarrow> k | _ \<Rightarrow> loading_calls)"
proof (induction tr arbitrary: q rule: rev_induct)
  case Nil
  then show ?case by auto
next
  case (snoc ev tr)
  from snoc.prems obtain q1 where q1: "monitor (pipeline_order cv) (Loading 0) tr = Some q1"
    and step: "pipeline_order cv q1 ev = Some q"
    by (auto simp: monitor_snoc split: option.splits)
  from snoc.IH [OF q1] order_step_loads [OF step] show ?case by simp
qed

lemma order_step_cycle:
  assumes "pipeline_order cv q ev = Some (Cycle c st n)"
  shows "(\<exists>X y. ev = Fit c X y \<and> st = Fitted)
       \<or> (\<exists>st'. q = Cycle c st' n \<and> behind st' \<le> behind st
            \<and> (behind st' < 2 \<and> 2 \<le> behind st \<longrightarrow> (\<exists>X. ev = Predict c X))
            \<and> (behind st' < 3 \<and> 3 \<le> behind st \<longrightarrow> (\<exists>X. ev = PredictProba c X)))"
proof (cases q)
  case (Loading k)
  with assms show ?thesis
    by (cases ev) (auto simp: pipeline_order_def during_def advance_def split: if_splits)
next
  case (Done m)
  with assms show ?thesis
    by (cases ev) (auto simp: pipeline_order_def during_def advance_def split: if_splits)
next
  case (Cycle c' st' n')
  with assms show ?thesis
    by (cases ev; cases st')
      (auto simp: pipeline_order_def during_def advance_def split: if_splits)
qed

lemma order_fitted:
  "monitor (pipeline_order cv) (Loading 0) pre = Some (Cycle c st n) \<Longrightarrow>
     (\<exists>X y. Fit c X y \<in> set pre) \<and> (2 \<le> behind st \<longrightarrow> (\<exists>X. Predict c X \<in> set pre))
     \<and> (3 \<le> behind st \<longrightarrow> (\<exists>X. PredictProba c X \<in> set pre))"
proof (induction pre arbitrary: st rule: rev_induct)
  case Nil
  then show ?case by simp
next
  case (snoc ev pre)
  from snoc.prems obtain q where q: "monitor (pipeline_order cv) (Loading 0) pre = Some q"
    and step: "pipeline_order cv q ev = Some (Cycle c st n)"
    by (auto simp: monitor_snoc split: option.splits)
  from order_step_cycle [OF step] show ?case
  proof
    assume "\<exists>X y. ev = Fit c X y \<and> st = Fitted"
    then show ?thesis by auto
  next
    assume "\<exists>st'. q = Cycle c st' n \<and> behind st' \<le> behind st
            \<and> (behind st' < 2 \<and> 2 \<le> behind st \<longrightarrow> (\<exists>X. ev = Predict c X))
            \<and> (behind st' < 3 \<and> 3 \<le> behind st \<longrightarrow> (\<exists>X. ev = PredictProba c X))"
    then obtain st' where q': "q = Cycle c st' n" and le: "behind st' \<le> behind st"
      and p: "behind st' < 2 \<and> 2 \<le> behind st \<longrightarrow> (\<exists>X. ev = Predict c X)"
      and pp: "behind st' < 3 \<and> 3 \<le> behind st \<longrightarrow> (\<exists>X. ev = PredictProba c X)"
      by blast
    from snoc.IH [OF q [unfolded q']]
    have ih: "\<exists>X y. Fit c X y \<in> set pre" "2 \<le> behind st' \<longrightarrow> (\<exists>X. Predict c X \<in> set pre)"
      "3 \<le> behind st' \<longrightarrow> (\<exists>X. PredictProba c X \<in> set pre)"
      by blast+
    have "\<exists>X y. Fit c X y \<in> set (pre @ [ev])" using ih(1) by auto
    moreover have "\<exists>X. Predict c X \<in> set (pre @ [ev])" if "2 \<le> behind st"
    proof (cases "2 \<le> behind st'")
      case True
      with ih(2) show ?thesis by auto
    next
      case False
      with that p show ?thesis by auto
    qed
    moreover have "\<exists>X. PredictProba c X \<in> set (pre @ [ev])" if "3 \<le> behind st"
    proof (cases "3 \<le> behind st'")
      case True
      with ih(3) show ?thesis by auto
    next
      case False
      with that pp show ?thesis by auto
    qed
    ultimately show ?thesis by blast
  qed
qed

lemma order_query:
  assumes "pipeline_order cv q ev = Some q'" and "ev = Predict clf X \<or> ev = PredictProba clf X"
  shows "\<exists>st n. q = Cycle clf st n"
  using assms
  by (cases q) (auto simp: pipeline_order_def during_def advance_def split: if_splits)

lemma order_score:
  assumes "pipeline_order cv q ev = Some q'" and "scores ev"
  shows "\<exists>c st n. q = Cycle c st n \<and> 3 \<le> behind st"
proof (cases q)
  case (Loading k)
  with assms show ?thesis
    by (cases ev) (simp_all add: pipeline_order_def advance_def scores_def)
next
  case (Done n)
  with assms show ?thesis
    by (cases ev) (simp_all add: pipeline_order_def advance_def scores_def)
next
  case (Cycle c st n)
  with assms have "3 \<le> behind st"
    by (cases ev; cases st) (simp_all add: pipeline_order_def advance_def scores_def)
  with Cycle show ?thesis by simp
qed

lemma order_step_loaded:
  assumes "pipeline_order cv q ev = Some q'" and "\<forall>k. q \<noteq> Loading k"
  shows "\<not> loads ev \<and> (\<forall>k. q' \<noteq> Loading k)"
  using assms
  by (cases ev; cases q)
    (auto simp: pipeline_order_def during_def advance_def loads_def split: if_splits)

lemma order_loaded:
  "monitor (pipeline_order cv) q post \<noteq> None \<Longrightarrow> \<forall>k. q \<noteq> Loading k \<Longrightarrow>
     list_all (\<lambda>ev. \<not> loads ev) post"
proof (induction post arbitrary: q)
  case Nil
  then show ?case by simp
next
  case (Cons ev post)
  from Cons.prems(1) obtain q' where step: "pipeline_order cv q ev = Some q'"
    and rest: "monitor (pipeline_order cv) q' post \<noteq> None"
    by (auto split: option.splits)
  from order_step_loaded [OF step Cons.prems(2)] have "\<not> loads ev" "\<forall>k. q' \<noteq> Loading k"
    by simp_all
  with Cons.IH [OF rest] show ?case by simp
qed

text \<open>
  Claim C8. In every run of the boosting notebook, whatever the libraries compute, the
  monitor of the order accepts the trace, with cross-validation between two cycles.
  When the run returns, the monitor has seen four finished cycles: the trace has the
  twelve calls that locate and read the event tables, and its calls of \<^verbatim>\<open>fit\<close>,
  \<^verbatim>\<open>predict\<close>, \<^verbatim>\<open>predict_proba\<close>, \<^verbatim>\<open>roc_auc_score\<close>,
  \<^verbatim>\<open>roc_curve\<close> and of the ROC figure are these six, in this order, four times
  (the monitor has the accuracy between \<^verbatim>\<open>predict_proba\<close> and
  \<^verbatim>\<open>roc_auc_score\<close>). In every run, returning or not: before each
  \<^verbatim>\<open>predict\<close> or \<^verbatim>\<open>predict_proba\<close> of a classifier there is a
  \<^verbatim>\<open>fit\<close> of that classifier; before each score and each ROC figure there are
  a \<^verbatim>\<open>fit\<close>, a \<^verbatim>\<open>predict\<close> and a \<^verbatim>\<open>predict_proba\<close> of one
  classifier; before each \<^verbatim>\<open>fit\<close> all twelve loading calls were made, and
  after it none; before each \<^verbatim>\<open>cross_validate\<close> the cycles are complete.
\<close>

theorem load_fit_predict_score:
  "monitor (pipeline_order True) (Loading 0) (boosting_trace nb tables frames series sk w) \<noteq> None
   \<and> (boosting_outcome nb tables frames series sk w = Inr () \<longrightarrow>
         monitor (pipeline_order True) (Loading 0) (boosting_trace nb tables frames series sk w) = Some (Done 4)
         \<and> cycle_names (boosting_trace nb tables frames series sk w) = concat (replicate 4 cycle_calls)
         \<and> length (filter loads (boosting_trace nb tables frames series sk w)) = loading_calls)
   \<and> (\<forall>pre clf X post.
         boosting_trace nb tables frames series sk w = pre @ Predict clf X # post
         \<or> boosting_trace nb tables frames series sk w = pre @ PredictProba clf X # post
         \<longrightarrow> (\<exists>X' y'. Fit clf X' y' \<in> set pre))
   \<and> (\<forall>pre ev post.
         boosting_trace nb tables frames series sk w = pre @ ev # post \<and> scores ev
         \<longrightarrow> (\<exists>clf X' y' X1 X2. Fit clf X' y' \<in> set pre \<and> Predict clf X1 \<in> set pre
                \<and> PredictProba clf X2 \<in> set pre))
   \<and> (\<forall>pre clf X y post.
         boosting_trace nb tables frames series sk w = pre @ Fit clf X y # post
         \<longrightarrow> length (filter loads pre) = loading_calls \<and> list_all (\<lambda>ev. \<not> loads ev) post)
   \<and> (\<forall>pre clf X y post.
         boosting_trace nb tables frames series sk w = pre @ CrossValidate clf X y # post
         \<longrightarrow> (\<exists>n. cycle_names pre = concat (replicate n cycle_calls)))"
proof -
  let ?tr = "boosting_trace nb tables frames series sk w"
  let ?run = "boosting_notebook (observed_notebook nb) (observed_tables tables) (observed_frames frames)
       (observed_series series) (observed_sklearn sk)"
  obtain r w1 where run: "?run (w, []) = (r, (w1, ?tr))"
    unfolding boosting_trace_def by (metis prod.collapse)
  have start: "monitor (pipeline_order True) (Loading 0) [] = Some (Loading 0)" by simp
  have accepted: "monitor (pipeline_order True) (Loading 0) ?tr \<noteq> None"
  proof (cases r)
    case (Inl e)
    with run have "?run (w, []) = (Inl e, (w1, ?tr))" by simp
    with boosting_reaches start show ?thesis by (rule reaches_raised)
  next
    case (Inr a)
    with run have "?run (w, []) = (Inr a, (w1, ?tr))" by simp
    with boosting_reaches start have "monitor (pipeline_order True) (Loading 0) ?tr = Some (Done 4)"
      by (rule reaches_returned)
    then show ?thesis by simp
  qed
  have returned: "monitor (pipeline_order True) (Loading 0) ?tr = Some (Done 4)
      \<and> cycle_names ?tr = concat (replicate 4 cycle_calls)
      \<and> length (filter loads ?tr) = loading_calls"
    if "boosting_outcome nb tables frames series sk w = Inr ()"
  proof -
    from that run have "?run (w, []) = (Inr (), (w1, ?tr))"
      unfolding boosting_outcome_def by simp
    with boosting_reaches start
    have final: "monitor (pipeline_order True) (Loading 0) ?tr = Some (Done 4)"
      by (rule reaches_returned)
    from order_names [OF final] order_loads [OF final] final show ?thesis
      by (simp add: names_so_far_def)
  qed
  have queried: "\<exists>X' y'. Fit clf X' y' \<in> set pre"
    if "?tr = pre @ Predict clf X # post \<or> ?tr = pre @ PredictProba clf X # post" for pre clf X post
  proof -
    from that obtain ev where tr: "?tr = pre @ ev # post" and ev: "ev = Predict clf X \<or> ev = PredictProba clf X"
      by blast
    from accepted [unfolded tr] obtain q q' where q: "monitor (pipeline_order True) (Loading 0) pre = Some q"
      and step: "(pipeline_order True) q ev = Some q'"
      by (rule monitor_at)
    from order_query [OF step ev] obtain st n where "q = Cycle clf st n"
      by blast
    with order_fitted [of True pre clf st n] q show ?thesis by blast
  qed
  have scored: "\<exists>clf X' y' X1 X2. Fit clf X' y' \<in> set pre \<and> Predict clf X1 \<in> set pre
      \<and> PredictProba clf X2 \<in> set pre"
    if "?tr = pre @ ev # post \<and> scores ev" for pre ev post
  proof -
    from that have tr: "?tr = pre @ ev # post" and ev: "scores ev" by simp_all
    from accepted [unfolded tr] obtain q q' where q: "monitor (pipeline_order True) (Loading 0) pre = Some q"
      and step: "(pipeline_order True) q ev = Some q'"
      by (rule monitor_at)
    from order_score [OF step ev] obtain c st n where "q = Cycle c st n" and "3 \<le> behind st"
      by blast
    with order_fitted [of True pre c st n] q show ?thesis by fastforce
  qed
  have loaded: "length (filter loads pre) = loading_calls \<and> list_all (\<lambda>ev. \<not> loads ev) post"
    if tr: "?tr = pre @ Fit clf X y # post" for pre clf X y post
  proof -
    from accepted [unfolded tr] obtain q q' where q: "monitor (pipeline_order True) (Loading 0) pre = Some q"
      and step: "(pipeline_order True) q (Fit clf X y) = Some q'"
      and rest: "monitor (pipeline_order True) q' post \<noteq> None"
      by (rule monitor_at)
    from step have before: "(case q of Loading k \<Rightarrow> k | _ \<Rightarrow> loading_calls) = loading_calls"
      by (cases q) (auto simp: pipeline_order_def split: if_splits)
    from step have "\<forall>k. q' \<noteq> Loading k"
      by (cases q) (auto simp: pipeline_order_def split: if_splits)
    with rest have "list_all (\<lambda>ev. \<not> loads ev) post" by (rule order_loaded)
    with order_loads [OF q] before show ?thesis by simp
  qed
  have crossed: "\<exists>n. cycle_names pre = concat (replicate n cycle_calls)"
    if tr: "?tr = pre @ CrossValidate clf X y # post" for pre clf X y post
  proof -
    from accepted [unfolded tr] obtain q q' where q: "monitor (pipeline_order True) (Loading 0) pre = Some q"
      and step: "(pipeline_order True) q (CrossValidate clf X y) = Some q'"
      by (rule monitor_at)
    from step obtain n where "q = Done n"
      by (cases q) (auto simp: pipeline_order_def split: if_splits)
    with order_names [OF q] show ?thesis by (auto simp: names_so_far_def)
  qed
  show ?thesis
  proof (intro conjI allI impI)
    show "monitor (pipeline_order True) (Loading 0) ?tr \<noteq> None" by (rule accepted)
  next
    assume "boosting_outcome nb tables frames series sk w = Inr ()"
    from returned [OF this] show "monitor (pipeline_order True) (Loading 0) ?tr = Some (Done 4)" by simp
  next
    assume "boosting_outcome nb tables frames series sk w = Inr ()"
    from returned [OF this] show "cycle_names ?tr = concat (replicate 4 cycle_calls)" by simp
  next
    assume "boosting_outcome nb tables frames series sk w = Inr ()"
    from returned [OF this] show "length (filter loads ?tr) = loading_calls" by simp
  next
    fix pre clf X post
    assume "?tr = pre @ Predict clf X # post \<or> ?tr = pre @ PredictProba clf X # post"
    then show "\<exists>X' y'. Fit clf X' y' \<in> set pre" by (rule queried)
  next
    fix pre ev post
    assume "?tr = pre @ ev # post \<and> scores ev"
    then show "\<exists>clf X' y' X1 X2. Fit clf X' y' \<in> set pre \<and> Predict clf X1 \<in> set pre
      \<and> PredictProba clf X2 \<in> set pre"
      by (rule scored)
  next
    fix pre clf X y post
    assume "?tr = pre @ Fit clf X y # post"
    from loaded [OF this] show "length (filter loads pre) = loading_calls" by simp
  next
    fix pre clf X y post
    assume "?tr = pre @ Fit clf X y # post"
    from loaded [OF this] show "list_all (\<lambda>ev. \<not> loads ev) post" by simp
  next
    fix pre clf X y post
    assume "?tr = pre @ CrossValidate clf X y # post"
    then show "\<exists>n. cycle_names pre = concat (replicate n cycle_calls)" by (rule crossed)
  qed
qed

text \<open>
  The run on two tables of two events each returns. It is cut at the first
  \<^verbatim>\<open>predict\<close>, at the first ROC figure, at the first \<^verbatim>\<open>fit\<close> and
  at the cross-validation.
\<close>

theorem load_fit_predict_score_witness:
  "boosting_outcome plain_notebook plain_tables (pandas np_kind constant_std Float64) plain_series
      plain_sklearn 0 = Inr ()
   \<and> monitor (pipeline_order True) (Loading 0) plain_trace = Some (Done 4)
   \<and> cycle_names plain_trace = concat (replicate 4 cycle_calls)
   \<and> length (filter loads plain_trace) = loading_calls
   \<and> plain_trace = takeWhile (\<lambda>ev. ev \<noteq> Predict 0 first_three) plain_trace
        @ Predict 0 first_three # tl (dropWhile (\<lambda>ev. ev \<noteq> Predict 0 first_three) plain_trace)
   \<and> (\<exists>X' y'. Fit 0 X' y' \<in> set (takeWhile (\<lambda>ev. ev \<noteq> Predict 0 first_three) plain_trace))
   \<and> plain_trace = takeWhile (\<lambda>ev. ev \<noteq> PlotRoc) plain_trace
        @ PlotRoc # tl (dropWhile (\<lambda>ev. ev \<noteq> PlotRoc) plain_trace)
   \<and> scores (PlotRoc :: ((dtype, int) frame, int list, nat) event)
   \<and> (\<exists>clf X' y' X1 X2. Fit clf X' y' \<in> set (takeWhile (\<lambda>ev. ev \<noteq> PlotRoc) plain_trace)
         \<and> Predict clf X1 \<in> set (takeWhile (\<lambda>ev. ev \<noteq> PlotRoc) plain_trace)
         \<and> PredictProba clf X2 \<in> set (takeWhile (\<lambda>ev. ev \<noteq> PlotRoc) plain_trace))
   \<and> plain_trace = takeWhile (\<lambda>ev. ev \<noteq> Fit 0 last_quarter [0]) plain_trace
        @ Fit 0 last_quarter [0] # tl (dropWhile (\<lambda>ev. ev \<noteq> Fit 0 last_quarter [0]) plain_trace)
   \<and> length (filter loads (takeWhile (\<lambda>ev. ev \<noteq> Fit 0 last_quarter [0]) plain_trace)) = loading_calls
   \<and> list_all (\<lambda>ev. \<not> loads ev) (tl (dropWhile (\<lambda>ev. ev \<noteq> Fit 0 last_quarter [0]) plain_trace))
   \<and> plain_trace = takeWhile (\<lambda>ev. ev \<noteq> CrossValidate 1 both_tables [1, 1, 0, 0]) plain_trace
        @ CrossValidate 1 both_tables [1, 1, 0, 0]
        # tl (dropWhile (\<lambda>ev. ev \<noteq> CrossValidate 1 both_tables [1, 1, 0, 0]) plain_trace)
   \<and> (\<exists>n. cycle_names (takeWhile (\<lambda>ev. ev \<noteq> CrossValidate 1 both_tables [1, 1, 0, 0]) plain_trace)
          = concat (replicate n cycle_calls))"
proof -
  have crossed: "plain_trace = takeWhile (\<lambda>ev. ev \<noteq> CrossValidate 1 both_tables [1, 1, 0, 0]) plain_trace
        @ CrossValidate 1 both_tables [1, 1, 0, 0]
        # tl (dropWhile (\<lambda>ev. ev \<noteq> CrossValidate 1 both_tables [1, 1, 0, 0]) plain_trace)"
    by code_simp
  have returns: "boosting_outcome plain_notebook plain_tables (pandas np_kind constant_std Float64)
      plain_series plain_sklearn 0 = Inr ()"
    by code_simp
  have predict: "plain_trace = takeWhile (\<lambda>ev. ev \<noteq> Predict 0 first_three) plain_trace
        @ Predict 0 first_three # tl (dropWhile (\<lambda>ev. ev \<noteq> Predict 0 first_three) plain_trace)"
    by code_simp
  have figure: "plain_trace = takeWhile (\<lambda>ev. ev \<noteq> PlotRoc) plain_trace
        @ PlotRoc # tl (dropWhile (\<lambda>ev. ev \<noteq> PlotRoc) plain_trace)"
    by code_simp
  have score: "plain_trace = takeWhile (\<lambda>ev. ev \<noteq> PlotRoc) plain_trace
        @ PlotRoc # tl (dropWhile (\<lambda>ev. ev \<noteq> PlotRoc) plain_trace)
      \<and> scores (PlotRoc :: ((dtype, int) frame, int list, nat) event)"
    using figure by (simp add: scores_def)
  have fitted: "plain_trace = takeWhile (\<lambda>ev. ev \<noteq> Fit 0 last_quarter [0]) plain_trace
        @ Fit 0 last_quarter [0] # tl (dropWhile (\<lambda>ev. ev \<noteq> Fit 0 last_quarter [0]) plain_trace)"
    by code_simp
  note order = load_fit_predict_score [of plain_notebook plain_tables
      "pandas np_kind constant_std Float64" plain_series plain_sklearn 0, unfolded plain_trace_def [symmetric]]
  from order returns have "monitor (pipeline_order True) (Loading 0) plain_trace = Some (Done 4)
         \<and> cycle_names plain_trace = concat (replicate 4 cycle_calls)
         \<and> length (filter loads plain_trace) = loading_calls"
    by blast
  moreover from order have "\<forall>pre clf X post.
         plain_trace = pre @ Predict clf X # post \<or> plain_trace = pre @ PredictProba clf X # post
         \<longrightarrow> (\<exists>X' y'. Fit clf X' y' \<in> set pre)"
    by (elim conjE)
  with predict have "\<exists>X' y'. Fit 0 X' y' \<in> set (takeWhile (\<lambda>ev. ev \<noteq> Predict 0 first_three) plain_trace)"
    by blast
  moreover from order have "\<forall>pre ev post.
         plain_trace = pre @ ev # post \<and> scores ev
         \<longrightarrow> (\<exists>clf X' y' X1 X2. Fit clf X' y' \<in> set pre \<and> Predict clf X1 \<in> set pre
                \<and> PredictProba clf X2 \<in> set pre)"
    by (elim conjE)
  with score have "\<exists>clf X' y' X1 X2. Fit clf X' y' \<in> set (takeWhile (\<lambda>ev. ev \<noteq> PlotRoc) plain_trace)
         \<and> Predict clf X1 \<in> set (takeWhile (\<lambda>ev. ev \<noteq> PlotRoc) plain_trace)
         \<and> PredictProba clf X2 \<in> set (takeWhile (\<lambda>ev. ev \<noteq> PlotRoc) plain_trace)"
    by blast
  moreover from order have "\<forall>pre clf X y post.
         plain_trace = pre @ Fit clf X y # post
         \<longrightarrow> length (filter loads pre) = loading_calls \<and> list_all (\<lambda>ev. \<not> loads ev) post"
    by (elim conjE)
  with fitted have "length (filter loads (takeWhile (\<lambda>ev. ev \<noteq> Fit 0 last_quarter [0]) plain_trace)) = loading_calls
      \<and> list_all (\<lambda>ev. \<not> loads ev) (tl (dropWhile (\<lambda>ev. ev \<noteq> Fit 0 last_quarter [0]) plain_trace))"
    by blast
  moreover from order have "\<forall>pre clf X y post.
         plain_trace = pre @ CrossValidate clf X y # post
         \<longrightarrow> (\<exists>n. cycle_names pre = concat (replicate n cycle_calls))"
    by (elim conjE)
  with crossed have "\<exists>n. cycle_names (takeWhile (\<lambda>ev. ev \<noteq> CrossValidate 1 both_tables [1, 1, 0, 0]) plain_trace)
          = concat (replicate n cycle_calls)"
    by blast
  ultimately show ?thesis using returns predict score fitted crossed by (intro conjI) simp_all
qed

text \<open>
  The notebook does not keep to the one order of the claim: in the same run the tree of
  depth 12, the classifier 1, is given to \<^verbatim>\<open>cross_validate\<close>, which computes
  its accuracy, ROC AUC and recall, and no \<^verbatim>\<open>fit\<close>, \<^verbatim>\<open>predict\<close> or
  \<^verbatim>\<open>predict_proba\<close> is ever called on it. The monitor without
  cross-validation rejects the trace.
\<close>

theorem one_fixed_order_counterexample:
  "monitor (pipeline_order False) (Loading 0) plain_trace = None
   \<and> New (DecisionTreeClassifier 12 (Some ''entropy'')) \<in> set plain_trace
   \<and> CrossValidate 1 both_tables [1, 1, 0, 0] \<in> set plain_trace
   \<and> \<not> list_ex (concerns 1) plain_trace"
proof -
  have "monitor (pipeline_order False) (Loading 0) plain_trace = None" by code_simp
  moreover have "New (DecisionTreeClassifier 12 (Some ''entropy'')) \<in> set plain_trace" by code_simp
  moreover have "CrossValidate 1 both_tables [1, 1, 0, 0] \<in> set plain_trace" by code_simp
  moreover have "\<not> list_ex (concerns 1) plain_trace" by code_simp
  ultimately show ?thesis by (intro conjI)
qed

section \<open>What the notebooks fetch\<close>

lemma safe_then_located:
  assumes "name \<in> set event_files" and "\<And>path. safe (resources page) q0 (path # q) (f path)"
  shows "safe (resources page) q0 q (then_py (traced_result (located name) call) f)"
proof (rule safe_then_result)
  fix e
  from assms(1) show "resources page q (located name (Inl e) :: ('a, 'b, 'c) event) \<noteq> None"
    by (simp add: resources_def located_def)
next
  fix a w w1
  from assms(1) have "resources page q (located name (Inr a) :: ('a, 'b, 'c) event) = Some (a # q)"
    by (simp add: resources_def located_def)
  with assms(2) [of a]
  show "\<exists>q'. resources page q (located name (Inr a) :: ('a, 'b, 'c) event) = Some q'
      \<and> safe (resources page) q0 q' (f a)"
    by simp
qed

lemma classifiers_resources:
  "stays (resources page) q0 q
     (classifiers (observed_notebook nb) (observed_frames frames) (observed_sklearn sk) gammas X y a b c d)"
  unfolding classifiers_def roc_cells_def observed_notebook_calls observed_frames_calls
    observed_sklearn_calls then_traced_stages
  by (intro stays_then stays_traced stays_stages stays_ret) (simp_all add: resources_def)

lemma boosting_resources:
  "safe (resources True) [] []
     (boosting_notebook (observed_notebook nb) (observed_tables tables) (observed_frames frames)
        (observed_series series) (observed_sklearn sk))"
  unfolding boosting_notebook_def observed_notebook_calls observed_sklearn_calls observed_tables_calls
  apply (intro safe_then_located safe_then stays_traced stays_traced_result stays_clean_gammas
        stays_read_events stays_preprocess stays_feature_generation safe_pair
        stays_safe [OF classifiers_resources])
  apply (simp_all add: resources_def event_files_def event_video_def split_event_def)
  done

lemma torch_resources:
  "stays (resources True) [] []
     (torch_notebook (observed_notebook nb) (observed_vision vision) (observed_torch lib))"
  unfolding torch_notebook_def mnist_cells_def cifar10_cells_def convolutional_cells_def
    observed_notebook_calls observed_vision_calls Let_def
  apply (intro stays_then stays_traced stays_pair stays_training_cell stays_predictions stays_ret)
  apply (simp_all add: resources_def image_datasets_def)
  done

text \<open>
  Claim C7. In every run of the two notebooks, whatever the libraries compute, the
  code cells reach outside only for: the two files of simulated events, located with
  \<^verbatim>\<open>get_dataset_path\<close> and opened with \<^verbatim>\<open>TableLoader\<close> at the paths
  that were located; the torchvision data sets MNIST and CIFAR10; and, for the page
  itself, the script of the table of contents that the first cell of each notebook
  fetches with \<^verbatim>\<open>$.getScript\<close> and the video file of the HTML cell of the
  boosting notebook.
\<close>

theorem notebooks_fetch:
  "monitor (resources True) [] (boosting_trace nb tables frames series sk w) \<noteq> None
   \<and> monitor (resources True) []
        (torch_trace nb' vision lib w' :: (unit, unit, unit) event list) \<noteq> None"
proof
  show "monitor (resources True) [] (boosting_trace nb tables frames series sk w) \<noteq> None"
    unfolding boosting_trace_def
    by (rule safeD [OF boosting_resources]) simp
  show "monitor (resources True) []
        (torch_trace nb' vision lib w' :: (unit, unit, unit) event list) \<noteq> None"
    unfolding torch_trace_def
    by (rule safeD [OF stays_safe [OF torch_resources]]) simp
qed

text \<open>
  The run of the boosting notebook on two tables of two events each opens the file of
  the gamma events where it was located; the run of the torch notebook without a
  network gets as far as MNIST.
\<close>

theorem notebooks_fetch_witness:
  "monitor (resources True) [] plain_trace \<noteq> None
   \<and> monitor (resources True) [] offline_torch_trace \<noteq> None
   \<and> DatasetPath ''gamma_diffuse_dl2_train_small.dl2.h5''
        (Some ''/cache/gamma_diffuse_dl2_train_small.dl2.h5'') \<in> set plain_trace
   \<and> OpenTable ''/cache/gamma_diffuse_dl2_train_small.dl2.h5'' \<in> set plain_trace
   \<and> ImageDataset ''MNIST'' \<in> set offline_torch_trace"
proof -
  note fetch = notebooks_fetch [of plain_notebook plain_tables "pandas np_kind constant_std Float64"
      plain_series plain_sklearn 0 quiet_notebook offline_vision threshold_torch False,
      unfolded plain_trace_def [symmetric] offline_torch_trace_def [symmetric]]
  have "DatasetPath ''gamma_diffuse_dl2_train_small.dl2.h5''
        (Some ''/cache/gamma_diffuse_dl2_train_small.dl2.h5'') \<in> set plain_trace"
    by code_simp
  moreover have "OpenTable ''/cache/gamma_diffuse_dl2_train_small.dl2.h5'' \<in> set plain_trace"
    by code_simp
  moreover have "ImageDataset ''MNIST'' \<in> set offline_torch_trace"
    by code_simp
  ultimately show ?thesis using fetch by (intro conjI) simp_all
qed

text \<open>
  Without what the page fetches the monitor rejects both runs: the first call of each
  notebook fetches the script of the table of contents from
  \<^verbatim>\<open>kmahelona.github.io\<close>, and the boosting notebook shows the video file.
\<close>

theorem only_data_files_and_image_datasets_counterexample:
  "monitor (resources False) [] plain_trace = None
   \<and> hd plain_trace = Script toc_script
   \<and> Video event_video \<in> set plain_trace
   \<and> monitor (resources False) [] offline_torch_trace = None
   \<and> offline_torch_trace = [Script toc_script, Call, Call, Call, Call, ImageDataset ''MNIST'']"
proof -
  have "monitor (resources False) [] plain_trace = None" by code_simp
  moreover have "hd plain_trace = Script toc_script" by code_simp
  moreover have "Video event_video \<in> set plain_trace" by code_simp
  moreover have "monitor (resources False) [] offline_torch_trace = None" by code_simp
  moreover have "offline_torch_trace = [Script toc_script, Call, Call, Call, Call, ImageDataset ''MNIST'']"
    by code_simp
  ultimately show ?thesis by (intro conjI)
qed


end
